theory Spec2Isabelle
  imports Complex_Main
begin

section \<open>Arrays\<close>

text \<open>
  The components compute on numpy arrays of floats. One-dimensional arrays are lists of
  reals and two-dimensional arrays are lists of rows; floating-point rounding is not
  modelled, every operation is the exact real one.
\<close>

type_synonym vec = "real list"
type_synonym mat = "real list list"

text \<open>
  Elementwise operations on two arrays. The framework allocates the arrays of a component
  with their declared lengths, and the properties below are stated for arrays of these
  lengths; on arrays of different lengths, where numpy broadcasts or raises, the
  operations here stop at the end of the shorter one.
\<close>

definition vadd :: "vec \<Rightarrow> vec \<Rightarrow> vec" where
  "vadd a b = map2 (+) a b"

definition vsub :: "vec \<Rightarrow> vec \<Rightarrow> vec" where
  "vsub a b = map2 (-) a b"

definition vmul :: "vec \<Rightarrow> vec \<Rightarrow> vec" where
  "vmul a b = map2 (*) a b"

text \<open>An array times a scalar.\<close>

definition vscale :: "vec \<Rightarrow> real \<Rightarrow> vec" where
  "vscale a c = map (\<lambda>x. x * c) a"

text \<open>A scalar times an array.\<close>

definition smul :: "real \<Rightarrow> vec \<Rightarrow> vec" where
  "smul c a = map (\<lambda>x. c * x) a"

text \<open>
  Matrices: the zero matrix, the identity, a matrix times a scalar, and a matrix times a
  one-dimensional array, which numpy broadcasts along the rows (entry \<open>(i, j)\<close> is
  multiplied by entry \<open>j\<close> of the array).
\<close>

definition np_zeros :: "nat \<Rightarrow> vec" where
  "np_zeros n = replicate n 0"

definition np_zeros2 :: "nat \<Rightarrow> nat \<Rightarrow> mat" where
  "np_zeros2 r c = replicate r (replicate c 0)"

definition np_eye :: "nat \<Rightarrow> mat" where
  "np_eye n = map (\<lambda>i. map (\<lambda>j. if i = j then 1 else 0) [0..<n]) [0..<n]"

definition mscale :: "mat \<Rightarrow> real \<Rightarrow> mat" where
  "mscale M c = map (\<lambda>row. vscale row c) M"

definition mbcast :: "mat \<Rightarrow> vec \<Rightarrow> mat" where
  "mbcast M v = map (\<lambda>row. vmul row v) M"

definition mdiv :: "mat \<Rightarrow> real \<Rightarrow> mat" where
  "mdiv M c = map (\<lambda>row. map (\<lambda>x. x / c) row) M"

text \<open>A two-dimensional array of shape \<open>(r, c)\<close> has \<open>r\<close> rows of \<open>c\<close> entries.\<close>

definition has_shape :: "nat \<Rightarrow> nat \<Rightarrow> mat \<Rightarrow> bool" where
  "has_shape r c M \<longleftrightarrow> length M = r \<and> list_all (\<lambda>row. length row = c) M"

text \<open>Sums along the rows (a matrix times a vector of ones) and along axis 0.\<close>

definition row_sums :: "mat \<Rightarrow> vec" where
  "row_sums M = map sum_list M"

definition col_sums :: "mat \<Rightarrow> vec" where
  "col_sums M = (case M of [] \<Rightarrow> []
                 | row # _ \<Rightarrow> map (\<lambda>j. sum_list (map (\<lambda>r. r ! j) M)) [0..<length row])"

text \<open>The built-in \<^verbatim>\<open>sum\<close> of Python: it starts from 0 and adds the elements from the left.\<close>

definition py_sum :: "vec \<Rightarrow> real" where
  "py_sum xs = foldl (+) 0 xs"

section \<open>Errors and checked array access\<close>

text \<open>
  Every exception that the modelled code can raise is a value. The argument of
  \<open>ValueError\<close> is its message, the argument of \<open>KeyError\<close> the name that is not
  found, the argument of \<open>UnboundLocalError\<close> the name of the local variable that is
  read before it is assigned, the argument of \<open>AttributeError\<close> the name of the missing
  attribute, the argument of \<open>ZeroDivisionError\<close> its message.
\<close>

datatype py_error =
  ValueError string | IndexError | KeyError string | UnboundLocalError string
  | AttributeError string | ZeroDivisionError string

definition bind_err :: "py_error + 'a \<Rightarrow> ('a \<Rightarrow> py_error + 'b) \<Rightarrow> py_error + 'b" where
  "bind_err m f = (case m of Inl e \<Rightarrow> Inl e | Inr x \<Rightarrow> f x)"

text \<open>Reading and writing an array element; an index past the end raises.\<close>

definition getitem :: "'a list \<Rightarrow> nat \<Rightarrow> py_error + 'a" where
  "getitem xs i = (if i < length xs then Inr (xs ! i) else Inl IndexError)"

definition setitem :: "'a list \<Rightarrow> nat \<Rightarrow> 'a \<Rightarrow> py_error + 'a list" where
  "setitem xs i v = (if i < length xs then Inr (xs[i := v]) else Inl IndexError)"

text \<open>A \<^verbatim>\<open>for\<close> loop over a list of indices, whose body may raise.\<close>

fun for_each :: "nat list \<Rightarrow> (nat \<Rightarrow> 's \<Rightarrow> py_error + 's) \<Rightarrow> 's \<Rightarrow> py_error + 's" where
  "for_each [] body s = Inr s"
| "for_each (i # is) body s = bind_err (body i s) (for_each is body)"

text \<open>Writing one entry of a two-dimensional array.\<close>

definition setitem2 :: "mat \<Rightarrow> nat \<Rightarrow> nat \<Rightarrow> real \<Rightarrow> py_error + mat" where
  "setitem2 M r c v =
     bind_err (getitem M r) (\<lambda>row.
     bind_err (setitem row c v) (\<lambda>row.
     setitem M r row))"

text \<open>Indexing an array by a list of indices gives the selected elements in that order.\<close>

fun take_indices :: "'a list \<Rightarrow> nat list \<Rightarrow> py_error + 'a list" where
  "take_indices xs [] = Inr []"
| "take_indices xs (k # ks) =
     bind_err (getitem xs k) (\<lambda>x.
     bind_err (take_indices xs ks) (\<lambda>rest.
     Inr (x # rest)))"

section \<open>Jacobians\<close>

text \<open>
  The Jacobian returned by a linearize pass: a dictionary from pairs of an output name and
  an input name to blocks, which are one- or two-dimensional arrays.
\<close>

datatype ndarray = Array1 vec | Array2 mat

type_synonym jacobian = "(string \<times> string) \<rightharpoonup> ndarray"

section \<open>Names of direction-indexed signals\<close>

text \<open>The format \<^verbatim>\<open>%i\<close> applied to a non-negative integer: its decimal digits.\<close>

definition digit_char :: "nat \<Rightarrow> char" where
  "digit_char d = char_of (48 + d)"

fun string_of_nat :: "nat \<Rightarrow> string" where
  "string_of_nat n =
     (if n < 10 then [digit_char n] else string_of_nat (n div 10) @ [digit_char (n mod 10)])"

declare string_of_nat.simps [simp del]

section \<open>Declarations\<close>

text \<open>A declared parameter: its name and whether it is passed by object.\<close>

type_synonym param_decl = "string \<times> bool"

text \<open>
  The framework takes derivatives with respect to the parameters that are not passed by
  object.
\<close>

definition differentiable_params :: "param_decl list \<Rightarrow> string list" where
  "differentiable_params decls = map fst (filter (\<lambda>d. \<not> snd d) decls)"

section \<open>WindFrame\<close>

record WindFrame_params =
  wf_wind_speed :: real
  wf_wind_direction :: real
  wf_turbineX :: vec
  wf_turbineY :: vec
  wf_wsPositionX :: vec
  wf_wsPositionY :: vec

record WindFrame_unknowns =
  wf_turbineXw :: vec
  wf_turbineYw :: vec
  wf_wsPositionXw :: "vec option"
  wf_wsPositionYw :: "vec option"

text \<open>
  The meteorological direction is turned into the standard one, wrapped once when
  negative, and converted to radians.
\<close>

definition windDirectionRad :: "real \<Rightarrow> real" where
  "windDirectionRad wind_direction =
     (let windDirectionDeg = 270 - wind_direction;
          windDirectionDeg = (if windDirectionDeg < 0 then windDirectionDeg + 360
                              else windDirectionDeg)
      in pi * windDirectionDeg / 180)"

definition WindFrame_solve_nonlinear :: "nat \<Rightarrow> WindFrame_params \<Rightarrow> WindFrame_unknowns" where
  "WindFrame_solve_nonlinear nSamples params =
     (let r = windDirectionRad (wf_wind_direction params);
          turbineX = wf_turbineX params;
          turbineY = wf_turbineY params;
          velX = wf_wsPositionX params;
          velY = wf_wsPositionY params
      in \<lparr> wf_turbineXw = vsub (vscale turbineX (cos (- r))) (vscale turbineY (sin (- r))),
           wf_turbineYw = vadd (vscale turbineX (sin (- r))) (vscale turbineY (cos (- r))),
           wf_wsPositionXw =
             (if nSamples > 0
              then Some (vsub (vscale velX (cos (- r))) (vscale velY (sin (- r))))
              else None),
           wf_wsPositionYw =
             (if nSamples > 0
              then Some (vadd (vscale velX (sin (- r))) (vscale velY (cos (- r))))
              else None) \<rparr>)"

text \<open>
  The declarations of the constructor. The positions of the samples are declared for a
  positive number of samples only; their keyword \<open>pass_by_object\<close> is not the keyword
  \<open>pass_by_obj\<close> of the framework.
\<close>

definition WindFrame_declared_params :: "nat \<Rightarrow> param_decl list" where
  "WindFrame_declared_params nSamples =
     [(''wind_speed'', False), (''wind_direction'', False),
      (''turbineX'', False), (''turbineY'', False)]
     @ (if nSamples > 0
        then [(''wsPositionX'', False), (''wsPositionY'', False), (''wPositionZ'', False)]
        else [])"

definition WindFrame_declared_outputs :: "nat \<Rightarrow> string list" where
  "WindFrame_declared_outputs nSamples =
     [''turbineXw'', ''turbineYw'']
     @ (if nSamples > 0 then [''wsPositionXw'', ''wsPositionYw''] else [])"

definition WindFrame_linearize :: "nat \<Rightarrow> WindFrame_params \<Rightarrow> jacobian" where
  "WindFrame_linearize nTurbines params =
     (let r = windDirectionRad (wf_wind_direction params);
          dturbineXw_dturbineX = mscale (np_eye nTurbines) (cos (- r));
          dturbineXw_dturbineY = mscale (np_eye nTurbines) (- sin (- r));
          dturbineYw_dturbineX = mscale (np_eye nTurbines) (sin (- r));
          dturbineYw_dturbineY = mscale (np_eye nTurbines) (cos (- r));
          J = Map.empty;
          J = J((''turbineXw'', ''turbineX'') \<mapsto> Array2 dturbineXw_dturbineX);
          J = J((''turbineXw'', ''turbineY'') \<mapsto> Array2 dturbineXw_dturbineY);
          J = J((''turbineYw'', ''turbineX'') \<mapsto> Array2 dturbineYw_dturbineX);
          J = J((''turbineYw'', ''turbineY'') \<mapsto> Array2 dturbineYw_dturbineY)
      in J)"

section \<open>AdjustCtCpYaw\<close>

record AdjustCtCpYaw_params =
  adj_Ct_in :: vec
  adj_Cp_in :: vec
  adj_yaw :: vec
  adj_pP :: real
  adj_CTcorrected :: bool
  adj_CPcorrected :: bool

definition AdjustCtCpYaw_declared_params :: "nat \<Rightarrow> param_decl list" where
  "AdjustCtCpYaw_declared_params direction_id =
     [(''Ct_in'', False), (''Cp_in'', False),
      (''yaw'' @ string_of_nat direction_id, False),
      (''gen_params:pP'', True), (''gen_params:CTcorrected'', True),
      (''gen_params:CPcorrected'', True)]"

definition AdjustCtCpYaw_declared_outputs :: "string list" where
  "AdjustCtCpYaw_declared_outputs = [''Ct_out'', ''Cp_out'']"

definition AdjustCtCpYaw_linearize :: "nat \<Rightarrow> AdjustCtCpYaw_params \<Rightarrow> jacobian" where
  "AdjustCtCpYaw_linearize direction_id params =
     (let Ct = adj_Ct_in params;
          Cp = adj_Cp_in params;
          nTurbines = length Ct;
          yaw = map (\<lambda>y. y * pi / 180) (adj_yaw params);
          pP = adj_pP params;
          yaw_name = ''yaw'' @ string_of_nat direction_id;
          J = Map.empty;
          J = (if \<not> adj_CTcorrected params
               then let J = J((''Ct_out'', ''Ct_in'') \<mapsto>
                              Array2 (mbcast (mbcast (np_eye nTurbines) (map cos yaw)) (map cos yaw)));
                        J = J((''Ct_out'', ''Cp_in'') \<mapsto> Array2 (np_zeros2 nTurbines nTurbines));
                        J = J((''Ct_out'', yaw_name) \<mapsto>
                              Array2 (mdiv (mscale (mbcast (mbcast (np_eye nTurbines) Ct)
                                               (map (\<lambda>y. - 2 * sin y * cos y) yaw)) pi) 180))
                    in J
               else let J = J((''Ct_out'', ''Ct_in'') \<mapsto> Array2 (np_eye nTurbines));
                        J = J((''Ct_out'', ''Cp_in'') \<mapsto> Array2 (np_zeros2 nTurbines nTurbines));
                        J = J((''Ct_out'', yaw_name) \<mapsto> Array2 (np_zeros2 nTurbines nTurbines))
                    in J);
          J = (if \<not> adj_CPcorrected params
               then let J = J((''Cp_out'', ''Cp_in'') \<mapsto>
                              Array2 (mbcast (np_eye nTurbines) (map (\<lambda>y. cos y powr pP) yaw)));
                        J = J((''Cp_out'', ''Ct_in'') \<mapsto> Array2 (np_zeros2 nTurbines nTurbines));
                        J = J((''Cp_out'', yaw_name) \<mapsto>
                              Array2 (mdiv (mscale (mbcast (np_eye nTurbines)
                                               (vmul (vmul (vscale (map uminus Cp) pP) (map sin yaw))
                                                  (map (\<lambda>y. cos y powr (pP - 1)) yaw))) pi) 180))
                    in J
               else let J = J((''Cp_out'', ''Cp_in'') \<mapsto> Array2 (np_eye nTurbines));
                        J = J((''Cp_out'', ''Ct_in'') \<mapsto> Array2 (np_zeros2 nTurbines nTurbines));
                        J = J((''Cp_out'', yaw_name) \<mapsto> Array2 (np_zeros2 nTurbines nTurbines))
                    in J)
      in J)"

section \<open>WindFarmAEP\<close>

record WindFarmAEP_params =
  aep_dirPowers :: vec
  aep_windFrequencies :: vec
  aep_AEP_method :: string

text \<open>
  The output of the forward pass is a float, which besides a real value can be an
  infinity or not a number: the logarithm of zero is minus infinity, that of a negative
  number is not a number, and a numpy float zero to the power -1 is infinity. (The sign of
  a floating-point zero is not modelled.)
\<close>

datatype float_value = Finite real | PosInf | NegInf | NaN

definition np_log :: "real \<Rightarrow> float_value" where
  "np_log x = (if 0 < x then Finite (ln x) else if x = 0 then NegInf else NaN)"

text \<open>
  The forward pass. The summed energy is transformed by the selected method; any other
  method string raises. The built-in sum of an empty array is the integer 0, so for
  empty arrays the energy is a Python float, whose power -1 raises instead of giving
  infinity. When \<open>rec_func_calls\<close> is set, the call counter of this process (the entry
  \<open>rank\<close> of the shared array \<open>obj_func_calls_array\<close>) is incremented after the output
  is written; the function returns the output together with the array of counters.
\<close>

definition WindFarmAEP_solve_nonlinear ::
  "bool \<Rightarrow> nat \<Rightarrow> WindFarmAEP_params \<Rightarrow> nat list \<Rightarrow> py_error + (float_value \<times> nat list)" where
  \<open>WindFarmAEP_solve_nonlinear rec_func_calls rank params obj_func_calls_array =
     (let dirPowers = aep_dirPowers params;
          windFrequencies = aep_windFrequencies params;
          AEP_method = aep_AEP_method params;
          hours = 8760;
          products = vmul dirPowers windFrequencies;
          AEP = py_sum products * hours
      in bind_err
           (if AEP_method = ''none'' then Inr (Finite AEP)
            else if AEP_method = ''log'' then Inr (np_log AEP)
            else if AEP_method = ''inverse''
            then (if AEP \<noteq> 0 then Inr (Finite (power_int AEP (- 1)))
                  else if products = []
                  then Inl (ZeroDivisionError ''0.0 cannot be raised to a negative power'')
                  else Inr PosInf)
            else Inl (ValueError ''AEP_method must be one of ["none","log","inverse"]''))
           (\<lambda>unknowns_AEP.
              if rec_func_calls
              then bind_err (getitem obj_func_calls_array rank) (\<lambda>c.
                   bind_err (setitem obj_func_calls_array rank (c + 1)) (\<lambda>calls.
                   Inr (unknowns_AEP, calls)))
              else Inr (unknowns_AEP, obj_func_calls_array)))\<close>

text \<open>
  The declarations of the constructor. The method is a string, which the framework passes
  by object.
\<close>

definition WindFarmAEP_declared_params :: "param_decl list" where
  "WindFarmAEP_declared_params =
     [(''dirPowers'', False), (''windFrequencies'', False), (''gen_params:AEP_method'', True)]"

definition WindFarmAEP_declared_outputs :: "string list" where
  "WindFarmAEP_declared_outputs = [''AEP'']"

text \<open>
  The linearize pass gives one block, the derivative of the output with respect to the
  direction powers, and increments the counter of gradient calls when asked to.
\<close>

definition WindFarmAEP_linearize ::
  "bool \<Rightarrow> nat \<Rightarrow> WindFarmAEP_params \<Rightarrow> nat list \<Rightarrow> py_error + (jacobian \<times> nat list)" where
  \<open>WindFarmAEP_linearize rec_func_calls rank params sens_func_calls_array =
     (let AEP_method = aep_AEP_method params;
          windFrequencies = aep_windFrequencies params;
          dirPowers = aep_dirPowers params;
          nDirs = length windFrequencies;
          hours = 8760
      in bind_err
           (if AEP_method = ''none''
            then Inr (vscale (vmul (replicate nDirs 1) windFrequencies) hours)
            else if AEP_method = ''log'' then Inr (map inverse dirPowers)
            else if AEP_method = ''inverse''
            then Inr (map (\<lambda>x. - inverse x)
                        (vmul (smul hours windFrequencies) (map (\<lambda>p. p ^ 2) dirPowers)))
            else Inl (ValueError ''AEP_method must be one of ["none","log","inverse"]''))
           (\<lambda>dAEP_dpower.
              let J = Map.empty;
                  J = J((''AEP'', ''dirPowers'') \<mapsto> Array2 [dAEP_dpower])
              in if rec_func_calls
                 then bind_err (getitem sens_func_calls_array rank) (\<lambda>c.
                      bind_err (setitem sens_func_calls_array rank (c + 1)) (\<lambda>calls.
                      Inr (J, calls)))
                 else Inr (J, sens_func_calls_array)))\<close>

section \<open>Piecewise-linear interpolation\<close>

text \<open>
  \<^verbatim>\<open>numpy.interp\<close> at one point, for increasing sample points \<open>xp\<close> as numpy
  requires: the first value below the first sample point, the last value above the last
  one, and the line through the two neighbouring samples in between. An empty \<open>xp\<close> and
  arrays of different lengths raise.
\<close>

fun interp_segments :: "real \<Rightarrow> vec \<Rightarrow> vec \<Rightarrow> real" where
  "interp_segments x (x0 # x1 # xp) (f0 # f1 # fp) =
     (if x < x1 then (f1 - f0) / (x1 - x0) * (x - x0) + f0
      else interp_segments x (x1 # xp) (f1 # fp))"
| "interp_segments x [x0] (f0 # fp) = f0"
| "interp_segments x xp fp = 0"

definition interp_value :: "real \<Rightarrow> vec \<Rightarrow> vec \<Rightarrow> real" where
  "interp_value x xp fp =
     (if x < hd xp then hd fp
      else if last xp < x then last fp
      else interp_segments x xp fp)"

definition np_interp :: "real \<Rightarrow> vec \<Rightarrow> vec \<Rightarrow> py_error + real" where
  "np_interp x xp fp =
     (if xp = [] then Inl (ValueError ''array of sample points is empty'')
      else if length fp \<noteq> length xp
      then Inl (ValueError ''fp and xp are not of the same length.'')
      else Inr (interp_value x xp fp))"

text \<open>The same interpolation at every point of an array.\<close>

definition np_interp_array :: "vec \<Rightarrow> vec \<Rightarrow> vec \<Rightarrow> py_error + vec" where
  "np_interp_array x xp fp =
     (if xp = [] then Inl (ValueError ''array of sample points is empty'')
      else if length fp \<noteq> length xp
      then Inl (ValueError ''fp and xp are not of the same length.'')
      else Inr (map (\<lambda>x. interp_value x xp fp) x))"

section \<open>WindDirectionPower\<close>

text \<open>
  The optional spline of the Cp curve is an object of an external library; it is called
  on wind speeds and gives its derivative, another callable.
\<close>

record Spline =
  spline_call :: "real \<Rightarrow> real"
  spline_derivative :: "real \<Rightarrow> real"

record WindDirectionPower =
  wdp_nTurbines :: nat
  wdp_direction_id :: nat
  wdp_use_rotor_components :: bool
  wdp_cp_points :: nat
  wdp_cp_curve_spline :: "Spline option"

record WindDirectionPower_params =
  wdp_air_density :: real
  wdp_rotorDiameter :: vec
  wdp_Cp :: vec
  wdp_generatorEfficiency :: vec
  wdp_wtVelocity :: vec
  wdp_rated_power :: vec
  wdp_cut_in_speed :: vec
  wdp_cp_curve_cp :: vec
  wdp_cp_curve_wind_speed :: vec
  wdp_use_power_curve_definition :: bool
  wdp_rated_wind_speed :: vec
  wdp_cut_out_speed :: vec

record WindDirectionPower_unknowns =
  wdp_wtPower :: vec
  wdp_dir_power :: real

text \<open>
  The body of the loop of the power-curve mode, for turbine \<open>n\<close>: the cubic ramp between
  the cut-in and the rated wind speed, the rated power between the rated and the cut-out
  wind speed, and no assignment otherwise. The conditions are evaluated left to right and
  stop at the first false conjunct.
\<close>

definition power_curve_body :: "WindDirectionPower_params \<Rightarrow> nat \<Rightarrow> vec \<Rightarrow> py_error + vec" where
  "power_curve_body params n wtPower =
     bind_err (getitem (wdp_cut_in_speed params) n) (\<lambda>cut_in.
     bind_err (getitem (wdp_wtVelocity params) n) (\<lambda>v.
     bind_err (if cut_in \<le> v
               then bind_err (getitem (wdp_rated_wind_speed params) n) (\<lambda>rated_ws.
                    Inr (v < rated_ws))
               else Inr False) (\<lambda>on_ramp.
     if on_ramp
     then bind_err (getitem (wdp_rated_power params) n) (\<lambda>rated_power.
          bind_err (getitem (wdp_rated_wind_speed params) n) (\<lambda>rated_ws.
          setitem wtPower n (rated_power * ((v - cut_in) / (rated_ws - cut_in)) ^ 3)))
     else bind_err (getitem (wdp_rated_wind_speed params) n) (\<lambda>rated_ws.
          bind_err (if rated_ws \<le> v
                    then bind_err (getitem (wdp_cut_out_speed params) n) (\<lambda>cut_out.
                         Inr (v < cut_out))
                    else Inr False) (\<lambda>at_rated.
          if at_rated
          then bind_err (getitem (wdp_rated_power params) n) (\<lambda>rated_power.
               setitem wtPower n rated_power)
          else Inr wtPower)))))"

text \<open>
  The body of the table lookup of the coefficient mode: \<open>Cp\<close> is the array held by the
  parameters, and the interpolated coefficient is written into it.
\<close>

definition cp_interp_body :: "WindDirectionPower_params \<Rightarrow> nat \<Rightarrow> vec \<Rightarrow> py_error + vec" where
  "cp_interp_body params i Cp =
     bind_err (getitem (wdp_wtVelocity params) i) (\<lambda>v.
     bind_err (np_interp v (wdp_cp_curve_wind_speed params) (wdp_cp_curve_cp params)) (\<lambda>c.
     setitem Cp i c))"

definition rated_power_body :: "WindDirectionPower_params \<Rightarrow> nat \<Rightarrow> vec \<Rightarrow> py_error + vec" where
  "rated_power_body params i wtPower =
     bind_err (getitem wtPower i) (\<lambda>p.
     bind_err (getitem (wdp_rated_power params) i) (\<lambda>rated_power.
     if p \<ge> rated_power then setitem wtPower i rated_power else Inr wtPower))"

definition cut_in_body :: "WindDirectionPower_params \<Rightarrow> nat \<Rightarrow> vec \<Rightarrow> py_error + vec" where
  "cut_in_body params i wtPower =
     bind_err (getitem (wdp_wtVelocity params) i) (\<lambda>v.
     bind_err (getitem (wdp_cut_in_speed params) i) (\<lambda>cut_in.
     if v < cut_in then setitem wtPower i 0 else Inr wtPower))"

text \<open>
  The forward pass returns the parameters as the call leaves them, and the outputs.
\<close>

definition WindDirectionPower_solve_nonlinear ::
  "WindDirectionPower \<Rightarrow> WindDirectionPower_params \<Rightarrow>
     py_error + (WindDirectionPower_params \<times> WindDirectionPower_unknowns)" where
  "WindDirectionPower_solve_nonlinear self params =
     (let use_rotor_components = wdp_use_rotor_components self;
          nTurbines = wdp_nTurbines self;
          wtVelocity = wdp_wtVelocity params;
          air_density = wdp_air_density params;
          rotorArea = smul (0.25 * pi) (map (\<lambda>d. d ^ 2) (wdp_rotorDiameter params));
          generatorEfficiency = wdp_generatorEfficiency params
      in if wdp_use_power_curve_definition params
         then bind_err (for_each [0..<nTurbines] (power_curve_body params) (np_zeros nTurbines))
                (\<lambda>wtPower.
                 Inr (params, \<lparr> wdp_wtPower = wtPower, wdp_dir_power = sum_list wtPower \<rparr>))
         else bind_err
                (if wdp_cp_points self > 1
                 then (case wdp_cp_curve_spline self of
                         None \<Rightarrow>
                           bind_err (for_each [0..<nTurbines] (cp_interp_body params) (wdp_Cp params))
                             (\<lambda>Cp. Inr (params \<lparr> wdp_Cp := Cp \<rparr>, Cp))
                       | Some cp_curve_spline \<Rightarrow>
                           Inr (params, map (spline_call cp_curve_spline) wtVelocity))
                 else Inr (params, wdp_Cp params))
                (\<lambda>(params, Cp).
                 let wtPower = vmul generatorEfficiency
                                 (vmul (vmul (smul (0.5 * air_density) rotorArea) Cp)
                                    (map (\<lambda>v. v ^ 3) wtVelocity));
                     wtPower = map (\<lambda>p. p / 1000) wtPower
                 in bind_err
                      (if \<not> use_rotor_components
                       then for_each [0..<nTurbines] (rated_power_body params) wtPower
                       else Inr wtPower) (\<lambda>wtPower.
                    bind_err (for_each [0..<nTurbines] (cut_in_body params) wtPower) (\<lambda>wtPower.
                    Inr (params, \<lparr> wdp_wtPower = wtPower, wdp_dir_power = sum_list wtPower \<rparr>)))))"

definition WindDirectionPower_declared_params :: "nat \<Rightarrow> param_decl list" where
  "WindDirectionPower_declared_params direction_id =
     [(''air_density'', False), (''rotorDiameter'', False), (''Cp'', False),
      (''generatorEfficiency'', False),
      (''wtVelocity'' @ string_of_nat direction_id, False),
      (''rated_power'', True), (''cut_in_speed'', True), (''cp_curve_cp'', True),
      (''cp_curve_wind_speed'', True), (''use_power_curve_definition'', True),
      (''rated_wind_speed'', True), (''cut_out_speed'', True)]"

definition WindDirectionPower_declared_outputs :: "nat \<Rightarrow> string list" where
  "WindDirectionPower_declared_outputs direction_id =
     [''wtPower'' @ string_of_nat direction_id, ''dir_power'' @ string_of_nat direction_id]"

text \<open>
  The linearize pass, power-curve mode: the body of the loop writes the derivative of the
  ramp on the diagonal, and a zero at rated power.
\<close>

definition power_curve_deriv_body :: "WindDirectionPower_params \<Rightarrow> nat \<Rightarrow> mat \<Rightarrow> py_error + mat" where
  "power_curve_deriv_body params n dwtPower_dwtVelocity =
     bind_err (getitem (wdp_cut_in_speed params) n) (\<lambda>cut_in.
     bind_err (getitem (wdp_wtVelocity params) n) (\<lambda>v.
     bind_err (if cut_in \<le> v
               then bind_err (getitem (wdp_rated_wind_speed params) n) (\<lambda>rated_ws.
                    Inr (v < rated_ws))
               else Inr False) (\<lambda>on_ramp.
     if on_ramp
     then bind_err (getitem (wdp_rated_power params) n) (\<lambda>rated_power.
          bind_err (getitem (wdp_rated_wind_speed params) n) (\<lambda>rated_ws.
          setitem2 dwtPower_dwtVelocity n n
            ((3 * rated_power * ((v - cut_in) / (rated_ws - cut_in)) ^ 2)
             * (1 / (rated_ws - cut_in)))))
     else bind_err (getitem (wdp_rated_wind_speed params) n) (\<lambda>rated_ws.
          bind_err (if rated_ws \<le> v
                    then bind_err (getitem (wdp_cut_out_speed params) n) (\<lambda>cut_out.
                         Inr (v < cut_out))
                    else Inr False) (\<lambda>at_rated.
          if at_rated then setitem2 dwtPower_dwtVelocity n n 0
          else Inr dwtPower_dwtVelocity)))))"

text \<open>
  Coefficient mode: the table lookup writes the coefficient into the array of the
  parameters, as the forward pass does, and takes its derivative by a central difference.
\<close>

definition cp_deriv_body ::
  "WindDirectionPower_params \<Rightarrow> nat \<Rightarrow> vec \<times> vec \<Rightarrow> py_error + (vec \<times> vec)" where
  "cp_deriv_body params i state =
     (case state of (Cp, dCpdV) \<Rightarrow>
        bind_err (getitem (wdp_wtVelocity params) i) (\<lambda>v.
        bind_err (np_interp v (wdp_cp_curve_wind_speed params) (wdp_cp_curve_cp params)) (\<lambda>c.
        bind_err (setitem Cp i c) (\<lambda>Cp.
        let dv = 1 / 1000000
        in bind_err (np_interp (v + dv) (wdp_cp_curve_wind_speed params) (wdp_cp_curve_cp params))
             (\<lambda>high.
           bind_err (np_interp (v - dv) (wdp_cp_curve_wind_speed params) (wdp_cp_curve_cp params))
             (\<lambda>low.
           bind_err (setitem dCpdV i ((high - low) / (2 * dv))) (\<lambda>dCpdV.
           Inr (Cp, dCpdV))))))))"

text \<open>The loops that set the diagonal entries of the three blocks to zero.\<close>

definition zero_diagonals :: "nat \<Rightarrow> mat \<times> mat \<times> mat \<Rightarrow> py_error + (mat \<times> mat \<times> mat)" where
  "zero_diagonals i blocks =
     (case blocks of (dwtPower_dwtVelocity, dwtPower_dCp, dwtPower_drotorDiameter) \<Rightarrow>
        bind_err (setitem2 dwtPower_dwtVelocity i i 0) (\<lambda>dwtPower_dwtVelocity.
        bind_err (setitem2 dwtPower_dCp i i 0) (\<lambda>dwtPower_dCp.
        bind_err (setitem2 dwtPower_drotorDiameter i i 0) (\<lambda>dwtPower_drotorDiameter.
        Inr (dwtPower_dwtVelocity, dwtPower_dCp, dwtPower_drotorDiameter)))))"

definition rated_zero_body ::
  "WindDirectionPower_params \<Rightarrow> vec \<Rightarrow> nat \<Rightarrow> mat \<times> mat \<times> mat \<Rightarrow>
     py_error + (mat \<times> mat \<times> mat)" where
  "rated_zero_body params wtPower i blocks =
     bind_err (getitem wtPower i) (\<lambda>p.
     bind_err (getitem (wdp_rated_power params) i) (\<lambda>rated_power.
     if p \<ge> rated_power then zero_diagonals i blocks else Inr blocks))"

definition cut_in_zero_body ::
  "WindDirectionPower_params \<Rightarrow> nat \<Rightarrow> mat \<times> mat \<times> mat \<Rightarrow> py_error + (mat \<times> mat \<times> mat)" where
  "cut_in_zero_body params i blocks =
     bind_err (getitem (wdp_wtVelocity params) i) (\<lambda>v.
     bind_err (getitem (wdp_cut_in_speed params) i) (\<lambda>cut_in.
     if v < cut_in then zero_diagonals i blocks else Inr blocks))"

text \<open>
  Coefficient mode, first part: the coefficients and their derivatives with respect to the
  wind speed, from the table, from the spline, or the given coefficients with a zero
  derivative; with the parameters as this part leaves them.
\<close>

definition cp_and_derivative ::
  "WindDirectionPower \<Rightarrow> WindDirectionPower_params \<Rightarrow>
     py_error + (WindDirectionPower_params \<times> vec \<times> vec)" where
  "cp_and_derivative self params =
     (if wdp_cp_points self > 1 \<and> wdp_cp_curve_spline self = None
      then bind_err (for_each [0..<wdp_nTurbines self] (cp_deriv_body params)
                       (wdp_Cp params, np_zeros (length (wdp_Cp params))))
             (\<lambda>(Cp, dCpdV). Inr (params \<lparr> wdp_Cp := Cp \<rparr>, Cp, dCpdV))
      else (case wdp_cp_curve_spline self of
              Some cp_curve_spline \<Rightarrow>
                Inr (params, map (spline_call cp_curve_spline) (wdp_wtVelocity params),
                     map (spline_derivative cp_curve_spline) (wdp_wtVelocity params))
            | None \<Rightarrow>
                Inr (params, wdp_Cp params, np_zeros (length (wdp_Cp params)))))"

text \<open>
  Second part: the initial values of the three blocks of the turbine powers, with respect
  to the wind speed, the power coefficient and the rotor diameter, in kW.
\<close>

definition coefficient_blocks ::
  "WindDirectionPower \<Rightarrow> WindDirectionPower_params \<Rightarrow> vec \<Rightarrow> vec \<Rightarrow> mat \<times> mat \<times> mat" where
  "coefficient_blocks self params Cp dCpdV =
     (let nTurbines = wdp_nTurbines self;
          wtVelocity = wdp_wtVelocity params;
          air_density = wdp_air_density params;
          rotorDiameter = wdp_rotorDiameter params;
          rotorArea = smul (0.25 * pi) (map (\<lambda>d. d ^ 2) rotorDiameter);
          generatorEfficiency = wdp_generatorEfficiency params;
          dwtPower_dwtVelocity =
            mbcast (mbcast (mscale (mbcast (mscale (np_eye nTurbines) 0.5)
                                      generatorEfficiency) air_density) rotorArea)
              (vadd (vmul (smul 3 Cp) (map (\<lambda>v. v ^ 2) wtVelocity))
                 (vmul (map (\<lambda>v. v ^ 3) wtVelocity) dCpdV));
          dwtPower_dCp =
            mbcast (mbcast (np_eye nTurbines) generatorEfficiency)
              (vmul (smul (0.5 * air_density) rotorArea) (map (\<lambda>v. v ^ 3) wtVelocity));
          dwtPower_drotorDiameter =
            mbcast (mbcast (np_eye nTurbines) generatorEfficiency)
              (vmul (vmul (smul (0.5 * air_density) (smul (0.5 * pi) rotorDiameter)) Cp)
                 (map (\<lambda>v. v ^ 3) wtVelocity))
      in (mdiv dwtPower_dwtVelocity 1000, mdiv dwtPower_dCp 1000,
          mdiv dwtPower_drotorDiameter 1000))"

text \<open>
  The linearize pass reads the power of the turbines from the outputs of the forward pass
  and returns the parameters as it leaves them, and the Jacobian.
\<close>

definition WindDirectionPower_linearize ::
  "WindDirectionPower \<Rightarrow> WindDirectionPower_params \<Rightarrow> WindDirectionPower_unknowns \<Rightarrow>
     py_error + (WindDirectionPower_params \<times> jacobian)" where
  "WindDirectionPower_linearize self params unknowns =
     (let direction_id = wdp_direction_id self;
          nTurbines = wdp_nTurbines self;
          wtPower = wdp_wtPower unknowns;
          wtPower_name = ''wtPower'' @ string_of_nat direction_id;
          dir_power_name = ''dir_power'' @ string_of_nat direction_id;
          wtVelocity_name = ''wtVelocity'' @ string_of_nat direction_id
      in if wdp_use_power_curve_definition params
         then bind_err (for_each [0..<nTurbines] (power_curve_deriv_body params)
                          (np_zeros2 nTurbines nTurbines))
                (\<lambda>dwtPower_dwtVelocity.
                 let ddir_power_dwtVelocity = row_sums dwtPower_dwtVelocity;
                     J = Map.empty;
                     J = J((wtPower_name, wtVelocity_name) \<mapsto> Array2 dwtPower_dwtVelocity);
                     J = J((wtPower_name, ''rotorDiameter'') \<mapsto>
                             Array2 (np_zeros2 nTurbines nTurbines));
                     J = J((wtPower_name, ''Cp'') \<mapsto> Array2 (np_zeros2 nTurbines nTurbines));
                     J = J((dir_power_name, wtVelocity_name) \<mapsto> Array2 [ddir_power_dwtVelocity]);
                     J = J((dir_power_name, ''rotorDiameter'') \<mapsto> Array2 (np_zeros2 1 nTurbines));
                     J = J((dir_power_name, ''Cp'') \<mapsto> Array2 (np_zeros2 1 nTurbines))
                 in Inr (params, J))
         else bind_err (cp_and_derivative self params) (\<lambda>(params, Cp, dCpdV).
              bind_err (for_each [0..<nTurbines] (rated_zero_body params wtPower)
                          (coefficient_blocks self params Cp dCpdV)) (\<lambda>blocks.
              bind_err (for_each [0..<nTurbines] (cut_in_zero_body params) blocks)
                (\<lambda>(dwtPower_dwtVelocity, dwtPower_dCp, dwtPower_drotorDiameter).
              let ddir_power_dwtVelocity = [col_sums dwtPower_dwtVelocity];
                  ddir_power_dCp = [col_sums dwtPower_dCp];
                  ddir_power_drotorDiameter = [col_sums dwtPower_drotorDiameter];
                  J = Map.empty;
                  J = J((wtPower_name, wtVelocity_name) \<mapsto> Array2 dwtPower_dwtVelocity);
                  J = J((wtPower_name, ''Cp'') \<mapsto> Array2 dwtPower_dCp);
                  J = J((wtPower_name, ''rotorDiameter'') \<mapsto> Array2 dwtPower_drotorDiameter);
                  J = J((dir_power_name, wtVelocity_name) \<mapsto> Array2 ddir_power_dwtVelocity);
                  J = J((dir_power_name, ''Cp'') \<mapsto> Array2 ddir_power_dCp);
                  J = J((dir_power_name, ''rotorDiameter'') \<mapsto> Array2 ddir_power_drotorDiameter)
              in Inr (params, J)))))"

section \<open>Boundaries\<close>

text \<open>A point of the plane, a vertex or a normal is a row of two coordinates.\<close>

type_synonym point = "real \<times> real"

definition vdot :: "point \<Rightarrow> point \<Rightarrow> real" where
  "vdot a b = fst a * fst b + snd a * snd b"

definition linalg_norm :: "point \<Rightarrow> real" where
  "linalg_norm a = sqrt ((fst a)\<^sup>2 + (snd a)\<^sup>2)"

text \<open>
  calculate_boundary. The convex hull comes from an external library, which is a
  parameter here: \<open>ConvexHull\<close> gives the indices of the points on the hull, in
  counterclockwise order, or raises. The unit normal of face \<open>j\<close> is computed from vertex
  \<open>j\<close> and the next one, the last face closing the shape.
\<close>

definition unit_normal_body :: "point list \<Rightarrow> nat \<Rightarrow> point list \<Rightarrow> py_error + point list" where
  "unit_normal_body vertices j unit_normals =
     (if int j < int (length vertices) - 1
      then bind_err (getitem vertices (j + 1)) (\<lambda>b.
           bind_err (getitem vertices j) (\<lambda>a.
           let normal = (snd b - snd a, - (fst b - fst a))
           in setitem unit_normals j
                (fst normal / linalg_norm normal, snd normal / linalg_norm normal)))
      else bind_err (getitem vertices 0) (\<lambda>b.
           bind_err (getitem vertices j) (\<lambda>a.
           let normal = (snd b - snd a, - (fst b - fst a))
           in setitem unit_normals j
                (fst normal / linalg_norm normal, snd normal / linalg_norm normal))))"

definition calculate_boundary ::
  "(point list \<Rightarrow> py_error + nat list) \<Rightarrow> point list \<Rightarrow> py_error + (point list \<times> point list)" where
  "calculate_boundary ConvexHull vertices =
     bind_err (ConvexHull vertices) (\<lambda>hull_vertices.
     bind_err (take_indices vertices hull_vertices) (\<lambda>vertices.
     let nVertices = length vertices;
         unit_normals = replicate nVertices (0, 0)
     in bind_err (for_each [0..<nVertices] (unit_normal_body vertices) unit_normals)
          (\<lambda>unit_normals. Inr (vertices, unit_normals))))"

text \<open>
  calculate_distance. For a point \<open>p\<close> and a face with first vertex \<open>v\<close> and normal
  \<open>n\<close>, the vector from the point to the vertex is projected on the normal, and the
  projection is multiplied with the normal again. The body of the inner loop writes this
  signed distance of point \<open>i\<close> to face \<open>j\<close>.
\<close>

definition projected_distance :: "point \<Rightarrow> point \<Rightarrow> point \<Rightarrow> real" where
  "projected_distance v p n =
     (let pa = (fst v - fst p, snd v - snd p);
          d_vec = (vdot pa n * fst n, vdot pa n * snd n)
      in vdot d_vec n)"

definition face_distance_body ::
  "point list \<Rightarrow> point list \<Rightarrow> point list \<Rightarrow> nat \<Rightarrow> nat \<Rightarrow> mat \<Rightarrow> py_error + mat" where
  "face_distance_body points vertices unit_normals i j face_distance =
     bind_err (getitem vertices j) (\<lambda>v.
     bind_err (getitem points i) (\<lambda>p.
     bind_err (getitem unit_normals j) (\<lambda>n.
     setitem2 face_distance i j (projected_distance v p n))))"

text \<open>
  Without \<open>return_bool\<close> the function returns the distances alone; with it, the
  distances and the array \<open>inside\<close>, whose entry \<open>i\<close> is set to 1 when no distance of row
  \<open>i\<close> is negative.
\<close>

definition inside_body ::
  "point list \<Rightarrow> point list \<Rightarrow> point list \<Rightarrow> nat \<Rightarrow> mat \<times> vec \<Rightarrow> py_error + (mat \<times> vec)" where
  "inside_body points vertices unit_normals i state =
     (case state of (face_distance, inside) \<Rightarrow>
        bind_err (for_each [0..<length vertices]
                    (face_distance_body points vertices unit_normals i) face_distance)
          (\<lambda>face_distance.
        bind_err (getitem face_distance i) (\<lambda>row.
        if list_all (\<lambda>d. d \<ge> 0) row
        then bind_err (setitem inside i 1) (\<lambda>inside. Inr (face_distance, inside))
        else Inr (face_distance, inside))))"

definition calculate_distance ::
  "point list \<Rightarrow> point list \<Rightarrow> point list \<Rightarrow> bool \<Rightarrow> py_error + (mat \<times> vec option)" where
  "calculate_distance points vertices unit_normals return_bool =
     (let nPoints = length points;
          nVertices = length vertices;
          face_distance = np_zeros2 nPoints nVertices
      in if \<not> return_bool
         then bind_err
                (for_each [0..<nPoints]
                   (\<lambda>i. for_each [0..<nVertices]
                           (face_distance_body points vertices unit_normals i))
                   face_distance)
                (\<lambda>face_distance. Inr (face_distance, None))
         else bind_err
                (for_each [0..<nPoints] (inside_body points vertices unit_normals)
                   (face_distance, np_zeros nPoints))
                (\<lambda>(face_distance, inside). Inr (face_distance, Some inside)))"

section \<open>BoundaryComp\<close>

text \<open>
  The component keeps its sizes, its type, and the parameters and outputs it has declared.
\<close>

record BoundaryComp =
  bc_nTurbines :: nat
  bc_nVertices :: int
  bc_type :: string
  bc_declared_params :: "param_decl list"
  bc_declared_outputs :: "string list"

text \<open>
  The constructor. The local variable \<open>type\<close> is assigned in the first two branches only
  (\<open>None\<close> stands for the unassigned variable); in the third branch the ValueError is
  built but not raised, and the next statement reads \<open>type\<close>.
\<close>

definition BoundaryComp_init :: "nat \<Rightarrow> int \<Rightarrow> py_error + BoundaryComp" where
  "BoundaryComp_init nTurbines nVertices =
     (let type = (if nVertices > 1 then Some ''polygon''
                  else if nVertices = 1 then Some ''circle''
                  else None)
      in case type of
           None \<Rightarrow> Inl (UnboundLocalError ''type'')
         | Some type \<Rightarrow>
             Inr \<lparr> bc_nTurbines = nTurbines,
                   bc_nVertices = nVertices,
                   bc_type = type,
                   bc_declared_params =
                     (if type = ''polygon''
                      then [(''boundaryVertices'', True), (''boundaryNormals'', True)]
                      else if type = ''circle''
                      then [(''boundary_radius'', True), (''boundary_center'', True)]
                      else [])
                     @ [(''turbineX'', False), (''turbineY'', False)],
                   bc_declared_outputs = [''boundaryDistances''] \<rparr>)"

record BoundaryComp_params =
  bc_boundaryVertices :: "point list"
  bc_boundaryNormals :: "point list"
  bc_boundary_radius :: real
  bc_boundary_center :: vec
  bc_turbineX :: vec
  bc_turbineY :: vec

text \<open>
  The linearize pass. For a polygon the body of the loops writes, for turbine \<open>i\<close> and face
  \<open>j\<close>, the derivatives of the signed distance in row \<open>i * nVertices + j\<close> and column
  \<open>i\<close>. For any other type than polygon and circle the ValueError is built but not
  raised, and the blocks are read before they are assigned.
\<close>

definition boundary_deriv_body ::
  "nat \<Rightarrow> point list \<Rightarrow> nat \<Rightarrow> nat \<Rightarrow> mat \<times> mat \<Rightarrow> py_error + (mat \<times> mat)" where
  "boundary_deriv_body nVertices unit_normals i j state =
     (case state of (dfaceDistance_dx, dfaceDistance_dy) \<Rightarrow>
        let dpa_dx = (- 1, 0);
            dpa_dy = (0, - 1)
        in bind_err (getitem unit_normals j) (\<lambda>n.
           let ddistanceVec_dx = (vdot dpa_dx n * fst n, vdot dpa_dx n * snd n);
               ddistanceVec_dy = (vdot dpa_dy n * fst n, vdot dpa_dy n * snd n)
           in bind_err (setitem2 dfaceDistance_dx (i * nVertices + j) i (vdot ddistanceVec_dx n))
                (\<lambda>dfaceDistance_dx.
              bind_err (setitem2 dfaceDistance_dy (i * nVertices + j) i (vdot ddistanceVec_dy n))
                (\<lambda>dfaceDistance_dy.
              Inr (dfaceDistance_dx, dfaceDistance_dy)))))"

definition BoundaryComp_linearize :: "BoundaryComp \<Rightarrow> BoundaryComp_params \<Rightarrow> py_error + jacobian" where
  "BoundaryComp_linearize self params =
     (let nTurbines = bc_nTurbines self;
          nVertices = nat (bc_nVertices self)
      in bind_err
           (if bc_type self = ''polygon''
            then let unit_normals = bc_boundaryNormals params;
                     dfaceDistance_dx = np_zeros2 (nTurbines * nVertices) nTurbines;
                     dfaceDistance_dy = np_zeros2 (nTurbines * nVertices) nTurbines
                 in for_each [0..<nTurbines]
                      (\<lambda>i. for_each [0..<nVertices] (boundary_deriv_body nVertices unit_normals i))
                      (dfaceDistance_dx, dfaceDistance_dy)
            else if bc_type self = ''circle''
            then let turbineX = bc_turbineX params;
                     turbineY = bc_turbineY params
                 in bind_err (getitem (bc_boundary_center params) 0) (\<lambda>xc.
                    bind_err (getitem (bc_boundary_center params) 1) (\<lambda>yc.
                    let A = np_eye nTurbines;
                        B = map (\<lambda>x. - 2 * (x - xc)) turbineX;
                        C = map (\<lambda>y. - 2 * (y - yc)) turbineY
                    in Inr (mbcast A B, mbcast A C)))
            else Inl (UnboundLocalError ''dfaceDistance_dx''))
           (\<lambda>(dfaceDistance_dx, dfaceDistance_dy).
              let J = Map.empty;
                  J = J((''boundaryDistances'', ''turbineX'') \<mapsto> Array2 dfaceDistance_dx);
                  J = J((''boundaryDistances'', ''turbineY'') \<mapsto> Array2 dfaceDistance_dy)
              in Inr J))"

section \<open>SpacingComp\<close>

definition SpacingComp_declared_params :: "param_decl list" where
  "SpacingComp_declared_params = [(''turbineX'', False), (''turbineY'', False)]"

definition SpacingComp_declared_outputs :: "string list" where
  "SpacingComp_declared_outputs = [''wtSeparationSquared'']"

text \<open>
  The linearize pass fills one row per pair of turbines \<open>i < j\<close>, counted by \<open>k\<close>: the
  columns \<open>j\<close> and \<open>i\<close> hold the derivatives with respect to the x coordinates, the
  columns \<open>j + nTurbines\<close> and \<open>i + nTurbines\<close> those with respect to the y coordinates.
\<close>

definition spacing_pair_body :: "vec \<Rightarrow> vec \<Rightarrow> nat \<Rightarrow> nat \<Rightarrow> mat \<times> nat \<Rightarrow> py_error + (mat \<times> nat)" where
  "spacing_pair_body turbineX turbineY i j state =
     (case state of (dS, k) \<Rightarrow>
        let nTurbines = length turbineX
        in bind_err (getitem turbineX j) (\<lambda>xj.
           bind_err (getitem turbineX i) (\<lambda>xi.
           bind_err (setitem2 dS k j (2 * (xj - xi))) (\<lambda>dS.
           bind_err (setitem2 dS k i (- 2 * (xj - xi))) (\<lambda>dS.
           bind_err (getitem turbineY j) (\<lambda>yj.
           bind_err (getitem turbineY i) (\<lambda>yi.
           bind_err (setitem2 dS k (j + nTurbines) (2 * (yj - yi))) (\<lambda>dS.
           bind_err (setitem2 dS k (i + nTurbines) (- 2 * (yj - yi))) (\<lambda>dS.
           Inr (dS, k + 1))))))))))"

definition SpacingComp_linearize :: "vec \<Rightarrow> vec \<Rightarrow> py_error + jacobian" where
  "SpacingComp_linearize turbineX turbineY =
     (let nTurbines = length turbineX;
          dS = np_zeros2 ((nTurbines - 1) * nTurbines div 2) (2 * nTurbines);
          k = 0
      in bind_err
           (for_each [0..<nTurbines]
              (\<lambda>i. for_each [i + 1..<nTurbines] (spacing_pair_body turbineX turbineY i))
              (dS, k))
           (\<lambda>(dS, k).
              let J = Map.empty;
                  J = J((''wtSeparationSquared'', ''turbineX'') \<mapsto> Array2 (map (take nTurbines) dS));
                  J = J((''wtSeparationSquared'', ''turbineY'') \<mapsto> Array2 (map (drop nTurbines) dS))
              in Inr J))"

section \<open>MUX and DeMUX\<close>

text \<open>
  MUX has the scalar parameters \<open>input0\<close>, \<open>input1\<close>, ... and the output \<open>Array\<close>, which
  the framework allocates with \<open>nElements\<close> entries. The forward pass assigns the
  parameters to the entries of the output.
\<close>

definition MUX_declared_params :: "nat \<Rightarrow> string list" where
  "MUX_declared_params nElements = map (\<lambda>i. ''input'' @ string_of_nat i) [0..<nElements]"

definition MUX_declared_outputs :: "string list" where
  "MUX_declared_outputs = [''Array'']"

definition lookup :: "(string \<rightharpoonup> 'a) \<Rightarrow> string \<Rightarrow> py_error + 'a" where
  "lookup d k = (case d k of None \<Rightarrow> Inl (KeyError k) | Some v \<Rightarrow> Inr v)"

definition MUX_solve_nonlinear :: "nat \<Rightarrow> (string \<rightharpoonup> real) \<Rightarrow> vec \<Rightarrow> py_error + vec" where
  "MUX_solve_nonlinear nElements params unknowns_Array =
     for_each [0..<nElements]
       (\<lambda>i Array. bind_err (lookup params (''input'' @ string_of_nat i)) (\<lambda>x. setitem Array i x))
       unknowns_Array"

definition MUX_linearize :: "nat \<Rightarrow> py_error + jacobian" where
  "MUX_linearize nElements =
     bind_err
       (for_each [0..<nElements]
          (\<lambda>i (dArray_dInput, J).
             bind_err (setitem dArray_dInput i 1) (\<lambda>dArray_dInput.
             let J = J((''Array'', ''input'' @ string_of_nat i) \<mapsto> Array1 dArray_dInput)
             in bind_err (setitem dArray_dInput i 0) (\<lambda>dArray_dInput.
                Inr (dArray_dInput, J))))
          (np_zeros nElements, Map.empty))
       (\<lambda>(dArray_dInput, J). Inr J)"

text \<open>
  DeMUX has the parameter \<open>Array\<close> and the scalar outputs \<open>output0\<close>, \<open>output1\<close>, ...;
  the forward pass assigns the entries of the array to the outputs.
\<close>

definition DeMUX_declared_params :: "string list" where
  "DeMUX_declared_params = [''Array'']"

definition DeMUX_declared_outputs :: "nat \<Rightarrow> string list" where
  "DeMUX_declared_outputs nElements = map (\<lambda>i. ''output'' @ string_of_nat i) [0..<nElements]"

definition DeMUX_solve_nonlinear ::
  "nat \<Rightarrow> vec \<Rightarrow> (string \<rightharpoonup> real) \<Rightarrow> py_error + (string \<rightharpoonup> real)" where
  "DeMUX_solve_nonlinear nElements params_Array unknowns =
     for_each [0..<nElements]
       (\<lambda>i unknowns. bind_err (getitem params_Array i) (\<lambda>x.
          Inr (unknowns(''output'' @ string_of_nat i \<mapsto> x))))
       unknowns"

definition DeMUX_linearize :: "nat \<Rightarrow> py_error + jacobian" where
  "DeMUX_linearize nElements =
     (let doutput_dArray = np_eye nElements
      in for_each [0..<nElements]
           (\<lambda>i J. bind_err (getitem doutput_dArray i) (\<lambda>row.
              Inr (J((''output'' @ string_of_nat i, ''Array'') \<mapsto> Array2 [row]))))
           Map.empty)"

section \<open>CPCT interpolation\<close>

text \<open>
  Both variants declare the same parameters and outputs. The exponent \<open>pP\<close> and the table
  (wind speeds, power coefficients, thrust coefficients) are passed by object.
\<close>

record CPCT_params =
  cpct_yaw :: vec
  cpct_wtVelocity :: vec
  cpct_pP :: real
  cpct_windSpeedToCPCT_wind_speed :: vec
  cpct_windSpeedToCPCT_CP :: vec
  cpct_windSpeedToCPCT_CT :: vec

definition CPCT_declared_params :: "nat \<Rightarrow> param_decl list" where
  "CPCT_declared_params direction_id =
     [(''yaw'' @ string_of_nat direction_id, False),
      (''wtVelocity'' @ string_of_nat direction_id, False),
      (''gen_params:pP'', True),
      (''gen_params:windSpeedToCPCT_wind_speed'', True),
      (''gen_params:windSpeedToCPCT_CP'', True),
      (''gen_params:windSpeedToCPCT_CT'', True)]"

definition CPCT_declared_outputs :: "string list" where
  "CPCT_declared_outputs = [''Cp_out'', ''Ct_out'']"

text \<open>The cosine of the yaw angles, given in degrees.\<close>

definition cos_deg :: "vec \<Rightarrow> vec" where
  "cos_deg yaw = map (\<lambda>y. cos (y * pi / 180)) yaw"

text \<open>
  numpy's maximum and minimum of an array and a scalar, and the first and last entry of an
  array, which raise on an empty array.
\<close>

definition np_maximum :: "vec \<Rightarrow> real \<Rightarrow> vec" where
  "np_maximum a c = map (\<lambda>x. max x c) a"

definition np_minimum :: "vec \<Rightarrow> real \<Rightarrow> vec" where
  "np_minimum a c = map (\<lambda>x. min x c) a"

definition first_item :: "'a list \<Rightarrow> py_error + 'a" where
  "first_item xs = getitem xs 0"

definition last_item :: "'a list \<Rightarrow> py_error + 'a" where
  "last_item xs = (if xs = [] then Inl IndexError else Inr (last xs))"

text \<open>
  The table variant looks the coefficients up at the axial-equivalent wind speed, brought
  into the range of the table, and scales them for yaw. The power of a cosine with a real
  exponent is \<open>powr\<close>; it is meaningful for a positive cosine only (numpy gives nan for
  a negative one).
\<close>

definition clamped_interp :: "vec \<Rightarrow> vec \<Rightarrow> vec \<Rightarrow> vec \<Rightarrow> py_error + (vec \<times> vec)" where
  "clamped_interp wind_speed_ax wind_speed CP CT =
     bind_err (first_item wind_speed) (\<lambda>lowest.
     let wind_speed_ax = np_maximum wind_speed_ax lowest
     in bind_err (last_item wind_speed) (\<lambda>highest.
        let wind_speed_ax = np_minimum wind_speed_ax highest
        in bind_err (np_interp_array wind_speed_ax wind_speed CP) (\<lambda>Cp_out.
           bind_err (np_interp_array wind_speed_ax wind_speed CT) (\<lambda>Ct_out.
           Inr (Cp_out, Ct_out)))))"

definition CPCT_Interpolate_Gradients_solve_nonlinear :: "CPCT_params \<Rightarrow> py_error + (vec \<times> vec)" where
  "CPCT_Interpolate_Gradients_solve_nonlinear params =
     (let pP = cpct_pP params;
          yaw = cpct_yaw params;
          wind_speed_ax = vmul (map (\<lambda>c. c powr (pP / 3)) (cos_deg yaw)) (cpct_wtVelocity params)
      in bind_err (clamped_interp wind_speed_ax (cpct_windSpeedToCPCT_wind_speed params)
                     (cpct_windSpeedToCPCT_CP params) (cpct_windSpeedToCPCT_CT params))
           (\<lambda>(Cp_out, Ct_out).
              Inr (vmul Cp_out (map (\<lambda>c. c powr pP) (cos_deg yaw)),
                   vmul Ct_out (map (\<lambda>c. c ^ 2) (cos_deg yaw)))))"

text \<open>
  The Jacobian of the table variant, by central differences with the step \<open>h\<close> in the yaw
  angle and in the wind speed.
\<close>

definition CPCT_Interpolate_Gradients_linearize ::
  "nat \<Rightarrow> nat \<Rightarrow> CPCT_params \<Rightarrow> py_error + jacobian" where
  "CPCT_Interpolate_Gradients_linearize nTurbines direction_id params =
     (let h = 1 / 1000000;
          pP = cpct_pP params;
          yaw = cpct_yaw params;
          wtVelocity = cpct_wtVelocity params;
          wind_speed = cpct_windSpeedToCPCT_wind_speed params;
          CP = cpct_windSpeedToCPCT_CP params;
          CT = cpct_windSpeedToCPCT_CT params;
          yaw_high = map (\<lambda>y. y + h) yaw;
          yaw_low = map (\<lambda>y. y - h) yaw;
          wind_speed_ax_high_yaw = vmul (map (\<lambda>c. c powr (pP / 3)) (cos_deg yaw_high)) wtVelocity;
          wind_speed_ax_low_yaw = vmul (map (\<lambda>c. c powr (pP / 3)) (cos_deg yaw_low)) wtVelocity;
          wind_speed_ax_high_wind =
            vmul (map (\<lambda>c. c powr (pP / 3)) (cos_deg yaw)) (map (\<lambda>v. v + h) wtVelocity);
          wind_speed_ax_low_wind =
            vmul (map (\<lambda>c. c powr (pP / 3)) (cos_deg yaw)) (map (\<lambda>v. v - h) wtVelocity)
      in bind_err (clamped_interp wind_speed_ax_high_yaw wind_speed CP CT)
           (\<lambda>(CP_high_yaw, CT_high_yaw).
         bind_err (clamped_interp wind_speed_ax_low_yaw wind_speed CP CT)
           (\<lambda>(CP_low_yaw, CT_low_yaw).
         bind_err (clamped_interp wind_speed_ax_high_wind wind_speed CP CT)
           (\<lambda>(CP_high_wind, CT_high_wind).
         bind_err (clamped_interp wind_speed_ax_low_wind wind_speed CP CT)
           (\<lambda>(CP_low_wind, CT_low_wind).
         let CP_high_yaw = vmul CP_high_yaw (map (\<lambda>c. c powr pP) (cos_deg yaw_high));
             CP_low_yaw = vmul CP_low_yaw (map (\<lambda>c. c powr pP) (cos_deg yaw_low));
             CP_high_wind = vmul CP_high_wind (map (\<lambda>c. c powr pP) (cos_deg yaw));
             CP_low_wind = vmul CP_low_wind (map (\<lambda>c. c powr pP) (cos_deg yaw));
             CT_high_yaw = vmul CT_high_yaw (map (\<lambda>c. c ^ 2) (cos_deg yaw_high));
             CT_low_yaw = vmul CT_low_yaw (map (\<lambda>c. c ^ 2) (cos_deg yaw_low));
             CT_high_wind = vmul CT_high_wind (map (\<lambda>c. c ^ 2) (cos_deg yaw));
             CT_low_wind = vmul CT_low_wind (map (\<lambda>c. c ^ 2) (cos_deg yaw));
             dCP_dyaw = mdiv (mbcast (np_eye nTurbines) (vsub CP_high_yaw CP_low_yaw)) (2 * h);
             dCP_dwind = mdiv (mbcast (np_eye nTurbines) (vsub CP_high_wind CP_low_wind)) (2 * h);
             dCT_dyaw = mdiv (mbcast (np_eye nTurbines) (vsub CT_high_yaw CT_low_yaw)) (2 * h);
             dCT_dwind = mdiv (mbcast (np_eye nTurbines) (vsub CT_high_wind CT_low_wind)) (2 * h);
             J = Map.empty;
             J = J((''Cp_out'', ''yaw'' @ string_of_nat direction_id) \<mapsto> Array2 dCP_dyaw);
             J = J((''Cp_out'', ''wtVelocity'' @ string_of_nat direction_id) \<mapsto> Array2 dCP_dwind);
             J = J((''Ct_out'', ''yaw'' @ string_of_nat direction_id) \<mapsto> Array2 dCT_dyaw);
             J = J((''Ct_out'', ''wtVelocity'' @ string_of_nat direction_id) \<mapsto> Array2 dCT_dwind)
         in Inr J)))))"

text \<open>
  The smooth variant. The Akima spline is an object of an external library and a parameter
  here: \<open>Akima xp fp x\<close> stands for building the spline through the table and evaluating
  it at the points \<open>x\<close>, which gives the values and the derivatives, or raises. The forward
  pass keeps the derivatives of its outputs for the linearize pass.
\<close>

record CPCT_Smooth_cache =
  dCp_out_dyaw :: vec
  dCp_out_dvel :: vec
  dCt_out_dyaw :: vec
  dCt_out_dvel :: vec

definition CPCT_Interpolate_Gradients_Smooth_solve_nonlinear ::
  "(vec \<Rightarrow> vec \<Rightarrow> vec \<Rightarrow> py_error + (vec \<times> vec)) \<Rightarrow> CPCT_params \<Rightarrow>
     py_error + (vec \<times> vec \<times> CPCT_Smooth_cache)" where
  "CPCT_Interpolate_Gradients_Smooth_solve_nonlinear Akima params =
     (let pP = cpct_pP params;
          yaw = cpct_yaw params;
          Cp = cpct_windSpeedToCPCT_CP params;
          Ct = cpct_windSpeedToCPCT_CT params;
          windspeeds = cpct_windSpeedToCPCT_wind_speed params
      in bind_err (Akima windspeeds Cp (cpct_wtVelocity params)) (\<lambda>(CP, dCPdvel).
         bind_err (Akima windspeeds Ct (cpct_wtVelocity params)) (\<lambda>(CT, dCTdvel).
         let Cp_out = vmul CP (map (\<lambda>c. c powr pP) (cos_deg yaw));
             Ct_out = vmul CT (map (\<lambda>c. c ^ 2) (cos_deg yaw));
             minus_sin = map (\<lambda>y. - sin (y * pi / 180)) yaw;
             cache = \<lparr>
               dCp_out_dyaw =
                 vmul (vmul (vscale (vscale minus_sin (pi / 180)) pP) CP)
                   (map (\<lambda>c. c powr (pP - 1)) (cos_deg yaw)),
               dCp_out_dvel = vmul dCPdvel (map (\<lambda>c. c powr pP) (cos_deg yaw)),
               dCt_out_dyaw =
                 vmul (vmul (vscale (vscale minus_sin (pi / 180)) 2) CT) (cos_deg yaw),
               dCt_out_dvel = vmul dCTdvel (map (\<lambda>c. c ^ 2) (cos_deg yaw)) \<rparr>
         in Inr (Cp_out, Ct_out, cache))))"

text \<open>
  The linearize pass reads the derivatives kept by the forward pass; \<open>None\<close> stands for a
  component whose forward pass has not run, which has no such attributes.
\<close>

definition CPCT_Interpolate_Gradients_Smooth_linearize ::
  "nat \<Rightarrow> nat \<Rightarrow> CPCT_Smooth_cache option \<Rightarrow> py_error + jacobian" where
  "CPCT_Interpolate_Gradients_Smooth_linearize nTurbines direction_id cache =
     (case cache of
        None \<Rightarrow> Inl (AttributeError ''dCp_out_dyaw'')
      | Some self \<Rightarrow>
          let J = Map.empty;
              J = J((''Cp_out'', ''yaw'' @ string_of_nat direction_id)
                      \<mapsto> Array2 (mbcast (np_eye nTurbines) (dCp_out_dyaw self)));
              J = J((''Cp_out'', ''wtVelocity'' @ string_of_nat direction_id)
                      \<mapsto> Array2 (mbcast (np_eye nTurbines) (dCp_out_dvel self)));
              J = J((''Ct_out'', ''yaw'' @ string_of_nat direction_id)
                      \<mapsto> Array2 (mbcast (np_eye nTurbines) (dCt_out_dyaw self)));
              J = J((''Ct_out'', ''wtVelocity'' @ string_of_nat direction_id)
                      \<mapsto> Array2 (mbcast (np_eye nTurbines) (dCt_out_dvel self)))
          in Inr J)"

text \<open>
  A stand-in for the spline on concrete inputs: the line through the first and the last
  point of the table, which is what a spline through collinear points is, inside and
  outside the range of the table.
\<close>

definition line_spline :: "vec \<Rightarrow> vec \<Rightarrow> vec \<Rightarrow> py_error + (vec \<times> vec)" where
  "line_spline xp fp x =
     (let slope = (last fp - hd fp) / (last xp - hd xp)
      in Inr (map (\<lambda>x. hd fp + slope * (x - hd xp)) x, map (\<lambda>x. slope) x))"

section \<open>Properties of WindFrame\<close>

lemma rotation_preserves_norm:
  fixes x y t :: real
  shows "(x * cos t - y * sin t)\<^sup>2 + (x * sin t + y * cos t)\<^sup>2 = x\<^sup>2 + y\<^sup>2"
proof -
  have s: "sin t * sin t = 1 - cos t * cos t"
    using sin_cos_squared_add [of t] by (simp add: power2_eq_square)
  show ?thesis
    by (simp add: power2_eq_square algebra_simps s)
qed

text \<open>
  C7. The forward transform of WindFrame is an isometry: for every turbine and every wind
  direction the squared distance from the origin is the same in the wind frame as in the
  original frame.
\<close>

theorem WindFrame_isometry:
  assumes "length (wf_turbineX params) = length (wf_turbineY params)"
    and "i < length (wf_turbineX params)"
  shows "(wf_turbineXw (WindFrame_solve_nonlinear nSamples params) ! i)\<^sup>2
         + (wf_turbineYw (WindFrame_solve_nonlinear nSamples params) ! i)\<^sup>2
         = (wf_turbineX params ! i)\<^sup>2 + (wf_turbineY params ! i)\<^sup>2"
  using assms
  by (simp add: WindFrame_solve_nonlinear_def Let_def vsub_def vadd_def vscale_def
      rotation_preserves_norm del: cos_minus sin_minus)

theorem WindFrame_isometry_witness:
  "(wf_turbineXw (WindFrame_solve_nonlinear 0
      \<lparr> wf_wind_speed = 8, wf_wind_direction = 0, wf_turbineX = [3], wf_turbineY = [4],
        wf_wsPositionX = [], wf_wsPositionY = [] \<rparr>) ! 0)\<^sup>2
   + (wf_turbineYw (WindFrame_solve_nonlinear 0
      \<lparr> wf_wind_speed = 8, wf_wind_direction = 0, wf_turbineX = [3], wf_turbineY = [4],
        wf_wsPositionX = [], wf_wsPositionY = [] \<rparr>) ! 0)\<^sup>2
   = (25 :: real)"
  using WindFrame_isometry [of "\<lparr> wf_wind_speed = 8, wf_wind_direction = 0, wf_turbineX = [3],
        wf_turbineY = [4], wf_wsPositionX = [], wf_wsPositionY = [] \<rparr>" 0 0]
  by simp

section \<open>Properties of WindFarmAEP\<close>

lemma foldl_add_sum_list: "foldl (+) a xs = a + sum_list (xs :: real list)"
  by (induction xs arbitrary: a) simp_all

lemma py_sum_vmul:
  assumes "length a = length b"
  shows "py_sum (vmul a b) = (\<Sum>i<length a. a ! i * b ! i)"
proof -
  have "py_sum (vmul a b) = sum_list (map2 (*) a b)"
    by (simp add: py_sum_def vmul_def foldl_add_sum_list)
  also have "\<dots> = (\<Sum>i = 0..<length (map2 (*) a b). map2 (*) a b ! i)"
    by (rule sum_list_sum_nth)
  also have "\<dots> = (\<Sum>i<length a. a ! i * b ! i)"
    using assms by (simp add: lessThan_atLeast0)
  finally show ?thesis .
qed

text \<open>
  C3. With S = 8760 times the sum over the directions of power times frequency, the
  forward pass of WindFarmAEP returns S for the method "none", the natural logarithm of S
  for "log" when S is positive, and S to the power -1 for "inverse" when S is not zero;
  for the powers 100 and 200 with frequencies 0.5 and 0.5 and the method "none" the output
  is 1314000.
\<close>

theorem WindFarmAEP_forward:
  assumes "length (aep_dirPowers params) = length (aep_windFrequencies params)"
    and "rec_func_calls \<longrightarrow> rank < length calls"
  shows "(aep_AEP_method params = ''none'' \<longrightarrow>
            map_sum id fst (WindFarmAEP_solve_nonlinear rec_func_calls rank params calls)
            = Inr (Finite (8760 * (\<Sum>i<length (aep_dirPowers params).
                             aep_dirPowers params ! i * aep_windFrequencies params ! i))))
       \<and> (aep_AEP_method params = ''log''
            \<and> 0 < 8760 * (\<Sum>i<length (aep_dirPowers params).
                             aep_dirPowers params ! i * aep_windFrequencies params ! i) \<longrightarrow>
            map_sum id fst (WindFarmAEP_solve_nonlinear rec_func_calls rank params calls)
            = Inr (Finite (ln (8760 * (\<Sum>i<length (aep_dirPowers params).
                             aep_dirPowers params ! i * aep_windFrequencies params ! i)))))
       \<and> (aep_AEP_method params = ''inverse''
            \<and> 8760 * (\<Sum>i<length (aep_dirPowers params).
                             aep_dirPowers params ! i * aep_windFrequencies params ! i) \<noteq> 0 \<longrightarrow>
            map_sum id fst (WindFarmAEP_solve_nonlinear rec_func_calls rank params calls)
            = Inr (Finite (power_int (8760 * (\<Sum>i<length (aep_dirPowers params).
                             aep_dirPowers params ! i * aep_windFrequencies params ! i)) (- 1))))
       \<and> WindFarmAEP_solve_nonlinear False 0
            \<lparr> aep_dirPowers = [100, 200], aep_windFrequencies = [0.5, 0.5],
              aep_AEP_method = ''none'' \<rparr> [] = Inr (Finite 1314000, [])"
proof -
  let ?S = "8760 * (\<Sum>i<length (aep_dirPowers params).
                       aep_dirPowers params ! i * aep_windFrequencies params ! i)"
  have s: "py_sum (vmul (aep_dirPowers params) (aep_windFrequencies params)) * 8760 = ?S"
    using assms(1) by (simp add: py_sum_vmul)
  have out: "WindFarmAEP_solve_nonlinear rec_func_calls rank params calls
             = bind_err
                 (if aep_AEP_method params = ''none'' then Inr (Finite ?S)
                  else if aep_AEP_method params = ''log'' then Inr (np_log ?S)
                  else if aep_AEP_method params = ''inverse''
                  then (if ?S \<noteq> 0 then Inr (Finite (power_int ?S (- 1)))
                        else if vmul (aep_dirPowers params) (aep_windFrequencies params) = []
                        then Inl (ZeroDivisionError ''0.0 cannot be raised to a negative power'')
                        else Inr PosInf)
                  else Inl (ValueError (aep_AEP_method params)))
                 (\<lambda>unknowns_AEP. Inr (unknowns_AEP,
                    if rec_func_calls then calls[rank := calls ! rank + 1] else calls))"
    if "aep_AEP_method params \<in> {''none'', ''log'', ''inverse''}"
    using that assms(2)
    unfolding WindFarmAEP_solve_nonlinear_def Let_def s
    by (auto simp: bind_err_def getitem_def setitem_def)
  have n: "aep_AEP_method params = ''none'' \<longrightarrow>
            map_sum id fst (WindFarmAEP_solve_nonlinear rec_func_calls rank params calls)
            = Inr (Finite ?S)"
    using out by (simp add: bind_err_def)
  have l: "aep_AEP_method params = ''log'' \<and> 0 < ?S \<longrightarrow>
            map_sum id fst (WindFarmAEP_solve_nonlinear rec_func_calls rank params calls)
            = Inr (Finite (ln ?S))"
    using out by (simp add: bind_err_def np_log_def)
  have i: "aep_AEP_method params = ''inverse'' \<and> ?S \<noteq> 0 \<longrightarrow>
            map_sum id fst (WindFarmAEP_solve_nonlinear rec_func_calls rank params calls)
            = Inr (Finite (power_int ?S (- 1)))"
    using out by (simp add: bind_err_def)
  have ex: "WindFarmAEP_solve_nonlinear False 0
            \<lparr> aep_dirPowers = [100, 200], aep_windFrequencies = [0.5, 0.5],
              aep_AEP_method = ''none'' \<rparr> [] = Inr (Finite 1314000, [])"
    by (simp add: WindFarmAEP_solve_nonlinear_def py_sum_def vmul_def bind_err_def)
  show ?thesis
    using n l i ex by blast
qed

theorem WindFarmAEP_forward_witness:
  "map_sum id fst (WindFarmAEP_solve_nonlinear True 0
      \<lparr> aep_dirPowers = [100, 200], aep_windFrequencies = [0.5, 0.5],
        aep_AEP_method = ''log'' \<rparr> [7]) = Inr (Finite (ln 1314000))
   \<and> map_sum id fst (WindFarmAEP_solve_nonlinear True 0
      \<lparr> aep_dirPowers = [100, 200], aep_windFrequencies = [0.5, 0.5],
        aep_AEP_method = ''inverse'' \<rparr> [7]) = Inr (Finite (1 / 1314000))"
  using WindFarmAEP_forward [of "\<lparr> aep_dirPowers = [100, 200], aep_windFrequencies = [0.5, 0.5],
        aep_AEP_method = ''log'' \<rparr>" True 0 "[7]"]
    WindFarmAEP_forward [of "\<lparr> aep_dirPowers = [100, 200], aep_windFrequencies = [0.5, 0.5],
        aep_AEP_method = ''inverse'' \<rparr>" True 0 "[7]"]
  by (simp add: lessThan_Suc numeral_2_eq_2 power_int_minus)

text \<open>
  Where the sum is not positive the forward pass does not give a real logarithm or
  inverse: for zero powers the method "log" gives minus infinity and the method "inverse"
  infinity, and for empty arrays the method "inverse" raises.
\<close>

lemma WindFarmAEP_nonfinite_outputs:
  \<open>WindFarmAEP_solve_nonlinear False 0
     \<lparr> aep_dirPowers = [0, 0], aep_windFrequencies = [0.5, 0.5], aep_AEP_method = ''log'' \<rparr> []
     = Inr (NegInf, [])
   \<and> WindFarmAEP_solve_nonlinear False 0
     \<lparr> aep_dirPowers = [0, 0], aep_windFrequencies = [0.5, 0.5], aep_AEP_method = ''inverse'' \<rparr> []
     = Inr (PosInf, [])
   \<and> WindFarmAEP_solve_nonlinear False 0
     \<lparr> aep_dirPowers = [], aep_windFrequencies = [], aep_AEP_method = ''inverse'' \<rparr> []
     = Inl (ZeroDivisionError ''0.0 cannot be raised to a negative power'')\<close>
  by (simp add: WindFarmAEP_solve_nonlinear_def py_sum_def vmul_def bind_err_def np_log_def)

section \<open>Properties of the power-curve mode of WindDirectionPower\<close>

lemma for_each_pointwise:
  assumes "\<And>i s. i \<in> set is \<Longrightarrow> length s = m \<Longrightarrow> body i s = Inr (s[i := f i (s ! i)])"
    and "distinct is" and "length s = m"
  shows "\<exists>s'. for_each is body s = Inr s' \<and> length s' = m
           \<and> (\<forall>k<m. s' ! k = (if k \<in> set is then f k (s ! k) else s ! k))"
  using assms
proof (induction "is" arbitrary: s)
  case Nil
  then show ?case by simp
next
  case (Cons i "is")
  let ?s1 = "s[i := f i (s ! i)]"
  have b: "body i s = Inr ?s1"
    using Cons.prems by simp
  have "\<exists>s'. for_each is body ?s1 = Inr s' \<and> length s' = m
           \<and> (\<forall>k<m. s' ! k = (if k \<in> set is then f k (?s1 ! k) else ?s1 ! k))"
    using Cons.prems by (intro Cons.IH) simp_all
  then obtain s' where s': "for_each is body ?s1 = Inr s'" "length s' = m"
    "\<forall>k<m. s' ! k = (if k \<in> set is then f k (?s1 ! k) else ?s1 ! k)"
    by blast
  have "\<forall>k<m. s' ! k = (if k \<in> set (i # is) then f k (s ! k) else s ! k)"
  proof (intro allI impI)
    fix k assume k: "k < m"
    show "s' ! k = (if k \<in> set (i # is) then f k (s ! k) else s ! k)"
    proof (cases "k = i")
      case True
      then have "k \<notin> set is" using Cons.prems(2) by simp
      then show ?thesis using s'(3) k True Cons.prems(3) by simp
    next
      case False
      then show ?thesis using s'(3) k by simp
    qed
  qed
  then show ?case
    using b s' by (simp add: bind_err_def)
qed

lemma power_curve_body_update:
  assumes "n < length (wdp_wtVelocity params)" "n < length (wdp_cut_in_speed params)"
    "n < length (wdp_rated_wind_speed params)" "n < length (wdp_cut_out_speed params)"
    "n < length (wdp_rated_power params)" "n < length wtPower"
  shows "power_curve_body params n wtPower =
         Inr (wtPower[n :=
           (if wdp_cut_in_speed params ! n \<le> wdp_wtVelocity params ! n
               \<and> wdp_wtVelocity params ! n < wdp_rated_wind_speed params ! n
            then wdp_rated_power params ! n
                 * ((wdp_wtVelocity params ! n - wdp_cut_in_speed params ! n)
                    / (wdp_rated_wind_speed params ! n - wdp_cut_in_speed params ! n)) ^ 3
            else if wdp_rated_wind_speed params ! n \<le> wdp_wtVelocity params ! n
               \<and> wdp_wtVelocity params ! n < wdp_cut_out_speed params ! n
            then wdp_rated_power params ! n
            else wtPower ! n)])"
  using assms
  by (simp add: power_curve_body_def bind_err_def getitem_def setitem_def)


text \<open>
  C4. In the power-curve mode of WindDirectionPower, for every turbine n: between the
  cut-in and the rated wind speed the power is the rated power times the cube of
  (v - cut-in) / (rated speed - cut-in); between the rated and the cut-out wind speed it is
  the rated power; otherwise it is 0. So the power is 0 at the cut-in speed and the rated
  power at the rated wind speed, and the direction power is the sum over the turbines.
\<close>

theorem power_curve_mode:
  assumes "wdp_use_power_curve_definition params"
    and "wdp_nTurbines self \<le> length (wdp_wtVelocity params)"
    and "wdp_nTurbines self \<le> length (wdp_cut_in_speed params)"
    and "wdp_nTurbines self \<le> length (wdp_rated_wind_speed params)"
    and "wdp_nTurbines self \<le> length (wdp_cut_out_speed params)"
    and "wdp_nTurbines self \<le> length (wdp_rated_power params)"
  shows "\<exists>wtPower.
           WindDirectionPower_solve_nonlinear self params
             = Inr (params, \<lparr> wdp_wtPower = wtPower, wdp_dir_power = sum_list wtPower \<rparr>)
         \<and> length wtPower = wdp_nTurbines self
         \<and> (\<forall>n < wdp_nTurbines self.
              wtPower ! n =
                (if wdp_cut_in_speed params ! n \<le> wdp_wtVelocity params ! n
                    \<and> wdp_wtVelocity params ! n < wdp_rated_wind_speed params ! n
                 then wdp_rated_power params ! n
                      * ((wdp_wtVelocity params ! n - wdp_cut_in_speed params ! n)
                         / (wdp_rated_wind_speed params ! n - wdp_cut_in_speed params ! n)) ^ 3
                 else if wdp_rated_wind_speed params ! n \<le> wdp_wtVelocity params ! n
                    \<and> wdp_wtVelocity params ! n < wdp_cut_out_speed params ! n
                 then wdp_rated_power params ! n
                 else 0))
         \<and> (\<forall>n < wdp_nTurbines self.
              wdp_wtVelocity params ! n = wdp_cut_in_speed params ! n
              \<and> wdp_cut_in_speed params ! n < wdp_rated_wind_speed params ! n
              \<longrightarrow> wtPower ! n = 0)
         \<and> (\<forall>n < wdp_nTurbines self.
              wdp_wtVelocity params ! n = wdp_rated_wind_speed params ! n
              \<and> wdp_rated_wind_speed params ! n < wdp_cut_out_speed params ! n
              \<longrightarrow> wtPower ! n = wdp_rated_power params ! n)"
proof -
  let ?f = "\<lambda>n old.
           (if wdp_cut_in_speed params ! n \<le> wdp_wtVelocity params ! n
               \<and> wdp_wtVelocity params ! n < wdp_rated_wind_speed params ! n
            then wdp_rated_power params ! n
                 * ((wdp_wtVelocity params ! n - wdp_cut_in_speed params ! n)
                    / (wdp_rated_wind_speed params ! n - wdp_cut_in_speed params ! n)) ^ 3
            else if wdp_rated_wind_speed params ! n \<le> wdp_wtVelocity params ! n
               \<and> wdp_wtVelocity params ! n < wdp_cut_out_speed params ! n
            then wdp_rated_power params ! n
            else old)"
  let ?nT = "wdp_nTurbines self"
  have body: "power_curve_body params i s = Inr (s[i := ?f i (s ! i)])"
    if "i \<in> set [0..<?nT]" "length s = ?nT" for i s
    using that assms(2-6) by (intro power_curve_body_update) simp_all
  have "\<exists>s'. for_each [0..<?nT] (power_curve_body params) (np_zeros ?nT) = Inr s'
          \<and> length s' = ?nT
          \<and> (\<forall>k<?nT. s' ! k = (if k \<in> set [0..<?nT] then ?f k (np_zeros ?nT ! k)
                                 else np_zeros ?nT ! k))"
    by (rule for_each_pointwise [OF body]) (simp_all add: np_zeros_def)
  then obtain wtPower where w:
    "for_each [0..<?nT] (power_curve_body params) (np_zeros ?nT) = Inr wtPower"
    "length wtPower = ?nT"
    "\<forall>k<?nT. wtPower ! k = ?f k 0"
    by (auto simp: np_zeros_def)
  have "WindDirectionPower_solve_nonlinear self params
          = Inr (params, \<lparr> wdp_wtPower = wtPower, wdp_dir_power = sum_list wtPower \<rparr>)"
    using assms(1) w(1) by (simp add: WindDirectionPower_solve_nonlinear_def bind_err_def)
  moreover have "\<forall>n < ?nT. wdp_wtVelocity params ! n = wdp_cut_in_speed params ! n
              \<and> wdp_cut_in_speed params ! n < wdp_rated_wind_speed params ! n
              \<longrightarrow> wtPower ! n = 0"
    using w(3) by simp
  moreover have "\<forall>n < ?nT. wdp_wtVelocity params ! n = wdp_rated_wind_speed params ! n
              \<and> wdp_rated_wind_speed params ! n < wdp_cut_out_speed params ! n
              \<longrightarrow> wtPower ! n = wdp_rated_power params ! n"
    using w(3) by simp
  ultimately show ?thesis
    using w(2,3) by blast
qed


theorem power_curve_mode_witness:
  "\<exists>wtPower.
     WindDirectionPower_solve_nonlinear
       \<lparr> wdp_nTurbines = 3, wdp_direction_id = 0, wdp_use_rotor_components = False,
         wdp_cp_points = 1, wdp_cp_curve_spline = None \<rparr>
       \<lparr> wdp_air_density = 1.1716, wdp_rotorDiameter = [126.4, 126.4, 126.4],
         wdp_Cp = [0.5, 0.5, 0.5], wdp_generatorEfficiency = [0.944, 0.944, 0.944],
         wdp_wtVelocity = [3, 11.4, 7.2], wdp_rated_power = [5000, 5000, 5000],
         wdp_cut_in_speed = [3, 3, 3], wdp_cp_curve_cp = [0], wdp_cp_curve_wind_speed = [1],
         wdp_use_power_curve_definition = True, wdp_rated_wind_speed = [11.4, 11.4, 11.4],
         wdp_cut_out_speed = [25, 25, 25] \<rparr>
     = Inr (\<lparr> wdp_air_density = 1.1716, wdp_rotorDiameter = [126.4, 126.4, 126.4],
         wdp_Cp = [0.5, 0.5, 0.5], wdp_generatorEfficiency = [0.944, 0.944, 0.944],
         wdp_wtVelocity = [3, 11.4, 7.2], wdp_rated_power = [5000, 5000, 5000],
         wdp_cut_in_speed = [3, 3, 3], wdp_cp_curve_cp = [0], wdp_cp_curve_wind_speed = [1],
         wdp_use_power_curve_definition = True, wdp_rated_wind_speed = [11.4, 11.4, 11.4],
         wdp_cut_out_speed = [25, 25, 25] \<rparr>,
         \<lparr> wdp_wtPower = wtPower, wdp_dir_power = sum_list wtPower \<rparr>)
     \<and> length wtPower = 3 \<and> wtPower ! 0 = 0 \<and> wtPower ! 1 = 5000 \<and> wtPower ! 2 = 625"
  using power_curve_mode [of
       "\<lparr> wdp_air_density = 1.1716, wdp_rotorDiameter = [126.4, 126.4, 126.4],
         wdp_Cp = [0.5, 0.5, 0.5], wdp_generatorEfficiency = [0.944, 0.944, 0.944],
         wdp_wtVelocity = [3, 11.4, 7.2], wdp_rated_power = [5000, 5000, 5000],
         wdp_cut_in_speed = [3, 3, 3], wdp_cp_curve_cp = [0], wdp_cp_curve_wind_speed = [1],
         wdp_use_power_curve_definition = True, wdp_rated_wind_speed = [11.4, 11.4, 11.4],
         wdp_cut_out_speed = [25, 25, 25] \<rparr>"
       "\<lparr> wdp_nTurbines = 3, wdp_direction_id = 0, wdp_use_rotor_components = False,
         wdp_cp_points = 1, wdp_cp_curve_spline = None \<rparr>"]
  by (auto simp: numeral_3_eq_3 numeral_2_eq_2 All_less_Suc power3_eq_cube)

section \<open>The coefficient mode of WindDirectionPower and its parameters\<close>

text \<open>
  C2. The forward pass is claimed to leave every input parameter as it was. In the
  coefficient mode with more than one Cp curve point and no spline it does not: the loop of
  the table lookup writes the interpolated coefficients into the array Cp of the
  parameters. For one turbine at 5 m/s with the curve (0, 0), (10, 1) and Cp = [0.3] before
  the call, the parameters hold Cp = [0.5] after it.
\<close>

theorem solve_nonlinear_overwrites_Cp:
  "map_sum id (wdp_Cp \<circ> fst)
     (WindDirectionPower_solve_nonlinear
       \<lparr> wdp_nTurbines = 1, wdp_direction_id = 0, wdp_use_rotor_components = False,
         wdp_cp_points = 2, wdp_cp_curve_spline = None \<rparr>
       \<lparr> wdp_air_density = 1.1716, wdp_rotorDiameter = [126.4],
         wdp_Cp = [0.3], wdp_generatorEfficiency = [0.944],
         wdp_wtVelocity = [5], wdp_rated_power = [5000],
         wdp_cut_in_speed = [3], wdp_cp_curve_cp = [0, 1], wdp_cp_curve_wind_speed = [0, 10],
         wdp_use_power_curve_definition = False, wdp_rated_wind_speed = [11.4],
         wdp_cut_out_speed = [25] \<rparr>)
   = Inr [0.5]"
  by (simp add: WindDirectionPower_solve_nonlinear_def bind_err_def cp_interp_body_def
      np_interp_def interp_value_def getitem_def setitem_def rated_power_body_def cut_in_body_def
      vmul_def smul_def Let_def)

section \<open>The invalid configurations of BoundaryComp and WindFarmAEP\<close>

text \<open>
  C5. An enumeration input outside its recognised set is claimed to fail with the
  invalid-configuration error. WindFarmAEP does raise that ValueError for an unknown
  method. The constructor of BoundaryComp does not: for nVertices = 0 it builds the
  ValueError without raising it, and the construction stops at the next statement with an
  UnboundLocalError for the local variable type.
\<close>

theorem BoundaryComp_init_no_ValueError:
  \<open>BoundaryComp_init 1 0 = Inl (UnboundLocalError ''type'')
   \<and> WindFarmAEP_solve_nonlinear False 0
        \<lparr> aep_dirPowers = [100, 200], aep_windFrequencies = [0.5, 0.5],
          aep_AEP_method = ''linear'' \<rparr> []
       = Inl (ValueError ''AEP_method must be one of ["none","log","inverse"]'')\<close>
  by (simp add: BoundaryComp_init_def WindFarmAEP_solve_nonlinear_def bind_err_def)

section \<open>Loops that update one entry per iteration\<close>

lemma pointwise_step:
  assumes "\<forall>k<m. s' ! k = (if k \<in> set is then f k (s[i := f i (s ! i)] ! k)
                            else s[i := f i (s ! i)] ! k)"
    and "i \<notin> set is" and "length s = m"
  shows "\<forall>k<m. s' ! k = (if k \<in> set (i # is) then f k (s ! k) else s ! k)"
proof (intro allI impI)
  fix k assume k: "k < m"
  show "s' ! k = (if k \<in> set (i # is) then f k (s ! k) else s ! k)"
  proof (cases "k = i")
    case True
    then show ?thesis using assms k by simp
  next
    case False
    then show ?thesis using assms(1) k by simp
  qed
qed

lemma for_each_pointwise_inv:
  assumes "\<And>i s. i \<in> set is \<Longrightarrow> length s = m \<Longrightarrow> P (s ! i) \<Longrightarrow> body i s = Inr (s[i := f i (s ! i)])"
    and "distinct is" and "length s = m" and "\<forall>i\<in>set is. i < m \<and> P (s ! i)"
  shows "\<exists>s'. for_each is body s = Inr s' \<and> length s' = m
           \<and> (\<forall>k<m. s' ! k = (if k \<in> set is then f k (s ! k) else s ! k))"
  using assms
proof (induction "is" arbitrary: s)
  case Nil
  then show ?case by simp
next
  case (Cons i "is")
  let ?s1 = "s[i := f i (s ! i)]"
  have b: "body i s = Inr ?s1"
    using Cons.prems by simp
  have inv: "\<forall>k\<in>set is. k < m \<and> P (?s1 ! k)"
  proof
    fix k assume k: "k \<in> set is"
    then have "k \<noteq> i" using Cons.prems(2) by auto
    then show "k < m \<and> P (?s1 ! k)" using k Cons.prems(4) by simp
  qed
  have "\<exists>s'. for_each is body ?s1 = Inr s' \<and> length s' = m
           \<and> (\<forall>k<m. s' ! k = (if k \<in> set is then f k (?s1 ! k) else ?s1 ! k))"
    using Cons.prems inv by (intro Cons.IH) simp_all
  then obtain s' where s': "for_each is body ?s1 = Inr s'" "length s' = m"
    "\<forall>k<m. s' ! k = (if k \<in> set is then f k (?s1 ! k) else ?s1 ! k)"
    by blast
  have "\<forall>k<m. s' ! k = (if k \<in> set (i # is) then f k (s ! k) else s ! k)"
    using s'(3) Cons.prems(2,3) by (intro pointwise_step) simp_all
  then show ?case
    using b s' by (simp add: bind_err_def)
qed

lemma for_each_pair_pointwise:
  assumes "\<And>i s t. i \<in> set is \<Longrightarrow> length s = m \<Longrightarrow> length t = m \<Longrightarrow> P (s ! i)
             \<Longrightarrow> body i (s, t) = Inr (s[i := f i (s ! i)], t[i := h i (t ! i)])"
    and "distinct is" and "length s = m" and "length t = m"
    and "\<forall>i\<in>set is. i < m \<and> P (s ! i)"
  shows "\<exists>s' t'. for_each is body (s, t) = Inr (s', t') \<and> length s' = m \<and> length t' = m
           \<and> (\<forall>k<m. s' ! k = (if k \<in> set is then f k (s ! k) else s ! k))
           \<and> (\<forall>k<m. t' ! k = (if k \<in> set is then h k (t ! k) else t ! k))"
  using assms
proof (induction "is" arbitrary: s t)
  case Nil
  then show ?case by simp
next
  case (Cons i "is")
  let ?s1 = "s[i := f i (s ! i)]"
  let ?t1 = "t[i := h i (t ! i)]"
  have b: "body i (s, t) = Inr (?s1, ?t1)"
    using Cons.prems by simp
  have inv: "\<forall>k\<in>set is. k < m \<and> P (?s1 ! k)"
  proof
    fix k assume k: "k \<in> set is"
    then have "k \<noteq> i" using Cons.prems(2) by auto
    then show "k < m \<and> P (?s1 ! k)" using k Cons.prems(5) by simp
  qed
  have "\<exists>s' t'. for_each is body (?s1, ?t1) = Inr (s', t') \<and> length s' = m \<and> length t' = m
           \<and> (\<forall>k<m. s' ! k = (if k \<in> set is then f k (?s1 ! k) else ?s1 ! k))
           \<and> (\<forall>k<m. t' ! k = (if k \<in> set is then h k (?t1 ! k) else ?t1 ! k))"
    using Cons.prems inv by (intro Cons.IH) simp_all
  then obtain s' t' where s': "for_each is body (?s1, ?t1) = Inr (s', t')"
    "length s' = m" "length t' = m"
    "\<forall>k<m. s' ! k = (if k \<in> set is then f k (?s1 ! k) else ?s1 ! k)"
    "\<forall>k<m. t' ! k = (if k \<in> set is then h k (?t1 ! k) else ?t1 ! k)"
    by blast
  have ni: "i \<notin> set is" using Cons.prems(2) by simp
  have "\<forall>k<m. s' ! k = (if k \<in> set (i # is) then f k (s ! k) else s ! k)"
    using s'(4) ni Cons.prems(3) by (intro pointwise_step) simp_all
  moreover have "\<forall>k<m. t' ! k = (if k \<in> set (i # is) then h k (t ! k) else t ! k)"
    using s'(5) ni Cons.prems(4) by (intro pointwise_step) simp_all
  ultimately show ?case
    using b s'(1,2,3) by (simp add: bind_err_def)
qed

lemma for_each_row:
  assumes "\<And>j M. j \<in> set js \<Longrightarrow> i < length M \<Longrightarrow>
             body j M = bind_err (rbody j (M ! i)) (\<lambda>r. Inr (M[i := r]))"
    and "i < length M"
  shows "for_each js body M = bind_err (for_each js rbody (M ! i)) (\<lambda>r. Inr (M[i := r]))"
  using assms
proof (induction js arbitrary: M)
  case Nil
  then show ?case by (simp add: bind_err_def)
next
  case (Cons j js)
  have b: "body j M = bind_err (rbody j (M ! i)) (\<lambda>r. Inr (M[i := r]))"
    using Cons.prems by simp
  show ?case
  proof (cases "rbody j (M ! i)")
    case (Inl e)
    then show ?thesis using b by (simp add: bind_err_def)
  next
    case (Inr r)
    have "for_each js body (M[i := r])
          = bind_err (for_each js rbody (M[i := r] ! i)) (\<lambda>r'. Inr (M[i := r, i := r']))"
      using Cons.prems by (intro Cons.IH) simp_all
    then show ?thesis
      using b Inr Cons.prems(2) by (simp add: bind_err_def)
  qed
qed

section \<open>Properties of calculate_distance\<close>

lemma projected_distance_eq:
  "projected_distance v p n = vdot (fst v - fst p, snd v - snd p) n * vdot n n"
  by (simp add: projected_distance_def vdot_def algebra_simps)

lemma projected_distance_nonneg_iff:
  "projected_distance v p n \<ge> 0 \<longleftrightarrow> vdot (fst v - fst p, snd v - snd p) n \<ge> 0"
proof (cases "vdot n n = 0")
  case True
  then have "fst n = 0 \<and> snd n = 0"
    by (simp add: vdot_def sum_squares_eq_zero_iff)
  then show ?thesis by (simp add: projected_distance_eq vdot_def)
next
  case False
  moreover have "vdot n n \<ge> 0" by (simp add: vdot_def)
  ultimately have "vdot n n > 0" by simp
  then show ?thesis
    by (simp add: projected_distance_eq zero_le_mult_iff)
qed

lemma face_distance_body_row:
  assumes "j < length vertices" "i < length points" "j < length unit_normals" "i < length M"
  shows "face_distance_body points vertices unit_normals i j M =
         bind_err (setitem (M ! i) j
                     (projected_distance (vertices ! j) (points ! i) (unit_normals ! j)))
           (\<lambda>r. Inr (M[i := r]))"
  using assms
  by (simp add: face_distance_body_def setitem2_def bind_err_def getitem_def setitem_def)

lemma face_distance_row_loop:
  assumes "length vertices \<le> length unit_normals" "i < length points" "i < length M"
    and "length (M ! i) = length vertices"
  shows "for_each [0..<length vertices] (face_distance_body points vertices unit_normals i) M
         = Inr (M[i := map (\<lambda>j. projected_distance (vertices ! j) (points ! i) (unit_normals ! j))
                          [0..<length vertices]])"
proof -
  let ?g = "\<lambda>j. projected_distance (vertices ! j) (points ! i) (unit_normals ! j)"
  let ?rbody = "\<lambda>j row. setitem row j (?g j)"
  have "for_each [0..<length vertices] (face_distance_body points vertices unit_normals i) M
        = bind_err (for_each [0..<length vertices] ?rbody (M ! i)) (\<lambda>r. Inr (M[i := r]))"
    using assms(1,2,3) by (intro for_each_row face_distance_body_row) simp_all
  moreover have "\<exists>s'. for_each [0..<length vertices] ?rbody (M ! i) = Inr s'
           \<and> length s' = length vertices
           \<and> (\<forall>k<length vertices. s' ! k = (if k \<in> set [0..<length vertices]
                                              then (\<lambda>j old. ?g j) k ((M ! i) ! k) else (M ! i) ! k))"
    using assms(4) by (intro for_each_pointwise) (simp_all add: setitem_def)
  then obtain s' where s': "for_each [0..<length vertices] ?rbody (M ! i) = Inr s'"
    "length s' = length vertices" "\<forall>k<length vertices. s' ! k = ?g k"
    by auto
  have "s' = map ?g [0..<length vertices]"
    using s'(2,3) by (intro nth_equalityI) simp_all
  ultimately show ?thesis
    using s'(1) by (simp add: bind_err_def)
qed


lemma inside_body_update:
  assumes "length vertices \<le> length unit_normals" "i < length points"
    and "length M = length points" "length ins = length points"
    and "length (M ! i) = length vertices"
  shows "inside_body points vertices unit_normals i (M, ins)
         = Inr (M[i := map (\<lambda>j. projected_distance (vertices ! j) (points ! i) (unit_normals ! j))
                          [0..<length vertices]],
                ins[i := (if list_all (\<lambda>d. d \<ge> 0)
                               (map (\<lambda>j. projected_distance (vertices ! j) (points ! i)
                                          (unit_normals ! j)) [0..<length vertices])
                          then 1 else ins ! i)])"
  using assms
  by (simp add: inside_body_def face_distance_row_loop bind_err_def getitem_def setitem_def)

text \<open>
  C10. For all points, vertices and normals (a normal for every vertex), calculate_distance
  with return_bool returns an array inside whose entry i is 1 exactly when the signed
  distance of point i to every face j, the dot product of vertices[j] - points[i] with
  unit_normals[j], is not negative, and 0 otherwise; the distances it returns are those
  returned without return_bool, and they are these dot products for normals of length 1.
\<close>

theorem calculate_distance_inside:
  assumes "length vertices \<le> length unit_normals"
  shows "\<exists>face_distance inside.
           calculate_distance points vertices unit_normals True = Inr (face_distance, Some inside)
         \<and> calculate_distance points vertices unit_normals False = Inr (face_distance, None)
         \<and> length inside = length points
         \<and> length face_distance = length points
         \<and> (\<forall>i < length points.
               inside ! i =
                 (if \<forall>j < length vertices.
                       vdot (fst (vertices ! j) - fst (points ! i),
                             snd (vertices ! j) - snd (points ! i)) (unit_normals ! j) \<ge> 0
                  then 1 else 0))
         \<and> (\<forall>i < length points. \<forall>j < length vertices.
               vdot (unit_normals ! j) (unit_normals ! j) = 1 \<longrightarrow>
               face_distance ! i ! j =
                 vdot (fst (vertices ! j) - fst (points ! i),
                       snd (vertices ! j) - snd (points ! i)) (unit_normals ! j))"
proof -
  let ?nP = "length points"
  let ?nV = "length vertices"
  let ?G = "\<lambda>i. map (\<lambda>j. projected_distance (vertices ! j) (points ! i) (unit_normals ! j))
                    [0..<?nV]"
  let ?h = "\<lambda>i old. if list_all (\<lambda>d. d \<ge> 0) (?G i) then 1 else (old :: real)"
  let ?M0 = "np_zeros2 ?nP ?nV"

  have "\<exists>s'. for_each [0..<?nP]
                 (\<lambda>i. for_each [0..<?nV] (face_distance_body points vertices unit_normals i)) ?M0
               = Inr s' \<and> length s' = ?nP
           \<and> (\<forall>k<?nP. s' ! k = (if k \<in> set [0..<?nP] then (\<lambda>i old. ?G i) k (?M0 ! k)
                                  else ?M0 ! k))"
  proof (rule for_each_pointwise_inv [where P = "\<lambda>row. length row = ?nV"])
    fix i and s :: mat
    assume "i \<in> set [0..<?nP]" "length s = ?nP" "length (s ! i) = ?nV"
    then show "for_each [0..<?nV] (face_distance_body points vertices unit_normals i) s
               = Inr (s[i := ?G i])"
      using assms by (intro face_distance_row_loop) simp_all
  qed (simp_all add: np_zeros2_def)
  then obtain fd where fd:
    "for_each [0..<?nP]
       (\<lambda>i. for_each [0..<?nV] (face_distance_body points vertices unit_normals i)) ?M0 = Inr fd"
    "length fd = ?nP" "\<forall>k<?nP. fd ! k = ?G k"
    by auto

  have "\<exists>s' t'. for_each [0..<?nP] (inside_body points vertices unit_normals) (?M0, np_zeros ?nP)
                  = Inr (s', t') \<and> length s' = ?nP \<and> length t' = ?nP
           \<and> (\<forall>k<?nP. s' ! k = (if k \<in> set [0..<?nP] then (\<lambda>i old. ?G i) k (?M0 ! k)
                                  else ?M0 ! k))
           \<and> (\<forall>k<?nP. t' ! k = (if k \<in> set [0..<?nP] then ?h k (np_zeros ?nP ! k)
                                  else np_zeros ?nP ! k))"
  proof (rule for_each_pair_pointwise [where P = "\<lambda>row. length row = ?nV"])
    fix i and s :: mat and t :: vec
    assume "i \<in> set [0..<?nP]" "length s = ?nP" "length t = ?nP" "length (s ! i) = ?nV"
    then show "inside_body points vertices unit_normals i (s, t)
               = Inr (s[i := ?G i], t[i := ?h i (t ! i)])"
      using assms by (simp add: inside_body_update)
  qed (simp_all add: np_zeros2_def np_zeros_def)
  then obtain fd' ins where ins:
    "for_each [0..<?nP] (inside_body points vertices unit_normals) (?M0, np_zeros ?nP)
       = Inr (fd', ins)"
    "length fd' = ?nP" "length ins = ?nP"
    "\<forall>k<?nP. fd' ! k = ?G k" "\<forall>k<?nP. ins ! k = ?h k 0"
    by (auto simp: np_zeros_def)

  have same: "fd' = fd"
    using fd(2,3) ins(2,4) by (intro nth_equalityI) simp_all
  have t: "calculate_distance points vertices unit_normals True = Inr (fd, Some ins)"
    using ins(1) same by (simp add: calculate_distance_def bind_err_def)
  have f: "calculate_distance points vertices unit_normals False = Inr (fd, None)"
    using fd(1) by (simp add: calculate_distance_def bind_err_def)
  have i1: "\<forall>i < ?nP. ins ! i =
                 (if \<forall>j < ?nV.
                       vdot (fst (vertices ! j) - fst (points ! i),
                             snd (vertices ! j) - snd (points ! i)) (unit_normals ! j) \<ge> 0
                  then 1 else 0)"
    using ins(5) by (auto simp: list_all_iff projected_distance_nonneg_iff)
  have d: "\<forall>i < ?nP. \<forall>j < ?nV.
               vdot (unit_normals ! j) (unit_normals ! j) = 1 \<longrightarrow>
               fd ! i ! j =
                 vdot (fst (vertices ! j) - fst (points ! i),
                       snd (vertices ! j) - snd (points ! i)) (unit_normals ! j)"
    using fd(3) by (simp add: projected_distance_eq)
  show ?thesis
    using t f ins(3) fd(2) i1 d by blast
qed


theorem calculate_distance_inside_witness:
  "\<exists>face_distance inside.
     calculate_distance [(1/2, 1/2), (2, 1/2)] [(0, 0), (1, 0), (1, 1), (0, 1)]
       [(0, -1), (1, 0), (0, 1), (-1, 0)] True = Inr (face_distance, Some inside)
   \<and> calculate_distance [(1/2, 1/2), (2, 1/2)] [(0, 0), (1, 0), (1, 1), (0, 1)]
       [(0, -1), (1, 0), (0, 1), (-1, 0)] False = Inr (face_distance, None)
   \<and> inside ! 0 = 1 \<and> inside ! 1 = 0 \<and> face_distance ! 1 ! 1 = - 1"
  using calculate_distance_inside [of "[(0, 0), (1, 0), (1, 1), (0, 1)]"
      "[(0, -1), (1, 0), (0, 1), (-1, 0)]" "[(1/2, 1/2), (2, 1/2)]"]
  by (auto simp: All_less_Suc vdot_def)

section \<open>Properties of calculate_boundary\<close>

lemma take_indices_map:
  assumes "\<forall>k\<in>set ks. k < length xs"
  shows "take_indices xs ks = Inr (map (\<lambda>k. xs ! k) ks)"
  using assms by (induction ks) (simp_all add: bind_err_def getitem_def)

lemma unit_normal_body_update:
  assumes "j < length vertices" "length unit_normals = length vertices"
  shows "unit_normal_body vertices j unit_normals =
         Inr (unit_normals[j :=
           ((snd (vertices ! ((j + 1) mod length vertices)) - snd (vertices ! j))
              / linalg_norm (snd (vertices ! ((j + 1) mod length vertices)) - snd (vertices ! j),
                             - (fst (vertices ! ((j + 1) mod length vertices)) - fst (vertices ! j))),
            - (fst (vertices ! ((j + 1) mod length vertices)) - fst (vertices ! j))
              / linalg_norm (snd (vertices ! ((j + 1) mod length vertices)) - snd (vertices ! j),
                             - (fst (vertices ! ((j + 1) mod length vertices)) - fst (vertices ! j))))])"
proof (cases "j + 1 < length vertices")
  case True
  moreover have "vertices \<noteq> []" using assms(1) by auto
  ultimately show ?thesis
    using assms
    by (simp add: unit_normal_body_def bind_err_def getitem_def setitem_def Let_def)
next
  case False
  then have "j + 1 = length vertices" using assms(1) by simp
  then have m: "(j + 1) mod length vertices = 0" by simp
  have "\<not> int j < int (length vertices) - 1" using False by simp
  moreover have "vertices \<noteq> []" using assms(1) by auto
  ultimately show ?thesis
    using assms m
    by (simp add: unit_normal_body_def bind_err_def getitem_def setitem_def Let_def)
qed

lemma unit_vector_norm:
  assumes "x \<noteq> 0 \<or> y \<noteq> 0"
  shows "linalg_norm (x / linalg_norm (x, y), y / linalg_norm (x, y)) = 1"
proof -
  have pos: "x\<^sup>2 + y\<^sup>2 > 0"
    using assms by (simp add: sum_power2_gt_zero_iff)
  have "(x / sqrt (x\<^sup>2 + y\<^sup>2))\<^sup>2 + (y / sqrt (x\<^sup>2 + y\<^sup>2))\<^sup>2
        = x\<^sup>2 / (x\<^sup>2 + y\<^sup>2) + y\<^sup>2 / (x\<^sup>2 + y\<^sup>2)"
    using pos by (simp add: power_divide)
  also have "\<dots> = (x\<^sup>2 + y\<^sup>2) / (x\<^sup>2 + y\<^sup>2)"
    by (simp only: add_divide_distrib)
  also have "\<dots> = 1" using assms by auto
  finally show ?thesis
    by (simp add: linalg_norm_def)
qed

lemma norm_pos:
  assumes "x \<noteq> 0 \<or> y \<noteq> 0"
  shows "linalg_norm (x, y) > 0"
  using assms by (simp add: linalg_norm_def sum_power2_gt_zero_iff)


lemma unit_normal_facts:
  fixes a b :: point
  assumes "a \<noteq> b"
  defines "x \<equiv> snd b - snd a" and "y \<equiv> - (fst b - fst a)"
  shows "linalg_norm (x / linalg_norm (x, y), y / linalg_norm (x, y)) = 1"
    and "vdot (x / linalg_norm (x, y), y / linalg_norm (x, y)) (fst b - fst a, snd b - snd a) = 0"
    and "(fst b - fst a) * (snd p - snd a) - (snd b - snd a) * (fst p - fst a) \<ge> 0
         \<Longrightarrow> vdot (fst p - fst a, snd p - snd a)
                  (x / linalg_norm (x, y), y / linalg_norm (x, y)) \<le> 0"
proof -
  have nz: "x \<noteq> 0 \<or> y \<noteq> 0"
    using assms(1) by (auto simp: x_def y_def prod_eq_iff)
  show "linalg_norm (x / linalg_norm (x, y), y / linalg_norm (x, y)) = 1"
    using nz by (rule unit_vector_norm)
  have r: "linalg_norm (x, y) > 0"
    using nz by (rule norm_pos)
  have "vdot (x / linalg_norm (x, y), y / linalg_norm (x, y)) (fst b - fst a, snd b - snd a)
        = (x * (- y) + y * x) / linalg_norm (x, y)"
    by (simp add: vdot_def x_def y_def add_divide_distrib)
  then show "vdot (x / linalg_norm (x, y), y / linalg_norm (x, y))
               (fst b - fst a, snd b - snd a) = 0"
    by simp
  assume c: "(fst b - fst a) * (snd p - snd a) - (snd b - snd a) * (fst p - fst a) \<ge> 0"
  have "vdot (fst p - fst a, snd p - snd a) (x / linalg_norm (x, y), y / linalg_norm (x, y))
        = - ((fst b - fst a) * (snd p - snd a) - (snd b - snd a) * (fst p - fst a))
          / linalg_norm (x, y)"
    by (simp add: vdot_def x_def y_def add_divide_distrib diff_divide_distrib algebra_simps)
  also have "\<dots> \<le> 0"
    using c r by (intro divide_nonpos_pos) simp_all
  finally show "vdot (fst p - fst a, snd p - snd a)
                  (x / linalg_norm (x, y), y / linalg_norm (x, y)) \<le> 0" .
qed


text \<open>
  C9. calculate_boundary returns the hull vertices and as many unit normals; normal i has
  Euclidean norm 1, is perpendicular to the edge from vertex i to vertex (i + 1) mod n, and
  points outward: no input point lies on its positive side. The hull is the answer of the
  external library, taken as it documents it: valid indices in counterclockwise order,
  successive hull vertices distinct, every input point on or to the left of every edge.
\<close>

theorem calculate_boundary_unit_normals:
  assumes "ConvexHull points = Inr hull_vertices"
    and "\<forall>k\<in>set hull_vertices. k < length points"
    and "\<forall>i<length hull_vertices. points ! (hull_vertices ! i) \<noteq> points ! (hull_vertices ! ((i + 1) mod length hull_vertices))"
    and "\<forall>i<length hull_vertices. \<forall>p\<in>set points.
           (fst (points ! (hull_vertices ! ((i + 1) mod length hull_vertices))) - fst (points ! (hull_vertices ! i)))
             * (snd p - snd (points ! (hull_vertices ! i)))
           - (snd (points ! (hull_vertices ! ((i + 1) mod length hull_vertices))) - snd (points ! (hull_vertices ! i)))
             * (fst p - fst (points ! (hull_vertices ! i))) \<ge> 0"
  shows "\<exists>vertices unit_normals.
           calculate_boundary ConvexHull points = Inr (vertices, unit_normals)
         \<and> vertices = map (\<lambda>k. points ! k) hull_vertices
         \<and> length unit_normals = length vertices
         \<and> (\<forall>i<length vertices.
               linalg_norm (unit_normals ! i) = 1
             \<and> vdot (unit_normals ! i)
                  (fst (vertices ! ((i + 1) mod length vertices)) - fst (vertices ! i),
                   snd (vertices ! ((i + 1) mod length vertices)) - snd (vertices ! i)) = 0
             \<and> (\<forall>p\<in>set points.
                   vdot (fst p - fst (vertices ! i), snd p - snd (vertices ! i))
                     (unit_normals ! i) \<le> 0))"
proof -
  let ?vs = "map (\<lambda>k. points ! k) hull_vertices"
  let ?n = "length ?vs"
  let ?U = "\<lambda>j. ((snd (?vs ! ((j + 1) mod ?n)) - snd (?vs ! j))
              / linalg_norm (snd (?vs ! ((j + 1) mod ?n)) - snd (?vs ! j),
                             - (fst (?vs ! ((j + 1) mod ?n)) - fst (?vs ! j))),
            - (fst (?vs ! ((j + 1) mod ?n)) - fst (?vs ! j))
              / linalg_norm (snd (?vs ! ((j + 1) mod ?n)) - snd (?vs ! j),
                             - (fst (?vs ! ((j + 1) mod ?n)) - fst (?vs ! j))))"
  have sel: "take_indices points hull_vertices = Inr ?vs"
    using assms(2) by (rule take_indices_map)
  have "\<exists>s'. for_each [0..<?n] (unit_normal_body ?vs) (replicate ?n (0, 0)) = Inr s'
          \<and> length s' = ?n
          \<and> (\<forall>k<?n. s' ! k = (if k \<in> set [0..<?n]
                                 then (\<lambda>j old. ?U j) k (replicate ?n (0, 0) ! k)
                                 else replicate ?n (0, 0) ! k))"
  proof (rule for_each_pointwise)
    fix i and s :: "point list"
    assume "i \<in> set [0..<?n]" "length s = ?n"
    then show "unit_normal_body ?vs i s = Inr (s[i := ?U i])"
      by (intro unit_normal_body_update) simp_all
  qed simp_all
  then obtain un where un:
    "for_each [0..<?n] (unit_normal_body ?vs) (replicate ?n (0, 0)) = Inr un"
    "length un = ?n" "\<forall>k<?n. un ! k = ?U k"
    by auto
  have res: "calculate_boundary ConvexHull points = Inr (?vs, un)"
    using assms(1) sel un(1) by (simp add: calculate_boundary_def bind_err_def)
  have props: "linalg_norm (un ! i) = 1
             \<and> vdot (un ! i)
                  (fst (?vs ! ((i + 1) mod ?n)) - fst (?vs ! i),
                   snd (?vs ! ((i + 1) mod ?n)) - snd (?vs ! i)) = 0
             \<and> (\<forall>p\<in>set points.
                   vdot (fst p - fst (?vs ! i), snd p - snd (?vs ! i)) (un ! i) \<le> 0)"
    if i: "i < ?n" for i
  proof -
    have i': "i < length hull_vertices" using i by simp
    have "0 < length hull_vertices" using i' by (rule le_less_trans [OF le0])
    then have nx: "(i + 1) mod length hull_vertices < length hull_vertices"
      by (rule mod_less_divisor)
    have a: "?vs ! i = points ! (hull_vertices ! i)" using i' by simp
    have b: "?vs ! ((i + 1) mod ?n) = points ! (hull_vertices ! ((i + 1) mod length hull_vertices))"
      using nx by simp
    have ne: "?vs ! i \<noteq> ?vs ! ((i + 1) mod ?n)"
      using assms(3) i' a b by simp
    have u: "un ! i = ?U i" using un(3) i by blast
    have "linalg_norm (un ! i) = 1"
      unfolding u by (rule unit_normal_facts(1) [OF ne])
    moreover have "vdot (un ! i)
                  (fst (?vs ! ((i + 1) mod ?n)) - fst (?vs ! i),
                   snd (?vs ! ((i + 1) mod ?n)) - snd (?vs ! i)) = 0"
      unfolding u by (rule unit_normal_facts(2) [OF ne])
    moreover have "vdot (fst p - fst (?vs ! i), snd p - snd (?vs ! i)) (un ! i) \<le> 0"
      if p: "p \<in> set points" for p
    proof -
      have "(fst (?vs ! ((i + 1) mod ?n)) - fst (?vs ! i)) * (snd p - snd (?vs ! i))
            - (snd (?vs ! ((i + 1) mod ?n)) - snd (?vs ! i)) * (fst p - fst (?vs ! i)) \<ge> 0"
        unfolding a b using assms(4) i' p by blast
      then show ?thesis
        unfolding u by (rule unit_normal_facts(3) [OF ne])
    qed
    ultimately show ?thesis by blast
  qed
  show ?thesis
    using res un(2) props by blast
qed


lemma all_less_3: "(\<forall>i<Suc (Suc (Suc 0)). P i) \<longleftrightarrow> P 0 \<and> P 1 \<and> P 2"
  by (auto simp: less_Suc_eq numeral_2_eq_2)

theorem calculate_boundary_unit_normals_witness:
  "\<exists>vertices unit_normals.
     calculate_boundary (\<lambda>points. Inr [0, 1, 2]) [(0, 0), (1, 0), (0, 1), (1/4, 1/4)]
       = Inr (vertices, unit_normals)
   \<and> vertices = [(0, 0), (1, 0), (0, 1)]
   \<and> length unit_normals = 3
   \<and> linalg_norm (unit_normals ! 1) = 1
   \<and> vdot (1/4 - fst (vertices ! 1), 1/4 - snd (vertices ! 1)) (unit_normals ! 1) \<le> 0"
proof -
  let ?pts = "[(0, 0), (1, 0), (0, 1), (1/4, 1/4)] :: point list"
  let ?hv = "[0, 1, 2] :: nat list"
  have h2: "\<forall>k\<in>set ?hv. k < length ?pts" by simp
  have h3: "\<forall>i<length ?hv. ?pts ! (?hv ! i) \<noteq> ?pts ! (?hv ! ((i + 1) mod length ?hv))"
    by (simp add: all_less_3)
  have h4: "\<forall>i<length ?hv. \<forall>p\<in>set ?pts.
           (fst (?pts ! (?hv ! ((i + 1) mod length ?hv))) - fst (?pts ! (?hv ! i)))
             * (snd p - snd (?pts ! (?hv ! i)))
           - (snd (?pts ! (?hv ! ((i + 1) mod length ?hv))) - snd (?pts ! (?hv ! i)))
             * (fst p - fst (?pts ! (?hv ! i))) \<ge> 0"
    by (simp add: all_less_3)
  show ?thesis
    using calculate_boundary_unit_normals [of "\<lambda>points. Inr [0, 1, 2]" ?pts ?hv, OF refl h2 h3 h4]
    by (auto simp: all_less_3)
qed

section \<open>The round trip through MUX and DeMUX\<close>

lemma digit_char_inj:
  assumes "a < 10" "b < 10" "digit_char a = digit_char b"
  shows "a = b"
proof -
  have "(of_char (digit_char a) :: nat) = of_char (digit_char b)"
    using assms(3) by simp
  then have "(48 + a) mod 256 = (48 + b) mod 256"
    by (simp add: digit_char_def)
  then show ?thesis
    using assms(1,2) by simp
qed

lemma string_of_nat_nonempty: "string_of_nat n \<noteq> []"
  by (subst string_of_nat.simps) simp

lemma string_of_nat_inj: "string_of_nat m = string_of_nat n \<Longrightarrow> m = n"
proof (induction m arbitrary: n rule: string_of_nat.induct)
  case (1 m)
  show ?case
  proof (cases "m < 10")
    case m: True
    show ?thesis
    proof (cases "n < 10")
      case True
      then have "digit_char m = digit_char n"
        using "1.prems" m by (subst (asm) (1 2) string_of_nat.simps) simp
      then show ?thesis using m True by (intro digit_char_inj)
    next
      case False
      then have "[digit_char m] = string_of_nat (n div 10) @ [digit_char (n mod 10)]"
        using "1.prems" m by (subst (asm) (1 2) string_of_nat.simps) simp
      then show ?thesis using string_of_nat_nonempty [of "n div 10"] by simp
    qed
  next
    case m: False
    show ?thesis
    proof (cases "n < 10")
      case True
      then have "string_of_nat (m div 10) @ [digit_char (m mod 10)] = [digit_char n]"
        using "1.prems" m by (subst (asm) (1 2) string_of_nat.simps) simp
      then show ?thesis using string_of_nat_nonempty [of "m div 10"] by simp
    next
      case False
      then have "string_of_nat (m div 10) @ [digit_char (m mod 10)]
                 = string_of_nat (n div 10) @ [digit_char (n mod 10)]"
        using "1.prems" m by (subst (asm) (1 2) string_of_nat.simps) simp
      then have e: "string_of_nat (m div 10) = string_of_nat (n div 10)"
        "digit_char (m mod 10) = digit_char (n mod 10)"
        by simp_all
      have "m div 10 = n div 10"
        using "1.IH" m e(1) by blast
      moreover have "m mod 10 = n mod 10"
        using e(2) by (intro digit_char_inj) simp_all
      ultimately show ?thesis
        by (metis div_mult_mod_eq)
    qed
  qed
qed


lemma MUX_forward:
  assumes "\<forall>i<length v. params (''input'' @ string_of_nat i) = Some (v ! i)"
    and "length Array0 = length v"
  shows "MUX_solve_nonlinear (length v) params Array0 = Inr v"
proof -
  let ?body = "\<lambda>i Array. bind_err (lookup params (''input'' @ string_of_nat i))
                              (\<lambda>x. setitem Array i x)"
  have "\<exists>s'. for_each [0..<length v] ?body Array0 = Inr s' \<and> length s' = length v
          \<and> (\<forall>k<length v. s' ! k = (if k \<in> set [0..<length v] then (\<lambda>i old. v ! i) k (Array0 ! k)
                                      else Array0 ! k))"
  proof (rule for_each_pointwise)
    fix i and s :: vec
    assume "i \<in> set [0..<length v]" "length s = length v"
    then show "?body i s = Inr (s[i := v ! i])"
      using assms(1) by (simp add: lookup_def bind_err_def setitem_def)
  qed (simp_all add: assms(2))
  then obtain s' where s': "for_each [0..<length v] ?body Array0 = Inr s'"
    "length s' = length v" "\<forall>k<length v. s' ! k = v ! k"
    by auto
  have "s' = v"
    using s'(2,3) by (intro nth_equalityI) simp_all
  then show ?thesis
    using s'(1) by (simp add: MUX_solve_nonlinear_def)
qed

lemma for_each_map_update:
  assumes "\<And>i u. i \<in> set is \<Longrightarrow> body i u = Inr (u(name i \<mapsto> g i))"
    and "\<And>a b. name a = name b \<Longrightarrow> a = b"
  shows "\<exists>u'. for_each is body u = Inr u'
              \<and> (\<forall>k. u' (name k) = (if k \<in> set is then Some (g k) else u (name k)))
              \<and> dom u' = dom u \<union> name ` set is"
  using assms(1)
proof (induction "is" arbitrary: u)
  case Nil
  then show ?case by simp
next
  case (Cons i "is")
  let ?u1 = "u(name i \<mapsto> g i)"
  have "body i u = Inr ?u1"
    by (rule Cons.prems) simp
  then have step: "for_each (i # is) body u = for_each is body ?u1"
    by (simp only: for_each.simps bind_err_def sum.case)
  have "\<exists>u'. for_each is body ?u1 = Inr u'
              \<and> (\<forall>k. u' (name k) = (if k \<in> set is then Some (g k) else ?u1 (name k)))
              \<and> dom u' = dom ?u1 \<union> name ` set is"
    using Cons.prems by (intro Cons.IH) simp
  then obtain u' where u': "for_each is body ?u1 = Inr u'"
    "\<forall>k. u' (name k) = (if k \<in> set is then Some (g k) else ?u1 (name k))"
    "dom u' = dom ?u1 \<union> name ` set is"
    by blast
  have "u' (name k) = (if k \<in> set (i # is) then Some (g k) else u (name k))" for k
  proof (cases "k = i")
    case True
    then show ?thesis using u'(2) by simp
  next
    case False
    then have "name k \<noteq> name i" using assms(2) by blast
    then show ?thesis using u'(2) False by simp
  qed
  moreover have "dom u' = dom u \<union> name ` set (i # is)"
    using u'(3) by auto
  ultimately show ?case
    using step u'(1) by simp
qed

lemma output_name_inj:
  "''output'' @ string_of_nat a = ''output'' @ string_of_nat b \<Longrightarrow> a = b"
  by (simp add: string_of_nat_inj)

text \<open>
  C8. For every scalar sequence v of length N: when the inputs input0, ..., input(N-1) of
  MUX hold the elements of v, its output Array is v, and a DeMUX of the same size fed with
  that array assigns v[i] to its output i, for every i < N: DeMUX(MUX(v)) = v, with the
  order of the indices and names preserved.
\<close>

theorem DeMUX_MUX_roundtrip:
  assumes "\<forall>i<length v. params (''input'' @ string_of_nat i) = Some (v ! i)"
    and "length Array0 = length v"
  shows "\<exists>Array unknowns.
           MUX_solve_nonlinear (length v) params Array0 = Inr Array
         \<and> Array = v
         \<and> DeMUX_solve_nonlinear (length v) Array unknowns0 = Inr unknowns
         \<and> (\<forall>i<length v. unknowns (''output'' @ string_of_nat i) = Some (v ! i))"
proof -
  have m: "MUX_solve_nonlinear (length v) params Array0 = Inr v"
    using assms by (rule MUX_forward)
  have "\<exists>u'. for_each [0..<length v]
                (\<lambda>i unknowns. bind_err (getitem v i) (\<lambda>x.
                   Inr (unknowns(''output'' @ string_of_nat i \<mapsto> x)))) unknowns0 = Inr u'
              \<and> (\<forall>k. u' (''output'' @ string_of_nat k)
                     = (if k \<in> set [0..<length v] then Some (v ! k)
                        else unknowns0 (''output'' @ string_of_nat k)))
              \<and> dom u' = dom unknowns0 \<union> (\<lambda>i. ''output'' @ string_of_nat i) ` set [0..<length v]"
  proof (rule for_each_map_update)
    fix i and u :: "string \<rightharpoonup> real"
    assume "i \<in> set [0..<length v]"
    then show "bind_err (getitem v i) (\<lambda>x. Inr (u(''output'' @ string_of_nat i \<mapsto> x)))
               = Inr (u(''output'' @ string_of_nat i \<mapsto> v ! i))"
      by (simp add: bind_err_def getitem_def)
  qed (rule output_name_inj)
  then obtain u' where u': "DeMUX_solve_nonlinear (length v) v unknowns0 = Inr u'"
    "\<forall>k. u' (''output'' @ string_of_nat k)
          = (if k \<in> set [0..<length v] then Some (v ! k)
             else unknowns0 (''output'' @ string_of_nat k))"
    unfolding DeMUX_solve_nonlinear_def by blast
  show ?thesis
    using m u' by simp
qed

lemma string_of_nat_0: "string_of_nat 0 = ''0''"
  by code_simp

lemma string_of_nat_1: "string_of_nat (Suc 0) = ''1''"
  by code_simp

theorem DeMUX_MUX_roundtrip_witness:
  "\<exists>Array unknowns.
     MUX_solve_nonlinear 2 [''input0'' \<mapsto> 100, ''input1'' \<mapsto> 200] [0, 0] = Inr Array
   \<and> Array = [100, 200]
   \<and> DeMUX_solve_nonlinear 2 Array Map.empty = Inr unknowns
   \<and> unknowns ''output0'' = Some 100 \<and> unknowns ''output1'' = Some 200"
proof -
  let ?v = "[100, 200] :: vec"
  let ?params = "[''input0'' \<mapsto> 100, ''input1'' \<mapsto> 200] :: string \<rightharpoonup> real"
  have h1: "\<forall>i<length ?v. ?params (''input'' @ string_of_nat i) = Some (?v ! i)"
    by (simp add: All_less_Suc string_of_nat_0 string_of_nat_1)
  have h2: "length [0, 0 :: real] = length ?v"
    by simp
  have l: "length ?v = 2" by simp
  have "\<exists>Array unknowns.
           MUX_solve_nonlinear (length ?v) ?params [0, 0] = Inr Array
         \<and> Array = ?v
         \<and> DeMUX_solve_nonlinear (length ?v) Array Map.empty = Inr unknowns
         \<and> (\<forall>i<length ?v. unknowns (''output'' @ string_of_nat i) = Some (?v ! i))"
    by (rule DeMUX_MUX_roundtrip [OF h1 h2])
  then obtain Array unknowns where r:
    "MUX_solve_nonlinear 2 ?params [0, 0] = Inr Array" "Array = ?v"
    "DeMUX_solve_nonlinear 2 Array Map.empty = Inr unknowns"
    "\<forall>i<length ?v. unknowns (''output'' @ string_of_nat i) = Some (?v ! i)"
    unfolding l by blast
  have "unknowns (''output'' @ string_of_nat 0) = Some (?v ! 0)"
    using r(4) by simp
  then have o0: "unknowns ''output0'' = Some 100"
    by (simp add: string_of_nat_0)
  have "unknowns (''output'' @ string_of_nat (Suc 0)) = Some (?v ! Suc 0)"
    using r(4) by simp
  then have o1: "unknowns ''output1'' = Some 200"
    by (simp add: string_of_nat_1)
  show ?thesis
    using r(1,2,3) o0 o1 by blast
qed

section \<open>Clamping in the CPCT interpolation\<close>

text \<open>
  C6, as stated. Both variants are claimed to clamp a wind speed outside the range of the
  table to the nearest boundary before interpolating. The smooth variant does not: it
  evaluates the spline at the hub wind speed as it is. With the table (0, 0), (10, 1) and
  the spline through these two points, a turbine at 100 m/s gets the coefficient 10, not
  the coefficient 1 of the boundary at 10 m/s.
\<close>

theorem smooth_variant_not_clamped:
  "map_sum id fst (CPCT_Interpolate_Gradients_Smooth_solve_nonlinear line_spline
      \<lparr> cpct_yaw = [0], cpct_wtVelocity = [100], cpct_pP = 3,
        cpct_windSpeedToCPCT_wind_speed = [0, 10], cpct_windSpeedToCPCT_CP = [0, 1],
        cpct_windSpeedToCPCT_CT = [0, 1/2] \<rparr>) = Inr [10]
   \<and> map_sum id fst (CPCT_Interpolate_Gradients_Smooth_solve_nonlinear line_spline
      \<lparr> cpct_yaw = [0], cpct_wtVelocity = [10], cpct_pP = 3,
        cpct_windSpeedToCPCT_wind_speed = [0, 10], cpct_windSpeedToCPCT_CP = [0, 1],
        cpct_windSpeedToCPCT_CT = [0, 1/2] \<rparr>) = Inr [1]"
  by (simp add: CPCT_Interpolate_Gradients_Smooth_solve_nonlinear_def line_spline_def
      bind_err_def vmul_def cos_deg_def Let_def)

lemma clamped_interp_result:
  assumes "wind_speed \<noteq> []" "length CP = length wind_speed" "length CT = length wind_speed"
  shows "clamped_interp x wind_speed CP CT =
         Inr (map (\<lambda>x. interp_value (min (max x (hd wind_speed)) (last wind_speed)) wind_speed CP) x,
              map (\<lambda>x. interp_value (min (max x (hd wind_speed)) (last wind_speed)) wind_speed CT) x)"
  using assms
  by (simp add: clamped_interp_def first_item_def last_item_def getitem_def bind_err_def
      np_interp_array_def np_maximum_def np_minimum_def hd_conv_nth o_def)

text \<open>
  C6, amended. In the table variant, for a table that is not empty and whose coefficient
  arrays have its length, and for yaw angles with a positive cosine, the forward pass
  returns, and the coefficients of turbine i are interpolated at its axial-equivalent wind
  speed brought into the range of the table (the minimum with the last table speed of the
  maximum with the first one); for an increasing table this index lies between the first
  and the last table speed.
\<close>

theorem table_variant_clamps:
  assumes "cpct_windSpeedToCPCT_wind_speed params \<noteq> []"
    and "length (cpct_windSpeedToCPCT_CP params) = length (cpct_windSpeedToCPCT_wind_speed params)"
    and "length (cpct_windSpeedToCPCT_CT params) = length (cpct_windSpeedToCPCT_wind_speed params)"
    and "length (cpct_yaw params) = length (cpct_wtVelocity params)"
    and "\<forall>i < length (cpct_yaw params). 0 < cos (cpct_yaw params ! i * pi / 180)"
  shows "\<exists>Cp_out Ct_out.
           CPCT_Interpolate_Gradients_solve_nonlinear params = Inr (Cp_out, Ct_out)
         \<and> length Cp_out = length (cpct_wtVelocity params)
         \<and> length Ct_out = length (cpct_wtVelocity params)
         \<and> (\<forall>i < length (cpct_wtVelocity params).
               Cp_out ! i =
                 interp_value
                   (min (max (cos (cpct_yaw params ! i * pi / 180) powr (cpct_pP params / 3)
                              * cpct_wtVelocity params ! i)
                             (hd (cpct_windSpeedToCPCT_wind_speed params)))
                        (last (cpct_windSpeedToCPCT_wind_speed params)))
                   (cpct_windSpeedToCPCT_wind_speed params) (cpct_windSpeedToCPCT_CP params)
                 * cos (cpct_yaw params ! i * pi / 180) powr cpct_pP params
             \<and> Ct_out ! i =
                 interp_value
                   (min (max (cos (cpct_yaw params ! i * pi / 180) powr (cpct_pP params / 3)
                              * cpct_wtVelocity params ! i)
                             (hd (cpct_windSpeedToCPCT_wind_speed params)))
                        (last (cpct_windSpeedToCPCT_wind_speed params)))
                   (cpct_windSpeedToCPCT_wind_speed params) (cpct_windSpeedToCPCT_CT params)
                 * (cos (cpct_yaw params ! i * pi / 180))\<^sup>2
             \<and> (hd (cpct_windSpeedToCPCT_wind_speed params)
                    \<le> last (cpct_windSpeedToCPCT_wind_speed params) \<longrightarrow>
                  hd (cpct_windSpeedToCPCT_wind_speed params)
                    \<le> min (max (cos (cpct_yaw params ! i * pi / 180) powr (cpct_pP params / 3)
                                 * cpct_wtVelocity params ! i)
                                (hd (cpct_windSpeedToCPCT_wind_speed params)))
                           (last (cpct_windSpeedToCPCT_wind_speed params))
                \<and> min (max (cos (cpct_yaw params ! i * pi / 180) powr (cpct_pP params / 3)
                             * cpct_wtVelocity params ! i)
                            (hd (cpct_windSpeedToCPCT_wind_speed params)))
                       (last (cpct_windSpeedToCPCT_wind_speed params))
                    \<le> last (cpct_windSpeedToCPCT_wind_speed params)))"
  using assms
  by (simp add: CPCT_Interpolate_Gradients_solve_nonlinear_def clamped_interp_result
      bind_err_def vmul_def cos_deg_def Let_def)


theorem table_variant_clamps_witness:
  "CPCT_Interpolate_Gradients_solve_nonlinear
      \<lparr> cpct_yaw = [0], cpct_wtVelocity = [100], cpct_pP = 3,
        cpct_windSpeedToCPCT_wind_speed = [0, 10], cpct_windSpeedToCPCT_CP = [0, 1],
        cpct_windSpeedToCPCT_CT = [0, 1/2] \<rparr> = Inr ([1], [1/2])"
proof -
  let ?params = "\<lparr> cpct_yaw = [0], cpct_wtVelocity = [100], cpct_pP = 3,
        cpct_windSpeedToCPCT_wind_speed = [0, 10], cpct_windSpeedToCPCT_CP = [0, 1],
        cpct_windSpeedToCPCT_CT = [0, 1/2] \<rparr>"
  obtain Cp_out Ct_out where r:
    "CPCT_Interpolate_Gradients_solve_nonlinear ?params = Inr (Cp_out, Ct_out)"
    "length Cp_out = 1" "length Ct_out = 1" "Cp_out ! 0 = 1" "Ct_out ! 0 = 1/2"
    using table_variant_clamps [of ?params] by (auto simp: interp_value_def)
  have "Cp_out = [1]"
    using r(2,4) by (cases Cp_out) simp_all
  moreover have "Ct_out = [1/2]"
    using r(3,5) by (cases Ct_out) simp_all
  ultimately show ?thesis
    using r(1) by simp
qed

section \<open>Loops that keep an invariant\<close>

lemma for_each_upt_invariant:
  assumes "\<And>i s. a \<le> i \<Longrightarrow> i < b \<Longrightarrow> Inv i s \<Longrightarrow> \<exists>s'. body i s = Inr s' \<and> Inv (Suc i) s'"
    and "Inv a s" and "a \<le> b"
  shows "\<exists>s'. for_each [a..<b] body s = Inr s' \<and> Inv b s'"
  using assms
proof (induction "b - a" arbitrary: a s)
  case 0
  then show ?case by simp
next
  case (Suc d)
  then have lt: "a < b" by simp
  have "\<exists>s'. body a s = Inr s' \<and> Inv (Suc a) s'"
    using Suc.prems(2) lt by (intro Suc.prems(1)) simp_all
  then obtain s1 where s1: "body a s = Inr s1" "Inv (Suc a) s1"
    by blast
  have "\<exists>s'. for_each [Suc a..<b] body s1 = Inr s' \<and> Inv b s'"
  proof (rule Suc.hyps(1))
    show "d = b - Suc a" using Suc.hyps(2) by simp
    show "\<exists>s'. body i s = Inr s' \<and> Inv (Suc i) s'" if "Suc a \<le> i" "i < b" "Inv i s" for i s
      using that by (intro Suc.prems(1)) simp_all
    show "Inv (Suc a) s1" by (rule s1(2))
    show "Suc a \<le> b" using lt by simp
  qed
  moreover have "[a..<b] = a # [Suc a..<b]"
    using lt by (rule upt_conv_Cons)
  ultimately show ?case
    using s1(1) by (simp add: bind_err_def)
qed

lemma setitem2_eq:
  assumes "i < length M" "j < length (M ! i)"
  shows "setitem2 M i j v = Inr (M[i := (M ! i)[j := v]])"
  using assms by (simp add: setitem2_def bind_err_def getitem_def setitem_def)

lemma setitem2_shape:
  assumes "length M = r" "\<forall>row\<in>set M. length row = c" "i < r" "j < c"
  shows "\<exists>M'. setitem2 M i j v = Inr M' \<and> length M' = r \<and> (\<forall>row\<in>set M'. length row = c)"
proof -
  have "M ! i \<in> set M"
    using assms(1,3) by simp
  then have li: "length (M ! i) = c"
    using assms(2) by blast
  let ?M' = "list_update M i (list_update (M ! i) j v)"
  have e: "setitem2 M i j v = Inr ?M'"
  proof (rule setitem2_eq)
    show "i < length M" using assms(1,3) by simp
    show "j < length (M ! i)" using assms(4) li by simp
  qed
  have sh: "\<forall>row\<in>set ?M'. length row = c"
  proof (rule ballI)
    fix r assume r: "r \<in> set ?M'"
    have "set ?M' \<subseteq> insert ((M ! i)[j := v]) (set M)"
      by (rule set_update_subset_insert)
    then have "r \<in> insert ((M ! i)[j := v]) (set M)"
      using r by (rule subsetD)
    then have "r = (M ! i)[j := v] \<or> r \<in> set M"
      by simp
    then show "length r = c"
      using assms(2) li by auto
  qed
  have "length ?M' = r"
    using assms(1) by simp
  then show ?thesis using e sh by blast
qed

section \<open>The keys of the Jacobians\<close>

text \<open>
  C1, as stated. Every component is claimed to return a block for every pair of a declared
  output and a declared input. WindFrame does not: it declares the inputs wind_speed and
  wind_direction, and its Jacobian has blocks for turbineX and turbineY only, so the set
  of its keys is not the product of the declared outputs and the declared inputs.
\<close>

theorem WindFrame_jacobian_incomplete:
  "dom (WindFrame_linearize 1
          \<lparr> wf_wind_speed = 8, wf_wind_direction = 270, wf_turbineX = [0], wf_turbineY = [0],
            wf_wsPositionX = [], wf_wsPositionY = [] \<rparr>)
   \<noteq> set (WindFrame_declared_outputs 0) \<times> fst ` set (WindFrame_declared_params 0)"
proof -
  have "(''turbineXw'', ''wind_direction'')
          \<in> set (WindFrame_declared_outputs 0) \<times> fst ` set (WindFrame_declared_params 0)"
    by (simp add: WindFrame_declared_outputs_def WindFrame_declared_params_def)
  moreover have "(''turbineXw'', ''wind_direction'')
          \<notin> dom (WindFrame_linearize 1
          \<lparr> wf_wind_speed = 8, wf_wind_direction = 270, wf_turbineX = [0], wf_turbineY = [0],
            wf_wsPositionX = [], wf_wsPositionY = [] \<rparr>)"
    by (simp add: WindFrame_linearize_def Let_def)
  ultimately show ?thesis by blast
qed

lemma WindFrame_keys:
  "dom (WindFrame_linearize nTurbines params)
   = {''turbineXw'', ''turbineYw''} \<times> {''turbineX'', ''turbineY''}"
  by (auto simp: WindFrame_linearize_def Let_def)

lemma WindFrame_keys_declared:
  "{''turbineXw'', ''turbineYw''} \<times> {''turbineX'', ''turbineY''}
   \<subseteq> set (WindFrame_declared_outputs nSamples) \<times> fst ` set (WindFrame_declared_params nSamples)"
  by (auto simp: WindFrame_declared_outputs_def WindFrame_declared_params_def)

lemma AdjustCtCpYaw_keys:
  "dom (AdjustCtCpYaw_linearize direction_id params)
   = set AdjustCtCpYaw_declared_outputs
     \<times> set (differentiable_params (AdjustCtCpYaw_declared_params direction_id))"
  by (auto simp: AdjustCtCpYaw_linearize_def Let_def AdjustCtCpYaw_declared_outputs_def
      AdjustCtCpYaw_declared_params_def differentiable_params_def)

lemma AdjustCtCpYaw_zero_blocks:
  "AdjustCtCpYaw_linearize direction_id params (''Ct_out'', ''Cp_in'')
     = Some (Array2 (np_zeros2 (length (adj_Ct_in params)) (length (adj_Ct_in params))))
   \<and> AdjustCtCpYaw_linearize direction_id params (''Cp_out'', ''Ct_in'')
     = Some (Array2 (np_zeros2 (length (adj_Ct_in params)) (length (adj_Ct_in params))))"
  by (simp add: AdjustCtCpYaw_linearize_def Let_def)


lemma WindFarmAEP_keys:
  assumes "aep_AEP_method params \<in> {''none'', ''log'', ''inverse''}"
    and "rec_func_calls \<longrightarrow> rank < length calls"
  shows "\<exists>J calls'. WindFarmAEP_linearize rec_func_calls rank params calls = Inr (J, calls')
           \<and> dom J = {(''AEP'', ''dirPowers'')}"
  using assms
  by (auto simp: WindFarmAEP_linearize_def Let_def bind_err_def getitem_def setitem_def)

lemma MUX_keys:
  "\<exists>J. MUX_linearize nElements = Inr J
       \<and> dom J = set MUX_declared_outputs \<times> set (MUX_declared_params nElements)"
proof -
  let ?name = "\<lambda>k. (''Array'', ''input'' @ string_of_nat k)"
  let ?body = "\<lambda>i (dArray_dInput, J).
             bind_err (setitem dArray_dInput i 1) (\<lambda>dArray_dInput.
             let J = J((''Array'', ''input'' @ string_of_nat i) \<mapsto> Array1 dArray_dInput)
             in bind_err (setitem dArray_dInput i 0) (\<lambda>dArray_dInput.
                Inr (dArray_dInput, J)))"
  let ?Inv = "\<lambda>i (s :: vec \<times> jacobian).
             length (fst s) = nElements \<and> dom (snd s) = ?name ` {0..<i}"
  have "\<exists>s'. for_each [0..<nElements] ?body (np_zeros nElements, Map.empty) = Inr s'
          \<and> ?Inv nElements s'"
  proof (rule for_each_upt_invariant [where Inv = ?Inv])
    fix i and s :: "vec \<times> jacobian"
    assume i: "0 \<le> i" "i < nElements" and inv: "?Inv i s"
    obtain d J where s: "s = (d, J)" by (cases s)
    have "?body i s = Inr (d[i := 0], J(?name i \<mapsto> Array1 (d[i := 1])))"
      using i inv s by (simp add: bind_err_def setitem_def)
    moreover have "?Inv (Suc i) (d[i := 0], J(?name i \<mapsto> Array1 (d[i := 1])))"
      using inv s by (auto simp: atLeast0_lessThan_Suc)
    ultimately show "\<exists>s'. ?body i s = Inr s' \<and> ?Inv (Suc i) s'"
      by blast
  qed (simp_all add: np_zeros_def)
  then obtain d J where r:
    "for_each [0..<nElements] ?body (np_zeros nElements, Map.empty) = Inr (d, J)"
    "dom J = ?name ` {0..<nElements}"
    by auto
  have "MUX_linearize nElements = Inr J"
    using r(1) by (simp add: MUX_linearize_def bind_err_def)
  moreover have "dom J = set MUX_declared_outputs \<times> set (MUX_declared_params nElements)"
    using r(2) by (auto simp: MUX_declared_outputs_def MUX_declared_params_def)
  ultimately show ?thesis by blast
qed

lemma DeMUX_keys:
  "\<exists>J. DeMUX_linearize nElements = Inr J
       \<and> dom J = set (DeMUX_declared_outputs nElements) \<times> set DeMUX_declared_params"
proof -
  let ?name = "\<lambda>k. (''output'' @ string_of_nat k, ''Array'')"
  let ?body = "\<lambda>i J. bind_err (getitem (np_eye nElements) i) (\<lambda>row.
              Inr (J((''output'' @ string_of_nat i, ''Array'') \<mapsto> Array2 [row])))"
  have "\<exists>u'. for_each [0..<nElements] ?body Map.empty = Inr u'
          \<and> (\<forall>k. u' (?name k) = (if k \<in> set [0..<nElements]
                                    then Some (Array2 [np_eye nElements ! k])
                                    else Map.empty (?name k)))
          \<and> dom u' = dom (Map.empty :: jacobian) \<union> ?name ` set [0..<nElements]"
  proof (rule for_each_map_update)
    fix i and u :: jacobian
    assume "i \<in> set [0..<nElements]"
    then show "?body i u = Inr (u(?name i \<mapsto> Array2 [np_eye nElements ! i]))"
      by (simp add: bind_err_def getitem_def np_eye_def)
  next
    fix a b
    assume "?name a = ?name b"
    then show "a = b" by (simp add: string_of_nat_inj)
  qed
  then obtain J where r: "for_each [0..<nElements] ?body Map.empty = Inr J"
    "dom J = ?name ` set [0..<nElements]"
    by auto
  have "DeMUX_linearize nElements = Inr J"
    using r(1) by (simp add: DeMUX_linearize_def)
  moreover have "dom J = set (DeMUX_declared_outputs nElements) \<times> set DeMUX_declared_params"
    using r(2) by (auto simp: DeMUX_declared_outputs_def DeMUX_declared_params_def)
  ultimately show ?thesis by blast
qed


lemma CPCT_table_keys:
  assumes "cpct_windSpeedToCPCT_wind_speed params \<noteq> []"
    and "length (cpct_windSpeedToCPCT_CP params) = length (cpct_windSpeedToCPCT_wind_speed params)"
    and "length (cpct_windSpeedToCPCT_CT params) = length (cpct_windSpeedToCPCT_wind_speed params)"
  shows "\<exists>J. CPCT_Interpolate_Gradients_linearize nTurbines direction_id params = Inr J
           \<and> dom J = set CPCT_declared_outputs
                      \<times> set (differentiable_params (CPCT_declared_params direction_id))"
  using assms
  by (auto simp: CPCT_Interpolate_Gradients_linearize_def clamped_interp_result bind_err_def
      Let_def CPCT_declared_outputs_def CPCT_declared_params_def differentiable_params_def)

lemma CPCT_smooth_keys:
  "\<exists>J. CPCT_Interpolate_Gradients_Smooth_linearize nTurbines direction_id (Some cache) = Inr J
       \<and> dom J = set CPCT_declared_outputs
                  \<times> set (differentiable_params (CPCT_declared_params direction_id))"
  by (auto simp: CPCT_Interpolate_Gradients_Smooth_linearize_def
      Let_def CPCT_declared_outputs_def CPCT_declared_params_def differentiable_params_def)

lemma boundary_deriv_loops:
  assumes "nVertices \<le> length unit_normals"
  shows "\<exists>s'. for_each [0..<nTurbines]
                 (\<lambda>i. for_each [0..<nVertices] (boundary_deriv_body nVertices unit_normals i))
                 (np_zeros2 (nTurbines * nVertices) nTurbines,
                  np_zeros2 (nTurbines * nVertices) nTurbines) = Inr s'"
proof -
  let ?sh = "\<lambda>M :: mat. length M = nTurbines * nVertices \<and> (\<forall>row\<in>set M. length row = nTurbines)"
  let ?Inv = "\<lambda>(k :: nat) (s :: mat \<times> mat). ?sh (fst s) \<and> ?sh (snd s)"
  have inner: "\<exists>s'. for_each [0..<nVertices] (boundary_deriv_body nVertices unit_normals i) s = Inr s'
                 \<and> ?Inv (Suc i) s'"
    if i: "i < nTurbines" and inv: "?Inv i s" for i s
  proof -
    have "\<exists>s'. for_each [0..<nVertices] (boundary_deriv_body nVertices unit_normals i) s = Inr s'
            \<and> ?Inv nVertices s'"
    proof (rule for_each_upt_invariant [where Inv = ?Inv])
      fix j and t :: "mat \<times> mat"
      assume j: "0 \<le> j" "j < nVertices" and t: "?Inv j t"
      obtain dx dy where p: "t = (dx, dy)" by (cases t)
      have "i * nVertices + j < Suc i * nVertices" using j by simp
      also have "\<dots> \<le> nTurbines * nVertices"
        using i by (intro mult_le_mono1) simp
      finally have r: "i * nVertices + j < nTurbines * nVertices" .
      have shx: "length dx = nTurbines * nVertices" "\<forall>row\<in>set dx. length row = nTurbines"
        and shy: "length dy = nTurbines * nVertices" "\<forall>row\<in>set dy. length row = nTurbines"
        using t p by simp_all
      let ?vx = "vdot (vdot (- 1, 0) (unit_normals ! j) * fst (unit_normals ! j),
                   vdot (- 1, 0) (unit_normals ! j) * snd (unit_normals ! j)) (unit_normals ! j)"
      let ?vy = "vdot (vdot (0, - 1) (unit_normals ! j) * fst (unit_normals ! j),
                   vdot (0, - 1) (unit_normals ! j) * snd (unit_normals ! j)) (unit_normals ! j)"
      have "\<exists>M'. setitem2 dx (i * nVertices + j) i ?vx = Inr M' \<and> length M' = nTurbines * nVertices
              \<and> (\<forall>row\<in>set M'. length row = nTurbines)"
        by (rule setitem2_shape [OF shx r i])
      then obtain dx' where dx': "setitem2 dx (i * nVertices + j) i ?vx = Inr dx'" "?sh dx'"
        by blast
      have "\<exists>M'. setitem2 dy (i * nVertices + j) i ?vy = Inr M' \<and> length M' = nTurbines * nVertices
              \<and> (\<forall>row\<in>set M'. length row = nTurbines)"
        by (rule setitem2_shape [OF shy r i])
      then obtain dy' where dy': "setitem2 dy (i * nVertices + j) i ?vy = Inr dy'" "?sh dy'"
        by blast
      have "boundary_deriv_body nVertices unit_normals i j t = Inr (dx', dy')"
        using p j assms dx'(1) dy'(1)
        by (simp add: boundary_deriv_body_def Let_def bind_err_def getitem_def)
      then show "\<exists>s'. boundary_deriv_body nVertices unit_normals i j t = Inr s' \<and> ?Inv (Suc j) s'"
        using dx'(2) dy'(2) by simp
    qed (use inv in simp_all)
    then show ?thesis by simp
  qed
  have "\<exists>s'. for_each [0..<nTurbines]
                 (\<lambda>i. for_each [0..<nVertices] (boundary_deriv_body nVertices unit_normals i))
                 (np_zeros2 (nTurbines * nVertices) nTurbines,
                  np_zeros2 (nTurbines * nVertices) nTurbines) = Inr s' \<and> ?Inv nTurbines s'"
  proof (rule for_each_upt_invariant [where Inv = ?Inv])
    fix i and s :: "mat \<times> mat"
    assume "0 \<le> i" "i < nTurbines" "?Inv i s"
    then show "\<exists>s'. for_each [0..<nVertices] (boundary_deriv_body nVertices unit_normals i) s = Inr s'
                 \<and> ?Inv (Suc i) s'"
      by (intro inner)
  qed (simp_all add: np_zeros2_def)
  then show ?thesis by blast
qed

lemma BoundaryComp_keys:
  assumes "BoundaryComp_init nTurbines nVertices = Inr self"
    and "bc_type self = ''polygon'' \<longrightarrow> nat nVertices \<le> length (bc_boundaryNormals params)"
    and "bc_type self = ''circle'' \<longrightarrow> 2 \<le> length (bc_boundary_center params)"
  shows "\<exists>J. BoundaryComp_linearize self params = Inr J
           \<and> dom J = set (bc_declared_outputs self)
                      \<times> set (differentiable_params (bc_declared_params self))"
proof (cases "nVertices > 1")
  case True
  then have self: "bc_type self = ''polygon''" "bc_nTurbines self = nTurbines"
    "bc_nVertices self = nVertices"
    "bc_declared_outputs self = [''boundaryDistances'']"
    "differentiable_params (bc_declared_params self) = [''turbineX'', ''turbineY'']"
    using assms(1) by (auto simp: BoundaryComp_init_def differentiable_params_def)
  obtain s' where "for_each [0..<nTurbines]
                 (\<lambda>i. for_each [0..<nat nVertices]
                         (boundary_deriv_body (nat nVertices) (bc_boundaryNormals params) i))
                 (np_zeros2 (nTurbines * nat nVertices) nTurbines,
                  np_zeros2 (nTurbines * nat nVertices) nTurbines) = Inr s'"
    using boundary_deriv_loops [of "nat nVertices" "bc_boundaryNormals params" nTurbines]
      assms(2) self(1) by blast
  then show ?thesis
    using self by (cases s') (auto simp: BoundaryComp_linearize_def Let_def bind_err_def)
next
  case False
  then have nv: "nVertices = 1"
    using assms(1) by (auto simp: BoundaryComp_init_def split: if_splits)
  then have self: "bc_type self = ''circle''" "bc_nTurbines self = nTurbines"
    "bc_declared_outputs self = [''boundaryDistances'']"
    "differentiable_params (bc_declared_params self) = [''turbineX'', ''turbineY'']"
    using assms(1) by (auto simp: BoundaryComp_init_def differentiable_params_def)
  show ?thesis
    using self assms(3)
    by (auto simp: BoundaryComp_linearize_def Let_def bind_err_def getitem_def)
qed

section \<open>The keys of the Jacobian of WindDirectionPower\<close>

lemma has_shape_zeros: "has_shape r c (np_zeros2 r c)"
  by (simp add: has_shape_def np_zeros2_def list_all_iff)

lemma has_shape_eye: "has_shape n n (np_eye n)"
  by (simp add: has_shape_def np_eye_def list_all_iff)

lemma has_shape_mscale: "has_shape r c M \<Longrightarrow> has_shape r c (mscale M x)"
  by (simp add: has_shape_def mscale_def vscale_def list_all_iff)

lemma has_shape_mdiv: "has_shape r c M \<Longrightarrow> has_shape r c (mdiv M x)"
  by (simp add: has_shape_def mdiv_def list_all_iff)

lemma has_shape_mbcast: "has_shape r c M \<Longrightarrow> c \<le> length v \<Longrightarrow> has_shape r c (mbcast M v)"
  by (simp add: has_shape_def mbcast_def vmul_def list_all_iff)

lemma setitem2_has_shape:
  assumes "has_shape r c M" "i < r" "j < c"
  shows "\<exists>M'. setitem2 M i j v = Inr M' \<and> has_shape r c M'"
proof -
  have "length M = r" "\<forall>row\<in>set M. length row = c"
    using assms(1) by (simp_all add: has_shape_def list_all_iff)
  then have "\<exists>M'. setitem2 M i j v = Inr M' \<and> length M' = r \<and> (\<forall>row\<in>set M'. length row = c)"
    using assms(2,3) by (rule setitem2_shape)
  then show ?thesis
    by (simp add: has_shape_def list_all_iff)
qed

lemma zero_diagonals_shape:
  assumes "has_shape n n A" "has_shape n n B" "has_shape n n C" "i < n"
  shows "\<exists>A' B' C'. zero_diagonals i (A, B, C) = Inr (A', B', C')
           \<and> has_shape n n A' \<and> has_shape n n B' \<and> has_shape n n C'"
proof -
  obtain A' where a: "setitem2 A i i 0 = Inr A'" "has_shape n n A'"
    using setitem2_has_shape [OF assms(1,4,4)] by blast
  obtain B' where b: "setitem2 B i i 0 = Inr B'" "has_shape n n B'"
    using setitem2_has_shape [OF assms(2,4,4)] by blast
  obtain C' where c: "setitem2 C i i 0 = Inr C'" "has_shape n n C'"
    using setitem2_has_shape [OF assms(3,4,4)] by blast
  have "zero_diagonals i (A, B, C) = Inr (A', B', C')"
    using a(1) b(1) c(1) by (simp add: zero_diagonals_def bind_err_def)
  then show ?thesis
    using a(2) b(2) c(2) by blast
qed


lemma power_curve_deriv_loop:
  assumes "nT \<le> length (wdp_wtVelocity params)" "nT \<le> length (wdp_cut_in_speed params)"
    "nT \<le> length (wdp_rated_wind_speed params)" "nT \<le> length (wdp_cut_out_speed params)"
    "nT \<le> length (wdp_rated_power params)"
  shows "\<exists>M. for_each [0..<nT] (power_curve_deriv_body params) (np_zeros2 nT nT) = Inr M
           \<and> has_shape nT nT M"
proof (rule for_each_upt_invariant [where Inv = "\<lambda>k. has_shape nT nT"])
  fix n and M :: mat
  assume n: "0 \<le> n" "n < nT" and sh: "has_shape nT nT M"
  have set: "\<exists>M'. setitem2 M n n v = Inr M' \<and> has_shape nT nT M'" for v
    using sh n(2) n(2) by (rule setitem2_has_shape)
  let ?ramp = "(3 * wdp_rated_power params ! n
                 * ((wdp_wtVelocity params ! n - wdp_cut_in_speed params ! n)
                    / (wdp_rated_wind_speed params ! n - wdp_cut_in_speed params ! n)) ^ 2)
               * (1 / (wdp_rated_wind_speed params ! n - wdp_cut_in_speed params ! n))"
  have "power_curve_deriv_body params n M =
          (if wdp_cut_in_speed params ! n \<le> wdp_wtVelocity params ! n
              \<and> wdp_wtVelocity params ! n < wdp_rated_wind_speed params ! n
           then setitem2 M n n ?ramp
           else if wdp_rated_wind_speed params ! n \<le> wdp_wtVelocity params ! n
              \<and> wdp_wtVelocity params ! n < wdp_cut_out_speed params ! n
           then setitem2 M n n 0
           else Inr M)"
    using assms n(2) by (simp add: power_curve_deriv_body_def bind_err_def getitem_def)
  then show "\<exists>M'. power_curve_deriv_body params n M = Inr M' \<and> has_shape nT nT M'"
    using set [of ?ramp] set [of 0] sh by auto
qed (simp_all add: has_shape_zeros)

lemma cp_deriv_loop:
  assumes "nT \<le> length (wdp_wtVelocity params)" "nT \<le> length Cp0"
    "wdp_cp_curve_wind_speed params \<noteq> []"
    "length (wdp_cp_curve_cp params) = length (wdp_cp_curve_wind_speed params)"
  shows "\<exists>s'. for_each [0..<nT] (cp_deriv_body params) (Cp0, np_zeros (length Cp0)) = Inr s'
           \<and> length (fst s') = length Cp0 \<and> length (snd s') = length Cp0"
proof (rule for_each_upt_invariant
    [where Inv = "\<lambda>k s. length (fst s) = length Cp0 \<and> length (snd s) = length Cp0"])
  fix i and s :: "vec \<times> vec"
  assume i: "0 \<le> i" "i < nT" and inv: "length (fst s) = length Cp0 \<and> length (snd s) = length Cp0"
  obtain Cp dCpdV where s: "s = (Cp, dCpdV)" by (cases s)
  show "\<exists>s'. cp_deriv_body params i s = Inr s'
           \<and> length (fst s') = length Cp0 \<and> length (snd s') = length Cp0"
    using assms i(2) inv s
    by (simp add: cp_deriv_body_def bind_err_def getitem_def setitem_def np_interp_def Let_def)
qed (simp_all add: np_zeros_def)

lemma rated_zero_loop:
  assumes "nT \<le> length wtPower" "nT \<le> length (wdp_rated_power params)"
    and "has_shape nT nT A" "has_shape nT nT B" "has_shape nT nT C"
  shows "\<exists>A' B' C'. for_each [0..<nT] (rated_zero_body params wtPower) (A, B, C) = Inr (A', B', C')
           \<and> has_shape nT nT A' \<and> has_shape nT nT B' \<and> has_shape nT nT C'"
proof -
  let ?Inv = "\<lambda>(k :: nat) (s :: mat \<times> mat \<times> mat).
                has_shape nT nT (fst s) \<and> has_shape nT nT (fst (snd s)) \<and> has_shape nT nT (snd (snd s))"
  have "\<exists>s'. for_each [0..<nT] (rated_zero_body params wtPower) (A, B, C) = Inr s' \<and> ?Inv nT s'"
  proof (rule for_each_upt_invariant [where Inv = ?Inv])
    fix i and s :: "mat \<times> mat \<times> mat"
    assume i: "0 \<le> i" "i < nT" and inv: "?Inv i s"
    obtain X Y Z where s: "s = (X, Y, Z)" by (cases s)
    have sh: "has_shape nT nT X" "has_shape nT nT Y" "has_shape nT nT Z"
      using inv s by simp_all
    obtain X' Y' Z' where z: "zero_diagonals i (X, Y, Z) = Inr (X', Y', Z')"
      "has_shape nT nT X'" "has_shape nT nT Y'" "has_shape nT nT Z'"
      using zero_diagonals_shape [OF sh i(2)] by blast
    have "rated_zero_body params wtPower i s =
            (if wtPower ! i \<ge> wdp_rated_power params ! i then zero_diagonals i s else Inr s)"
      using assms(1,2) i(2) by (simp add: rated_zero_body_def bind_err_def getitem_def)
    then show "\<exists>s'. rated_zero_body params wtPower i s = Inr s' \<and> ?Inv (Suc i) s'"
      using z sh s by auto
  qed (use assms in simp_all)
  then show ?thesis by auto
qed

lemma cut_in_zero_loop:
  assumes "nT \<le> length (wdp_wtVelocity params)" "nT \<le> length (wdp_cut_in_speed params)"
    and "has_shape nT nT A" "has_shape nT nT B" "has_shape nT nT C"
  shows "\<exists>A' B' C'. for_each [0..<nT] (cut_in_zero_body params) (A, B, C) = Inr (A', B', C')
           \<and> has_shape nT nT A' \<and> has_shape nT nT B' \<and> has_shape nT nT C'"
proof -
  let ?Inv = "\<lambda>(k :: nat) (s :: mat \<times> mat \<times> mat).
                has_shape nT nT (fst s) \<and> has_shape nT nT (fst (snd s)) \<and> has_shape nT nT (snd (snd s))"
  have "\<exists>s'. for_each [0..<nT] (cut_in_zero_body params) (A, B, C) = Inr s' \<and> ?Inv nT s'"
  proof (rule for_each_upt_invariant [where Inv = ?Inv])
    fix i and s :: "mat \<times> mat \<times> mat"
    assume i: "0 \<le> i" "i < nT" and inv: "?Inv i s"
    obtain X Y Z where s: "s = (X, Y, Z)" by (cases s)
    have sh: "has_shape nT nT X" "has_shape nT nT Y" "has_shape nT nT Z"
      using inv s by simp_all
    obtain X' Y' Z' where z: "zero_diagonals i (X, Y, Z) = Inr (X', Y', Z')"
      "has_shape nT nT X'" "has_shape nT nT Y'" "has_shape nT nT Z'"
      using zero_diagonals_shape [OF sh i(2)] by blast
    have "cut_in_zero_body params i s =
            (if wdp_wtVelocity params ! i < wdp_cut_in_speed params ! i
             then zero_diagonals i s else Inr s)"
      using assms(1,2) i(2) by (simp add: cut_in_zero_body_def bind_err_def getitem_def)
    then show "\<exists>s'. cut_in_zero_body params i s = Inr s' \<and> ?Inv (Suc i) s'"
      using z sh s by auto
  qed (use assms in simp_all)
  then show ?thesis by auto
qed


lemma cp_and_derivative_result:
  assumes "length (wdp_Cp params) = wdp_nTurbines self"
    and "length (wdp_wtVelocity params) = wdp_nTurbines self"
    and "wdp_cp_points self > 1 \<and> wdp_cp_curve_spline self = None \<longrightarrow>
           wdp_cp_curve_wind_speed params \<noteq> []
         \<and> length (wdp_cp_curve_cp params) = length (wdp_cp_curve_wind_speed params)"
  shows "\<exists>p' Cp dCpdV.
           cp_and_derivative self params = Inr (p', Cp, dCpdV)
         \<and> length Cp = wdp_nTurbines self \<and> length dCpdV = wdp_nTurbines self
         \<and> wdp_generatorEfficiency p' = wdp_generatorEfficiency params
         \<and> wdp_rotorDiameter p' = wdp_rotorDiameter params
         \<and> wdp_wtVelocity p' = wdp_wtVelocity params
         \<and> wdp_rated_power p' = wdp_rated_power params
         \<and> wdp_cut_in_speed p' = wdp_cut_in_speed params"
proof (cases "wdp_cp_points self > 1 \<and> wdp_cp_curve_spline self = None")
  case True
  have "\<exists>s'. for_each [0..<wdp_nTurbines self] (cp_deriv_body params)
                 (wdp_Cp params, np_zeros (length (wdp_Cp params))) = Inr s'
           \<and> length (fst s') = length (wdp_Cp params) \<and> length (snd s') = length (wdp_Cp params)"
    using assms True by (intro cp_deriv_loop) simp_all
  then obtain Cp dCpdV where
    "for_each [0..<wdp_nTurbines self] (cp_deriv_body params)
       (wdp_Cp params, np_zeros (length (wdp_Cp params))) = Inr (Cp, dCpdV)"
    "length Cp = length (wdp_Cp params)" "length dCpdV = length (wdp_Cp params)"
    by auto
  then show ?thesis
    using True assms(1) by (simp add: cp_and_derivative_def bind_err_def)
next
  case False
  then show ?thesis
    using assms(1,2)
    by (cases "wdp_cp_curve_spline self") (simp_all add: cp_and_derivative_def np_zeros_def)
qed

lemma coefficient_blocks_shape:
  assumes "length (wdp_generatorEfficiency params) = wdp_nTurbines self"
    and "length (wdp_rotorDiameter params) = wdp_nTurbines self"
    and "length (wdp_wtVelocity params) = wdp_nTurbines self"
    and "length Cp = wdp_nTurbines self" "length dCpdV = wdp_nTurbines self"
  shows "\<exists>A B C. coefficient_blocks self params Cp dCpdV = (A, B, C)
           \<and> has_shape (wdp_nTurbines self) (wdp_nTurbines self) A
           \<and> has_shape (wdp_nTurbines self) (wdp_nTurbines self) B
           \<and> has_shape (wdp_nTurbines self) (wdp_nTurbines self) C"
  using assms
  by (simp add: coefficient_blocks_def Let_def has_shape_mdiv has_shape_mbcast has_shape_mscale
      has_shape_eye vadd_def vmul_def smul_def)

lemma WindDirectionPower_keys:
  assumes "length (wdp_generatorEfficiency params) = wdp_nTurbines self"
    and "length (wdp_rotorDiameter params) = wdp_nTurbines self"
    and "length (wdp_Cp params) = wdp_nTurbines self"
    and "length (wdp_wtVelocity params) = wdp_nTurbines self"
    and "length (wdp_wtPower unknowns) = wdp_nTurbines self"
    and "wdp_nTurbines self \<le> length (wdp_rated_power params)"
    and "wdp_nTurbines self \<le> length (wdp_cut_in_speed params)"
    and "wdp_use_power_curve_definition params \<longrightarrow>
           wdp_nTurbines self \<le> length (wdp_rated_wind_speed params)
         \<and> wdp_nTurbines self \<le> length (wdp_cut_out_speed params)"
    and "\<not> wdp_use_power_curve_definition params \<and> wdp_cp_points self > 1
         \<and> wdp_cp_curve_spline self = None \<longrightarrow>
           wdp_cp_curve_wind_speed params \<noteq> []
         \<and> length (wdp_cp_curve_cp params) = length (wdp_cp_curve_wind_speed params)"
  shows "\<exists>params' J. WindDirectionPower_linearize self params unknowns = Inr (params', J)
           \<and> dom J = set (WindDirectionPower_declared_outputs (wdp_direction_id self))
                      \<times> {''wtVelocity'' @ string_of_nat (wdp_direction_id self),
                         ''rotorDiameter'', ''Cp''}"
proof (cases "wdp_use_power_curve_definition params")
  case True
  obtain M where "for_each [0..<wdp_nTurbines self] (power_curve_deriv_body params)
                    (np_zeros2 (wdp_nTurbines self) (wdp_nTurbines self)) = Inr M"
    using power_curve_deriv_loop [of "wdp_nTurbines self" params] assms(4,6,7,8) True by auto
  then show ?thesis
    using True
    by (auto simp: WindDirectionPower_linearize_def Let_def bind_err_def
        WindDirectionPower_declared_outputs_def)
next
  case False
  let ?nT = "wdp_nTurbines self"
  obtain p' Cp dCpdV where st:
    "cp_and_derivative self params = Inr (p', Cp, dCpdV)"
    "length Cp = ?nT" "length dCpdV = ?nT"
    "wdp_generatorEfficiency p' = wdp_generatorEfficiency params"
    "wdp_rotorDiameter p' = wdp_rotorDiameter params"
    "wdp_wtVelocity p' = wdp_wtVelocity params"
    "wdp_rated_power p' = wdp_rated_power params"
    "wdp_cut_in_speed p' = wdp_cut_in_speed params"
    using cp_and_derivative_result [of params self] assms(3,4,9) False by auto
  obtain A B C where bl: "coefficient_blocks self p' Cp dCpdV = (A, B, C)"
    "has_shape ?nT ?nT A" "has_shape ?nT ?nT B" "has_shape ?nT ?nT C"
    using coefficient_blocks_shape [of p' self Cp dCpdV] assms(1,2,4) st by auto
  obtain A1 B1 C1 where l1:
    "for_each [0..<?nT] (rated_zero_body p' (wdp_wtPower unknowns)) (A, B, C) = Inr (A1, B1, C1)"
    "has_shape ?nT ?nT A1" "has_shape ?nT ?nT B1" "has_shape ?nT ?nT C1"
    using rated_zero_loop [of ?nT "wdp_wtPower unknowns" p' A B C] assms(5,6) bl(2,3,4) st(7)
    by auto
  obtain A2 B2 C2 where l2:
    "for_each [0..<?nT] (cut_in_zero_body p') (A1, B1, C1) = Inr (A2, B2, C2)"
    using cut_in_zero_loop [of ?nT p' A1 B1 C1] assms(4,7) l1(2,3,4) st(6,8) by auto
  show ?thesis
    using False st(1) bl(1) l1(1) l2
    by (auto simp: WindDirectionPower_linearize_def Let_def bind_err_def
        WindDirectionPower_declared_outputs_def)
qed

section \<open>The keys of the Jacobian of SpacingComp\<close>

lemma pairs_before_mono:
  assumes "a \<le> b"
  shows "(\<Sum>i<a. n - Suc i) \<le> (\<Sum>i<b. n - Suc i :: nat)"
  using assms by (intro sum_mono2) auto

lemma twice_sum_below: "2 * (\<Sum>i<n. i) = (n - 1) * (n :: nat)"
proof (induction n)
  case 0
  then show ?case by simp
next
  case (Suc n)
  then show ?case by (cases n) (simp_all add: algebra_simps)
qed

lemma pairs_total: "(\<Sum>i<n. n - Suc i) = (n - 1) * n div (2 :: nat)"
proof -
  have "(\<Sum>i<n. n - Suc i) = (\<Sum>i<n. i)"
    by (rule sum.nat_diff_reindex)
  moreover have "(\<Sum>i<n. i) = (n - 1) * n div 2"
    using twice_sum_below [of n] by simp
  ultimately show ?thesis by simp
qed


lemma spacing_pair_body_step:
  assumes "has_shape r (2 * length turbineX) dS" "k < r" "i < length turbineX"
    "j < length turbineX" "length turbineX \<le> length turbineY"
  shows "\<exists>dS'. spacing_pair_body turbineX turbineY i j (dS, k) = Inr (dS', k + 1)
           \<and> has_shape r (2 * length turbineX) dS'"
proof -
  let ?c = "2 * length turbineX"
  obtain d1 where d1: "setitem2 dS k j (2 * (turbineX ! j - turbineX ! i)) = Inr d1"
    "has_shape r ?c d1"
    using setitem2_has_shape [OF assms(1,2), of j] assms(4) by auto
  obtain d2 where d2: "setitem2 d1 k i (- 2 * (turbineX ! j - turbineX ! i)) = Inr d2"
    "has_shape r ?c d2"
    using setitem2_has_shape [OF d1(2) assms(2), of i] assms(3) by auto
  obtain d3 where d3: "setitem2 d2 k (j + length turbineX) (2 * (turbineY ! j - turbineY ! i)) = Inr d3"
    "has_shape r ?c d3"
    using setitem2_has_shape [OF d2(2) assms(2), of "j + length turbineX"] assms(4) by auto
  obtain d4 where d4: "setitem2 d3 k (i + length turbineX) (- 2 * (turbineY ! j - turbineY ! i)) = Inr d4"
    "has_shape r ?c d4"
    using setitem2_has_shape [OF d3(2) assms(2), of "i + length turbineX"] assms(3) by auto
  have "spacing_pair_body turbineX turbineY i j (dS, k) = Inr (d4, k + 1)"
    using assms(3,4,5) d1(1) d2(1) d3(1) d4(1)
    by (simp add: spacing_pair_body_def Let_def bind_err_def getitem_def)
  then show ?thesis using d4(2) by blast
qed

lemma spacing_loops:
  assumes "length turbineX \<le> length turbineY"
  shows "\<exists>s'. for_each [0..<length turbineX]
                 (\<lambda>i. for_each [i + 1..<length turbineX] (spacing_pair_body turbineX turbineY i))
                 (np_zeros2 ((length turbineX - 1) * length turbineX div 2) (2 * length turbineX), 0)
               = Inr s'"
proof -
  let ?n = "length turbineX"
  let ?r = "(?n - 1) * ?n div 2"
  let ?K = "\<lambda>i. (\<Sum>i'<i. ?n - Suc i')"
  let ?Inv = "\<lambda>i (s :: mat \<times> nat). has_shape ?r (2 * ?n) (fst s) \<and> snd s = ?K i"
  have inner: "\<exists>s'. for_each [i + 1..<?n] (spacing_pair_body turbineX turbineY i) s = Inr s'
                 \<and> ?Inv (Suc i) s'"
    if i: "i < ?n" and inv: "?Inv i s" for i s
  proof -
    let ?Inv2 = "\<lambda>j (t :: mat \<times> nat). has_shape ?r (2 * ?n) (fst t) \<and> snd t = ?K i + (j - Suc i)"
    have "\<exists>s'. for_each [i + 1..<?n] (spacing_pair_body turbineX turbineY i) s = Inr s'
            \<and> ?Inv2 ?n s'"
    proof (rule for_each_upt_invariant [where Inv = ?Inv2])
      fix j and t :: "mat \<times> nat"
      assume j: "i + 1 \<le> j" "j < ?n" and t: "?Inv2 j t"
      obtain dS k where p: "t = (dS, k)" by (cases t)
      have "k < ?K i + (?n - Suc i)" using t p j by simp
      also have "\<dots> = ?K (Suc i)" by simp
      also have "\<dots> \<le> ?K ?n"
        using i by (intro pairs_before_mono) simp
      also have "\<dots> = ?r" by (rule pairs_total)
      finally have k: "k < ?r" .
      have sh: "has_shape ?r (2 * ?n) dS" using t p by simp
      obtain dS' where "spacing_pair_body turbineX turbineY i j (dS, k) = Inr (dS', k + 1)"
        "has_shape ?r (2 * ?n) dS'"
        using spacing_pair_body_step [OF sh k i j(2) assms] by blast
      then show "\<exists>s'. spacing_pair_body turbineX turbineY i j t = Inr s' \<and> ?Inv2 (Suc j) s'"
        using p t j by auto
    qed (use inv i in simp_all)
    then show ?thesis by auto
  qed
  have "\<exists>s'. for_each [0..<?n]
                 (\<lambda>i. for_each [i + 1..<?n] (spacing_pair_body turbineX turbineY i))
                 (np_zeros2 ?r (2 * ?n), 0) = Inr s' \<and> ?Inv ?n s'"
  proof (rule for_each_upt_invariant [where Inv = ?Inv])
    fix i and s :: "mat \<times> nat"
    assume "0 \<le> i" "i < ?n" "?Inv i s"
    then show "\<exists>s'. for_each [i + 1..<?n] (spacing_pair_body turbineX turbineY i) s = Inr s'
                 \<and> ?Inv (Suc i) s'"
      by (intro inner)
  qed (simp_all add: has_shape_zeros)
  then show ?thesis by blast
qed

lemma SpacingComp_keys:
  assumes "length turbineX \<le> length turbineY"
  shows "\<exists>J. SpacingComp_linearize turbineX turbineY = Inr J
           \<and> dom J = set SpacingComp_declared_outputs \<times> fst ` set SpacingComp_declared_params"
proof -
  obtain s' where "for_each [0..<length turbineX]
                 (\<lambda>i. for_each [i + 1..<length turbineX] (spacing_pair_body turbineX turbineY i))
                 (np_zeros2 ((length turbineX - 1) * length turbineX div 2) (2 * length turbineX), 0)
               = Inr s'"
    using spacing_loops [OF assms] by blast
  then show ?thesis
    by (cases s')
       (auto simp: SpacingComp_linearize_def Let_def bind_err_def SpacingComp_declared_outputs_def
          SpacingComp_declared_params_def)
qed

section \<open>The keys of all Jacobians\<close>

lemma WindDirectionPower_zero_blocks:
  assumes "wdp_use_power_curve_definition params"
    and "WindDirectionPower_linearize self params unknowns = Inr (params', J)"
  shows "J (''wtPower'' @ string_of_nat (wdp_direction_id self), ''rotorDiameter'')
           = Some (Array2 (np_zeros2 (wdp_nTurbines self) (wdp_nTurbines self)))
       \<and> J (''wtPower'' @ string_of_nat (wdp_direction_id self), ''Cp'')
           = Some (Array2 (np_zeros2 (wdp_nTurbines self) (wdp_nTurbines self)))
       \<and> J (''dir_power'' @ string_of_nat (wdp_direction_id self), ''rotorDiameter'')
           = Some (Array2 (np_zeros2 1 (wdp_nTurbines self)))
       \<and> J (''dir_power'' @ string_of_nat (wdp_direction_id self), ''Cp'')
           = Some (Array2 (np_zeros2 1 (wdp_nTurbines self)))"
proof (cases "for_each [0..<wdp_nTurbines self] (power_curve_deriv_body params)
                (np_zeros2 (wdp_nTurbines self) (wdp_nTurbines self))")
  case (Inl e)
  then show ?thesis
    using assms by (simp add: WindDirectionPower_linearize_def Let_def bind_err_def)
next
  case (Inr M)
  then have "J = [(''wtPower'' @ string_of_nat (wdp_direction_id self),
                   ''wtVelocity'' @ string_of_nat (wdp_direction_id self)) \<mapsto> Array2 M,
                  (''wtPower'' @ string_of_nat (wdp_direction_id self), ''rotorDiameter'')
                    \<mapsto> Array2 (np_zeros2 (wdp_nTurbines self) (wdp_nTurbines self)),
                  (''wtPower'' @ string_of_nat (wdp_direction_id self), ''Cp'')
                    \<mapsto> Array2 (np_zeros2 (wdp_nTurbines self) (wdp_nTurbines self)),
                  (''dir_power'' @ string_of_nat (wdp_direction_id self),
                   ''wtVelocity'' @ string_of_nat (wdp_direction_id self)) \<mapsto> Array2 [row_sums M],
                  (''dir_power'' @ string_of_nat (wdp_direction_id self), ''rotorDiameter'')
                    \<mapsto> Array2 (np_zeros2 1 (wdp_nTurbines self)),
                  (''dir_power'' @ string_of_nat (wdp_direction_id self), ''Cp'')
                    \<mapsto> Array2 (np_zeros2 1 (wdp_nTurbines self))]"
    using assms by (simp add: WindDirectionPower_linearize_def Let_def bind_err_def)
  then show ?thesis by simp
qed


text \<open>
  C1, amended. The Jacobian of every component has one block for every pair of a declared
  output and an input it differentiates, and no other key; every key is a pair of a
  declared output and a declared input that is not passed by object. The differentiated
  inputs are all such inputs for AdjustCtCpYaw, SpacingComp, BoundaryComp, MUX, DeMUX and
  both CPCT variants; turbineX and turbineY (and only the outputs turbineXw and turbineYw)
  for WindFrame; dirPowers for WindFarmAEP; the wind speed, rotorDiameter and Cp for
  WindDirectionPower. Blocks that are zero are explicit: those of Ct_out by Cp_in and of
  Cp_out by Ct_in in AdjustCtCpYaw, and those by rotorDiameter and by Cp in the power-curve
  mode of WindDirectionPower. The linearize passes return for a recognised AEP method, for
  arrays of the declared lengths, for a table that is not empty, and after the forward
  pass of the smooth variant.
\<close>

theorem jacobian_keys:
  "(dom (WindFrame_linearize nTurbines_wf params_wf)
      = {''turbineXw'', ''turbineYw''} \<times> {''turbineX'', ''turbineY''}
    \<and> dom (WindFrame_linearize nTurbines_wf params_wf)
      \<subseteq> set (WindFrame_declared_outputs nSamples)
        \<times> set (differentiable_params (WindFrame_declared_params nSamples)))
   \<and> (dom (AdjustCtCpYaw_linearize direction_adj params_adj)
      = set AdjustCtCpYaw_declared_outputs
        \<times> set (differentiable_params (AdjustCtCpYaw_declared_params direction_adj))
    \<and> AdjustCtCpYaw_linearize direction_adj params_adj (''Ct_out'', ''Cp_in'')
      = Some (Array2 (np_zeros2 (length (adj_Ct_in params_adj)) (length (adj_Ct_in params_adj))))
    \<and> AdjustCtCpYaw_linearize direction_adj params_adj (''Cp_out'', ''Ct_in'')
      = Some (Array2 (np_zeros2 (length (adj_Ct_in params_adj)) (length (adj_Ct_in params_adj)))))
   \<and> (aep_AEP_method params_aep \<in> {''none'', ''log'', ''inverse''}
      \<and> (rec_func_calls \<longrightarrow> rank < length calls)
      \<longrightarrow> (\<exists>J calls'.
            WindFarmAEP_linearize rec_func_calls rank params_aep calls = Inr (J, calls')
          \<and> dom J = {(''AEP'', ''dirPowers'')}
          \<and> dom J \<subseteq> set WindFarmAEP_declared_outputs
                     \<times> set (differentiable_params WindFarmAEP_declared_params)))
   \<and> (length (wdp_generatorEfficiency params_wdp) = wdp_nTurbines self_wdp
      \<and> length (wdp_rotorDiameter params_wdp) = wdp_nTurbines self_wdp
      \<and> length (wdp_Cp params_wdp) = wdp_nTurbines self_wdp
      \<and> length (wdp_wtVelocity params_wdp) = wdp_nTurbines self_wdp
      \<and> length (wdp_wtPower unknowns_wdp) = wdp_nTurbines self_wdp
      \<and> wdp_nTurbines self_wdp \<le> length (wdp_rated_power params_wdp)
      \<and> wdp_nTurbines self_wdp \<le> length (wdp_cut_in_speed params_wdp)
      \<and> (wdp_use_power_curve_definition params_wdp \<longrightarrow>
             wdp_nTurbines self_wdp \<le> length (wdp_rated_wind_speed params_wdp)
           \<and> wdp_nTurbines self_wdp \<le> length (wdp_cut_out_speed params_wdp))
      \<and> (\<not> wdp_use_power_curve_definition params_wdp \<and> wdp_cp_points self_wdp > 1
           \<and> wdp_cp_curve_spline self_wdp = None \<longrightarrow>
             wdp_cp_curve_wind_speed params_wdp \<noteq> []
           \<and> length (wdp_cp_curve_cp params_wdp) = length (wdp_cp_curve_wind_speed params_wdp))
      \<longrightarrow> (\<exists>params' J.
            WindDirectionPower_linearize self_wdp params_wdp unknowns_wdp = Inr (params', J)
          \<and> dom J = set (WindDirectionPower_declared_outputs (wdp_direction_id self_wdp))
                     \<times> {''wtVelocity'' @ string_of_nat (wdp_direction_id self_wdp),
                        ''rotorDiameter'', ''Cp''}
          \<and> dom J \<subseteq> set (WindDirectionPower_declared_outputs (wdp_direction_id self_wdp))
                     \<times> set (differentiable_params
                              (WindDirectionPower_declared_params (wdp_direction_id self_wdp)))
          \<and> (wdp_use_power_curve_definition params_wdp \<longrightarrow>
                J (''wtPower'' @ string_of_nat (wdp_direction_id self_wdp), ''rotorDiameter'')
                  = Some (Array2 (np_zeros2 (wdp_nTurbines self_wdp) (wdp_nTurbines self_wdp)))
              \<and> J (''wtPower'' @ string_of_nat (wdp_direction_id self_wdp), ''Cp'')
                  = Some (Array2 (np_zeros2 (wdp_nTurbines self_wdp) (wdp_nTurbines self_wdp)))
              \<and> J (''dir_power'' @ string_of_nat (wdp_direction_id self_wdp), ''rotorDiameter'')
                  = Some (Array2 (np_zeros2 1 (wdp_nTurbines self_wdp)))
              \<and> J (''dir_power'' @ string_of_nat (wdp_direction_id self_wdp), ''Cp'')
                  = Some (Array2 (np_zeros2 1 (wdp_nTurbines self_wdp))))))
   \<and> (length turbineX \<le> length turbineY
      \<longrightarrow> (\<exists>J. SpacingComp_linearize turbineX turbineY = Inr J
             \<and> dom J = set SpacingComp_declared_outputs \<times> fst ` set SpacingComp_declared_params))
   \<and> (BoundaryComp_init nTurbines_bc nVertices = Inr self_bc
      \<and> (bc_type self_bc = ''polygon'' \<longrightarrow> nat nVertices \<le> length (bc_boundaryNormals params_bc))
      \<and> (bc_type self_bc = ''circle'' \<longrightarrow> 2 \<le> length (bc_boundary_center params_bc))
      \<longrightarrow> (\<exists>J. BoundaryComp_linearize self_bc params_bc = Inr J
             \<and> dom J = set (bc_declared_outputs self_bc)
                        \<times> set (differentiable_params (bc_declared_params self_bc))))
   \<and> (\<exists>J. MUX_linearize nElements_mux = Inr J
          \<and> dom J = set MUX_declared_outputs \<times> set (MUX_declared_params nElements_mux))
   \<and> (\<exists>J. DeMUX_linearize nElements_demux = Inr J
          \<and> dom J = set (DeMUX_declared_outputs nElements_demux) \<times> set DeMUX_declared_params)
   \<and> (cpct_windSpeedToCPCT_wind_speed params_cpct \<noteq> []
      \<and> length (cpct_windSpeedToCPCT_CP params_cpct)
          = length (cpct_windSpeedToCPCT_wind_speed params_cpct)
      \<and> length (cpct_windSpeedToCPCT_CT params_cpct)
          = length (cpct_windSpeedToCPCT_wind_speed params_cpct)
      \<longrightarrow> (\<exists>J. CPCT_Interpolate_Gradients_linearize nTurbines_cpct direction_cpct params_cpct = Inr J
             \<and> dom J = set CPCT_declared_outputs
                        \<times> set (differentiable_params (CPCT_declared_params direction_cpct))))
   \<and> (\<exists>J. CPCT_Interpolate_Gradients_Smooth_linearize nTurbines_smooth direction_smooth
               (Some cache) = Inr J
          \<and> dom J = set CPCT_declared_outputs
                     \<times> set (differentiable_params (CPCT_declared_params direction_smooth)))"
proof (intro conjI impI)
  show "dom (WindFrame_linearize nTurbines_wf params_wf)
      = {''turbineXw'', ''turbineYw''} \<times> {''turbineX'', ''turbineY''}"
    by (rule WindFrame_keys)
  show "dom (WindFrame_linearize nTurbines_wf params_wf)
      \<subseteq> set (WindFrame_declared_outputs nSamples)
        \<times> set (differentiable_params (WindFrame_declared_params nSamples))"
    by (auto simp: WindFrame_keys WindFrame_declared_outputs_def WindFrame_declared_params_def
        differentiable_params_def)
  show "dom (AdjustCtCpYaw_linearize direction_adj params_adj)
      = set AdjustCtCpYaw_declared_outputs
        \<times> set (differentiable_params (AdjustCtCpYaw_declared_params direction_adj))"
    by (rule AdjustCtCpYaw_keys)
  show "AdjustCtCpYaw_linearize direction_adj params_adj (''Ct_out'', ''Cp_in'')
      = Some (Array2 (np_zeros2 (length (adj_Ct_in params_adj)) (length (adj_Ct_in params_adj))))"
    using AdjustCtCpYaw_zero_blocks by blast
  show "AdjustCtCpYaw_linearize direction_adj params_adj (''Cp_out'', ''Ct_in'')
      = Some (Array2 (np_zeros2 (length (adj_Ct_in params_adj)) (length (adj_Ct_in params_adj))))"
    using AdjustCtCpYaw_zero_blocks by blast
next
  assume "aep_AEP_method params_aep \<in> {''none'', ''log'', ''inverse''}
      \<and> (rec_func_calls \<longrightarrow> rank < length calls)"
  then obtain J calls' where
    "WindFarmAEP_linearize rec_func_calls rank params_aep calls = Inr (J, calls')"
    "dom J = {(''AEP'', ''dirPowers'')}"
    using WindFarmAEP_keys [of params_aep rec_func_calls rank calls] by blast
  moreover from this have "dom J \<subseteq> set WindFarmAEP_declared_outputs
                     \<times> set (differentiable_params WindFarmAEP_declared_params)"
    by (simp add: WindFarmAEP_declared_outputs_def WindFarmAEP_declared_params_def
        differentiable_params_def)
  ultimately show "\<exists>J calls'.
            WindFarmAEP_linearize rec_func_calls rank params_aep calls = Inr (J, calls')
          \<and> dom J = {(''AEP'', ''dirPowers'')}
          \<and> dom J \<subseteq> set WindFarmAEP_declared_outputs
                     \<times> set (differentiable_params WindFarmAEP_declared_params)"
    by blast
next
  assume h: "length (wdp_generatorEfficiency params_wdp) = wdp_nTurbines self_wdp
      \<and> length (wdp_rotorDiameter params_wdp) = wdp_nTurbines self_wdp
      \<and> length (wdp_Cp params_wdp) = wdp_nTurbines self_wdp
      \<and> length (wdp_wtVelocity params_wdp) = wdp_nTurbines self_wdp
      \<and> length (wdp_wtPower unknowns_wdp) = wdp_nTurbines self_wdp
      \<and> wdp_nTurbines self_wdp \<le> length (wdp_rated_power params_wdp)
      \<and> wdp_nTurbines self_wdp \<le> length (wdp_cut_in_speed params_wdp)
      \<and> (wdp_use_power_curve_definition params_wdp \<longrightarrow>
             wdp_nTurbines self_wdp \<le> length (wdp_rated_wind_speed params_wdp)
           \<and> wdp_nTurbines self_wdp \<le> length (wdp_cut_out_speed params_wdp))
      \<and> (\<not> wdp_use_power_curve_definition params_wdp \<and> wdp_cp_points self_wdp > 1
           \<and> wdp_cp_curve_spline self_wdp = None \<longrightarrow>
             wdp_cp_curve_wind_speed params_wdp \<noteq> []
           \<and> length (wdp_cp_curve_cp params_wdp) = length (wdp_cp_curve_wind_speed params_wdp))"
  have "\<exists>params' J. WindDirectionPower_linearize self_wdp params_wdp unknowns_wdp = Inr (params', J)
           \<and> dom J = set (WindDirectionPower_declared_outputs (wdp_direction_id self_wdp))
                      \<times> {''wtVelocity'' @ string_of_nat (wdp_direction_id self_wdp),
                         ''rotorDiameter'', ''Cp''}"
    using h by (intro WindDirectionPower_keys) simp_all
  then obtain params' J where r:
    "WindDirectionPower_linearize self_wdp params_wdp unknowns_wdp = Inr (params', J)"
    "dom J = set (WindDirectionPower_declared_outputs (wdp_direction_id self_wdp))
                      \<times> {''wtVelocity'' @ string_of_nat (wdp_direction_id self_wdp),
                         ''rotorDiameter'', ''Cp''}"
    by blast
  have sub: "dom J \<subseteq> set (WindDirectionPower_declared_outputs (wdp_direction_id self_wdp))
                     \<times> set (differentiable_params
                              (WindDirectionPower_declared_params (wdp_direction_id self_wdp)))"
    unfolding r(2)
    by (auto simp: WindDirectionPower_declared_params_def differentiable_params_def)
  have z: "wdp_use_power_curve_definition params_wdp \<longrightarrow>
                J (''wtPower'' @ string_of_nat (wdp_direction_id self_wdp), ''rotorDiameter'')
                  = Some (Array2 (np_zeros2 (wdp_nTurbines self_wdp) (wdp_nTurbines self_wdp)))
              \<and> J (''wtPower'' @ string_of_nat (wdp_direction_id self_wdp), ''Cp'')
                  = Some (Array2 (np_zeros2 (wdp_nTurbines self_wdp) (wdp_nTurbines self_wdp)))
              \<and> J (''dir_power'' @ string_of_nat (wdp_direction_id self_wdp), ''rotorDiameter'')
                  = Some (Array2 (np_zeros2 1 (wdp_nTurbines self_wdp)))
              \<and> J (''dir_power'' @ string_of_nat (wdp_direction_id self_wdp), ''Cp'')
                  = Some (Array2 (np_zeros2 1 (wdp_nTurbines self_wdp)))"
    using WindDirectionPower_zero_blocks [OF _ r(1)] by blast
  show "\<exists>params' J.
            WindDirectionPower_linearize self_wdp params_wdp unknowns_wdp = Inr (params', J)
          \<and> dom J = set (WindDirectionPower_declared_outputs (wdp_direction_id self_wdp))
                     \<times> {''wtVelocity'' @ string_of_nat (wdp_direction_id self_wdp),
                        ''rotorDiameter'', ''Cp''}
          \<and> dom J \<subseteq> set (WindDirectionPower_declared_outputs (wdp_direction_id self_wdp))
                     \<times> set (differentiable_params
                              (WindDirectionPower_declared_params (wdp_direction_id self_wdp)))
          \<and> (wdp_use_power_curve_definition params_wdp \<longrightarrow>
                J (''wtPower'' @ string_of_nat (wdp_direction_id self_wdp), ''rotorDiameter'')
                  = Some (Array2 (np_zeros2 (wdp_nTurbines self_wdp) (wdp_nTurbines self_wdp)))
              \<and> J (''wtPower'' @ string_of_nat (wdp_direction_id self_wdp), ''Cp'')
                  = Some (Array2 (np_zeros2 (wdp_nTurbines self_wdp) (wdp_nTurbines self_wdp)))
              \<and> J (''dir_power'' @ string_of_nat (wdp_direction_id self_wdp), ''rotorDiameter'')
                  = Some (Array2 (np_zeros2 1 (wdp_nTurbines self_wdp)))
              \<and> J (''dir_power'' @ string_of_nat (wdp_direction_id self_wdp), ''Cp'')
                  = Some (Array2 (np_zeros2 1 (wdp_nTurbines self_wdp))))"
    using r sub z by blast
next
  assume "length turbineX \<le> length turbineY"
  then show "\<exists>J. SpacingComp_linearize turbineX turbineY = Inr J
             \<and> dom J = set SpacingComp_declared_outputs \<times> fst ` set SpacingComp_declared_params"
    by (rule SpacingComp_keys)
next
  assume "BoundaryComp_init nTurbines_bc nVertices = Inr self_bc
      \<and> (bc_type self_bc = ''polygon'' \<longrightarrow> nat nVertices \<le> length (bc_boundaryNormals params_bc))
      \<and> (bc_type self_bc = ''circle'' \<longrightarrow> 2 \<le> length (bc_boundary_center params_bc))"
  then show "\<exists>J. BoundaryComp_linearize self_bc params_bc = Inr J
             \<and> dom J = set (bc_declared_outputs self_bc)
                        \<times> set (differentiable_params (bc_declared_params self_bc))"
    using BoundaryComp_keys [of nTurbines_bc nVertices self_bc params_bc] by blast
next
  show "\<exists>J. MUX_linearize nElements_mux = Inr J
          \<and> dom J = set MUX_declared_outputs \<times> set (MUX_declared_params nElements_mux)"
    by (rule MUX_keys)
  show "\<exists>J. DeMUX_linearize nElements_demux = Inr J
          \<and> dom J = set (DeMUX_declared_outputs nElements_demux) \<times> set DeMUX_declared_params"
    by (rule DeMUX_keys)
next
  assume "cpct_windSpeedToCPCT_wind_speed params_cpct \<noteq> []
      \<and> length (cpct_windSpeedToCPCT_CP params_cpct)
          = length (cpct_windSpeedToCPCT_wind_speed params_cpct)
      \<and> length (cpct_windSpeedToCPCT_CT params_cpct)
          = length (cpct_windSpeedToCPCT_wind_speed params_cpct)"
  then show "\<exists>J. CPCT_Interpolate_Gradients_linearize nTurbines_cpct direction_cpct params_cpct = Inr J
             \<and> dom J = set CPCT_declared_outputs
                        \<times> set (differentiable_params (CPCT_declared_params direction_cpct))"
    by (intro CPCT_table_keys) simp_all
next
  show "\<exists>J. CPCT_Interpolate_Gradients_Smooth_linearize nTurbines_smooth direction_smooth
               (Some cache) = Inr J
          \<and> dom J = set CPCT_declared_outputs
                     \<times> set (differentiable_params (CPCT_declared_params direction_smooth))"
    by (rule CPCT_smooth_keys)
qed


theorem jacobian_keys_witness:
  "(\<exists>J calls'. WindFarmAEP_linearize True 0
        \<lparr> aep_dirPowers = [100, 200], aep_windFrequencies = [0.5, 0.5],
          aep_AEP_method = ''log'' \<rparr> [0] = Inr (J, calls')
      \<and> dom J = {(''AEP'', ''dirPowers'')})
   \<and> (\<exists>params' J. WindDirectionPower_linearize
        \<lparr> wdp_nTurbines = 1, wdp_direction_id = 0, wdp_use_rotor_components = False,
          wdp_cp_points = 2, wdp_cp_curve_spline = None \<rparr>
        \<lparr> wdp_air_density = 1.1716, wdp_rotorDiameter = [126.4],
          wdp_Cp = [0.3], wdp_generatorEfficiency = [0.944],
          wdp_wtVelocity = [5], wdp_rated_power = [5000],
          wdp_cut_in_speed = [3], wdp_cp_curve_cp = [0, 1], wdp_cp_curve_wind_speed = [0, 10],
          wdp_use_power_curve_definition = False, wdp_rated_wind_speed = [11.4],
          wdp_cut_out_speed = [25] \<rparr>
        \<lparr> wdp_wtPower = [100], wdp_dir_power = 100 \<rparr> = Inr (params', J)
      \<and> dom J = set (WindDirectionPower_declared_outputs 0)
                 \<times> {''wtVelocity'' @ string_of_nat 0, ''rotorDiameter'', ''Cp''})
   \<and> (\<exists>J. SpacingComp_linearize [0, 3] [0, 4] = Inr J
      \<and> dom J = set SpacingComp_declared_outputs \<times> fst ` set SpacingComp_declared_params)
   \<and> (\<exists>J. BoundaryComp_linearize
        \<lparr> bc_nTurbines = 1, bc_nVertices = 1, bc_type = ''circle'',
          bc_declared_params = [(''boundary_radius'', True), (''boundary_center'', True),
                                (''turbineX'', False), (''turbineY'', False)],
          bc_declared_outputs = [''boundaryDistances''] \<rparr>
        \<lparr> bc_boundaryVertices = [], bc_boundaryNormals = [], bc_boundary_radius = 10,
          bc_boundary_center = [0, 0], bc_turbineX = [10], bc_turbineY = [0] \<rparr> = Inr J
      \<and> dom J = {''boundaryDistances''} \<times> {''turbineX'', ''turbineY''})
   \<and> (\<exists>J. CPCT_Interpolate_Gradients_linearize 1 0
        \<lparr> cpct_yaw = [0], cpct_wtVelocity = [100], cpct_pP = 3,
          cpct_windSpeedToCPCT_wind_speed = [0, 10], cpct_windSpeedToCPCT_CP = [0, 1],
          cpct_windSpeedToCPCT_CT = [0, 1/2] \<rparr> = Inr J
      \<and> dom J = set CPCT_declared_outputs \<times> set (differentiable_params (CPCT_declared_params 0)))"
proof -
  note k = jacobian_keys [where params_aep = "\<lparr> aep_dirPowers = [100, 200], aep_windFrequencies = [0.5, 0.5],
          aep_AEP_method = ''log'' \<rparr>"
      and rec_func_calls = True and rank = 0 and calls = "[0]"
      and self_wdp = "\<lparr> wdp_nTurbines = 1, wdp_direction_id = 0, wdp_use_rotor_components = False,
          wdp_cp_points = 2, wdp_cp_curve_spline = None \<rparr>"
      and params_wdp = "\<lparr> wdp_air_density = 1.1716, wdp_rotorDiameter = [126.4],
          wdp_Cp = [0.3], wdp_generatorEfficiency = [0.944],
          wdp_wtVelocity = [5], wdp_rated_power = [5000],
          wdp_cut_in_speed = [3], wdp_cp_curve_cp = [0, 1], wdp_cp_curve_wind_speed = [0, 10],
          wdp_use_power_curve_definition = False, wdp_rated_wind_speed = [11.4],
          wdp_cut_out_speed = [25] \<rparr>"
      and unknowns_wdp = "\<lparr> wdp_wtPower = [100], wdp_dir_power = 100 \<rparr>"
      and turbineX = "[0, 3]" and turbineY = "[0, 4]"
      and nTurbines_bc = 1 and nVertices = 1
      and self_bc = "\<lparr> bc_nTurbines = 1, bc_nVertices = 1, bc_type = ''circle'',
          bc_declared_params = [(''boundary_radius'', True), (''boundary_center'', True),
                                (''turbineX'', False), (''turbineY'', False)],
          bc_declared_outputs = [''boundaryDistances''] \<rparr>"
      and params_bc = "\<lparr> bc_boundaryVertices = [], bc_boundaryNormals = [], bc_boundary_radius = 10,
          bc_boundary_center = [0, 0], bc_turbineX = [10], bc_turbineY = [0] \<rparr>"
      and params_cpct = "\<lparr> cpct_yaw = [0], cpct_wtVelocity = [100], cpct_pP = 3,
          cpct_windSpeedToCPCT_wind_speed = [0, 10], cpct_windSpeedToCPCT_CP = [0, 1],
          cpct_windSpeedToCPCT_CT = [0, 1/2] \<rparr>"
      and nTurbines_cpct = 1 and direction_cpct = 0
      and nTurbines_wf = 1
      and params_wf = "\<lparr> wf_wind_speed = 8, wf_wind_direction = 270, wf_turbineX = [0], wf_turbineY = [0],
          wf_wsPositionX = [], wf_wsPositionY = [] \<rparr>"
      and nSamples = 0 and direction_adj = 0
      and params_adj = "\<lparr> adj_Ct_in = [1], adj_Cp_in = [1], adj_yaw = [0], adj_pP = 1.88,
          adj_CTcorrected = False, adj_CPcorrected = False \<rparr>"
      and nElements_mux = 2 and nElements_demux = 2
      and nTurbines_smooth = 1 and direction_smooth = 0
      and cache = "\<lparr> dCp_out_dyaw = [0], dCp_out_dvel = [0], dCt_out_dyaw = [0], dCt_out_dvel = [0] \<rparr>"]
  have aep: "\<exists>J calls'. WindFarmAEP_linearize True 0
        \<lparr> aep_dirPowers = [100, 200], aep_windFrequencies = [0.5, 0.5],
          aep_AEP_method = ''log'' \<rparr> [0] = Inr (J, calls')
      \<and> dom J = {(''AEP'', ''dirPowers'')}"
    using k [THEN conjunct2, THEN conjunct2, THEN conjunct1] by auto
  have wdp: "\<exists>params' J. WindDirectionPower_linearize
        \<lparr> wdp_nTurbines = 1, wdp_direction_id = 0, wdp_use_rotor_components = False,
          wdp_cp_points = 2, wdp_cp_curve_spline = None \<rparr>
        \<lparr> wdp_air_density = 1.1716, wdp_rotorDiameter = [126.4],
          wdp_Cp = [0.3], wdp_generatorEfficiency = [0.944],
          wdp_wtVelocity = [5], wdp_rated_power = [5000],
          wdp_cut_in_speed = [3], wdp_cp_curve_cp = [0, 1], wdp_cp_curve_wind_speed = [0, 10],
          wdp_use_power_curve_definition = False, wdp_rated_wind_speed = [11.4],
          wdp_cut_out_speed = [25] \<rparr>
        \<lparr> wdp_wtPower = [100], wdp_dir_power = 100 \<rparr> = Inr (params', J)
      \<and> dom J = set (WindDirectionPower_declared_outputs 0)
                 \<times> {''wtVelocity'' @ string_of_nat 0, ''rotorDiameter'', ''Cp''}"
    using k [THEN conjunct2, THEN conjunct2, THEN conjunct2, THEN conjunct1] by auto
  have sp: "\<exists>J. SpacingComp_linearize [0, 3] [0, 4] = Inr J
      \<and> dom J = set SpacingComp_declared_outputs \<times> fst ` set SpacingComp_declared_params"
    using k [THEN conjunct2, THEN conjunct2, THEN conjunct2, THEN conjunct2, THEN conjunct1]
    by simp
  have bc: "\<exists>J. BoundaryComp_linearize
        \<lparr> bc_nTurbines = 1, bc_nVertices = 1, bc_type = ''circle'',
          bc_declared_params = [(''boundary_radius'', True), (''boundary_center'', True),
                                (''turbineX'', False), (''turbineY'', False)],
          bc_declared_outputs = [''boundaryDistances''] \<rparr>
        \<lparr> bc_boundaryVertices = [], bc_boundaryNormals = [], bc_boundary_radius = 10,
          bc_boundary_center = [0, 0], bc_turbineX = [10], bc_turbineY = [0] \<rparr> = Inr J
      \<and> dom J = {''boundaryDistances''} \<times> {''turbineX'', ''turbineY''}"
    using k [THEN conjunct2, THEN conjunct2, THEN conjunct2, THEN conjunct2, THEN conjunct2,
        THEN conjunct1]
    by (simp add: BoundaryComp_init_def differentiable_params_def)
  have cp: "\<exists>J. CPCT_Interpolate_Gradients_linearize 1 0
        \<lparr> cpct_yaw = [0], cpct_wtVelocity = [100], cpct_pP = 3,
          cpct_windSpeedToCPCT_wind_speed = [0, 10], cpct_windSpeedToCPCT_CP = [0, 1],
          cpct_windSpeedToCPCT_CT = [0, 1/2] \<rparr> = Inr J
      \<and> dom J = set CPCT_declared_outputs \<times> set (differentiable_params (CPCT_declared_params 0))"
    using k [THEN conjunct2, THEN conjunct2, THEN conjunct2, THEN conjunct2, THEN conjunct2,
        THEN conjunct2, THEN conjunct2, THEN conjunct2, THEN conjunct1]
    by simp
  show ?thesis
    using aep wdp sp bc cp by blast
qed

end
